theory Spec2Isabelle
  imports Main "HOL-Library.Word" "HOL-Library.Sublist"
begin

section \<open>Strings of the extension\<close>

text \<open>
  A JavaScript string is a list of UTF-16 code units.  The model's strings are Isabelle
  strings, over an alphabet of 256 characters.  A character stands for the code unit of
  its own number (Latin-1), except five of the C1 control positions \<open>0x80\<close> to \<open>0x9F\<close>,
  which are taken not to occur in a resume, a page or a url: they stand for the five code
  units above 255 that the patterns of the source name, the en dash, three bullets and
  the rupee sign.
  \<open>codeUnit\<close> is the code unit a character stands for, what \<open>charCodeAt\<close> returns.  None of
  the five is white space, a digit or a word character, and none has another letter case,
  so the character tests below read the number of the character.  Every other code unit
  above 255 is outside the model.
\<close>

definition enDash :: char where
  \<comment> \<open>U+2013\<close>
  "enDash = CHR 0x96"

definition bullet :: char where
  \<comment> \<open>U+2022\<close>
  "bullet = CHR 0x95"

definition smallSquare :: char where
  \<comment> \<open>U+25AA\<close>
  "smallSquare = CHR 0x8D"

definition whiteBullet :: char where
  \<comment> \<open>U+25E6\<close>
  "whiteBullet = CHR 0x8F"

definition rupee :: char where
  \<comment> \<open>U+20B9\<close>
  "rupee = CHR 0x80"

definition codeUnit :: "char \<Rightarrow> nat" where
  "codeUnit c =
     (if c = enDash then 0x2013
      else if c = bullet then 0x2022
      else if c = smallSquare then 0x25AA
      else if c = whiteBullet then 0x25E6
      else if c = rupee then 0x20B9
      else of_char c)"

definition isSpace :: "char \<Rightarrow> bool" where
  \<comment> \<open>white space and line terminators of ECMAScript below 256: what \<open>trim\<close> strips and \<open>\s\<close> matches\<close>
  "isSpace c = ((of_char c :: nat) \<in> {9, 10, 11, 12, 13, 32, 160})"

definition isDigit :: "char \<Rightarrow> bool" where
  "isDigit c = (48 \<le> (of_char c :: nat) \<and> (of_char c :: nat) \<le> 57)"

definition isWord :: "char \<Rightarrow> bool" where
  \<comment> \<open>\<open>\w\<close>: letters, digits and the underscore, ASCII only\<close>
  "isWord c = (let n = (of_char c :: nat) in
     (48 \<le> n \<and> n \<le> 57) \<or> (65 \<le> n \<and> n \<le> 90) \<or> n = 95 \<or> (97 \<le> n \<and> n \<le> 122))"

definition toLowerChar :: "char \<Rightarrow> char" where
  "toLowerChar c = (let n = (of_char c :: nat) in
     if (65 \<le> n \<and> n \<le> 90) \<or> (192 \<le> n \<and> n \<le> 222 \<and> n \<noteq> 215)
     then char_of (n + 32) else c)"

definition toLowerCase :: "string \<Rightarrow> string" where
  "toLowerCase s = map toLowerChar s"

definition trim :: "string \<Rightarrow> string" where
  "trim s = rev (dropWhile isSpace (rev (dropWhile isSpace s)))"

fun str_includes :: "string \<Rightarrow> string \<Rightarrow> bool" where
  "str_includes [] sub = (sub = [])"
| "str_includes (c # cs) sub = (prefix sub (c # cs) \<or> str_includes cs sub)"

definition startsWith :: "string \<Rightarrow> string \<Rightarrow> bool" where
  "startsWith s p = prefix p s"

fun showNat :: "nat \<Rightarrow> string" where
  "showNat n = (if n < 10 then [''0123456789'' ! n]
     else showNat (n div 10) @ [''0123456789'' ! (n mod 10)])"

declare showNat.simps [simp del]

fun toString36 :: "nat \<Rightarrow> string" where
  "toString36 n = (if n < 36 then [''0123456789abcdefghijklmnopqrstuvwxyz'' ! n]
     else toString36 (n div 36) @ [''0123456789abcdefghijklmnopqrstuvwxyz'' ! (n mod 36)])"

declare toString36.simps [simp del]

fun join :: "string \<Rightarrow> string list \<Rightarrow> string" where
  "join sep [] = []"
| "join sep [x] = x"
| "join sep (x # y # ys) = x @ sep @ join sep (y # ys)"

fun splitOn :: "(char \<Rightarrow> bool) \<Rightarrow> string \<Rightarrow> string list" where
  \<comment> \<open>\<open>split\<close> at every single separator character; always at least one piece\<close>
  "splitOn p [] = [[]]"
| "splitOn p (c # cs) =
     (if p c then [] # splitOn p cs
      else (case splitOn p cs of [] \<Rightarrow> [[c]] | l # ls \<Rightarrow> (c # l) # ls))"

definition splitLines :: "string \<Rightarrow> string list" where
  "splitLines s = splitOn (\<lambda>c. c = CHR 0x0A) s"


section \<open>JSON values\<close>

text \<open>
  A value as \<open>JSON.parse\<close> returns it.  A number carries its decimal rendering
  (what \<open>String\<close> gives for it); an object is its list of members.
\<close>

datatype json =
    JNull
  | JBool bool
  | JNum string
  | JStr string
  | JArr "json list"
  | JObj "(string \<times> json) list"

fun truthy :: "json \<Rightarrow> bool" where
  "truthy JNull = False"
| "truthy (JBool b) = b"
| "truthy (JNum s) = (s \<noteq> ''0'' \<and> s \<noteq> ''NaN'')"
| "truthy (JStr s) = (s \<noteq> [])"
| "truthy (JArr xs) = True"
| "truthy (JObj kvs) = True"

fun member :: "json \<Rightarrow> string \<Rightarrow> json option" where
  \<comment> \<open>\<open>v?.name\<close> for a name no string, array or number owns; \<open>None\<close> is \<open>undefined\<close>\<close>
  "member (JObj kvs) name = map_of kvs name"
| "member v name = None"

fun js_String :: "json \<Rightarrow> string option"
  and js_joinElems :: "json list \<Rightarrow> string option" where
  \<comment> \<open>\<open>String(v)\<close>; \<open>None\<close> is the TypeError for an object whose own \<open>toString\<close> member hides the inherited method\<close>
  "js_String JNull = Some ''null''"
| "js_String (JBool b) = Some (if b then ''true'' else ''false'')"
| "js_String (JNum s) = Some s"
| "js_String (JStr s) = Some s"
| "js_String (JArr xs) = js_joinElems xs"
| "js_String (JObj kvs) =
     (if ''toString'' \<in> set (map fst kvs) then None else Some ''[object Object]'')"
| "js_joinElems [] = Some []"
| "js_joinElems (x # xs) =
     (case (if x = JNull then Some [] else js_String x) of
        None \<Rightarrow> None
      | Some s \<Rightarrow>
          (if xs = [] then Some s
           else (case js_joinElems xs of None \<Rightarrow> None | Some r \<Rightarrow> Some (s @ '','' @ r))))"


section \<open>Background worker: backend errors\<close>

definition shortDescriptionMessage :: string where
  "shortDescriptionMessage =
     ''Could not read enough job description from this page yet. Scroll/open full job details and try again in a few seconds.''"

definition genericMessage :: "nat \<Rightarrow> string \<Rightarrow> string" where
  "genericMessage status bodyText = ''Server error '' @ showNat status @ '': '' @ bodyText"

definition itemTest :: "json \<Rightarrow> bool option" where
  \<comment> \<open>the callback of \<open>list.some\<close>; \<open>None\<close> when \<open>String\<close> throws\<close>
  "itemTest item =
     (let msg = (case member item ''msg'' of
                   None \<Rightarrow> JStr []
                 | Some m \<Rightarrow> if truthy m then m else JStr [])
      in case js_String msg of
           None \<Rightarrow> None
         | Some s \<Rightarrow> Some (str_includes (toLowerCase s) ''job description is too short''))"

fun some_item :: "json list \<Rightarrow> bool option" where
  \<comment> \<open>\<open>Array.prototype.some\<close>: left to right, stops at the first hit or the first exception\<close>
  "some_item [] = Some False"
| "some_item (x # xs) =
     (case itemTest x of
        None \<Rightarrow> None
      | Some True \<Rightarrow> Some True
      | Some False \<Rightarrow> some_item xs)"

definition parseBackendError :: "(string \<Rightarrow> json option) \<Rightarrow> nat \<Rightarrow> string \<Rightarrow> string" where
  \<comment> \<open>\<open>JSON_parse\<close> is the platform's \<open>JSON.parse\<close>, \<open>None\<close> when it throws\<close>
  "parseBackendError JSON_parse status bodyText =
     (if status = 422 then
        (case JSON_parse (if bodyText = [] then ''{}'' else bodyText) of
           None \<Rightarrow> genericMessage status bodyText
         | Some parsed \<Rightarrow>
             (let list = (case member parsed ''detail'' of
                            Some (JArr xs) \<Rightarrow> xs
                          | _ \<Rightarrow> [])
              in case some_item list of
                   Some True \<Rightarrow> shortDescriptionMessage
                 | _ \<Rightarrow> genericMessage status bodyText))
      else genericMessage status bodyText)"


section \<open>Background worker: storage, quota ledger, result cache\<close>

definition DAILY_LIMIT :: int where
  "DAILY_LIMIT = 10"

definition CACHE_TTL_MS :: int where
  "CACHE_TTL_MS = 24 * 60 * 60 * 1000"

record QuotaRecord =
  date :: int
  remaining :: int

record CacheEntry =
  result :: json
  timestamp :: int
  entry_url :: string

text \<open>
  The part of \<open>chrome.storage.local\<close> the worker's ledger and cache use: the
  \<open>rateLimit\<close> key and the \<open>cache_...\<close> keys.
\<close>

record storage =
  rateLimit :: "QuotaRecord option"
  entries :: "string \<rightharpoonup> CacheEntry"

definition getTodayKey :: "int \<Rightarrow> int" where
  \<comment> \<open>the UTC calendar day of the clock reading \<open>now\<close> (milliseconds): the source's ISO date
      string, represented by the number of the day it names\<close>
  "getTodayKey now = now div 86400000"

definition getRateLimitStatus :: "int \<Rightarrow> storage \<Rightarrow> int \<times> int \<times> int" where
  \<comment> \<open>\<open>(remaining, total, date)\<close>\<close>
  "getRateLimitStatus now st =
     (let today = getTodayKey now in
      case rateLimit st of
        None \<Rightarrow> (DAILY_LIMIT, DAILY_LIMIT, today)
      | Some rl \<Rightarrow>
          if date rl \<noteq> today then (DAILY_LIMIT, DAILY_LIMIT, today)
          else (remaining rl, DAILY_LIMIT, today))"

definition checkAndDecrementRateLimit :: "int \<Rightarrow> storage \<Rightarrow> bool \<times> storage" where
  "checkAndDecrementRateLimit now st =
     (let today = getTodayKey now;
          rl = (case rateLimit st of
                  None \<Rightarrow> \<lparr>date = today, remaining = DAILY_LIMIT\<rparr>
                | Some r \<Rightarrow> if date r \<noteq> today then \<lparr>date = today, remaining = DAILY_LIMIT\<rparr> else r)
      in if remaining rl \<le> 0 then (False, st)
         else (True, st\<lparr>rateLimit := Some (rl\<lparr>remaining := remaining rl - 1\<rparr>)\<rparr>))"

definition refundRateLimitToken :: "int \<Rightarrow> storage \<Rightarrow> storage" where
  "refundRateLimitToken now st =
     (let today = getTodayKey now in
      case rateLimit st of
        None \<Rightarrow> st
      | Some r \<Rightarrow>
          if date r = today
          then st\<lparr>rateLimit := Some (r\<lparr>remaining := min (remaining r + 1) DAILY_LIMIT\<rparr>)\<rparr>
          else st)"

definition hashUrl :: "string \<Rightarrow> string" where
  \<comment> \<open>the 32-bit rolling hash, its absolute value written in base 36\<close>
  "hashUrl u =
     toString36 (nat \<bar>sint (foldl (\<lambda>h c. push_bit 5 h - h + of_nat (codeUnit c)) (0 :: 32 word) u)\<bar>)"

definition cacheKey :: "string \<Rightarrow> string" where
  "cacheKey u = ''cache_'' @ hashUrl u"

definition getCachedResult :: "int \<Rightarrow> string \<Rightarrow> storage \<Rightarrow> json \<times> storage" where
  \<comment> \<open>\<open>JNull\<close> is the source's \<open>null\<close>; an empty \<open>u\<close> stands for a missing or empty url\<close>
  "getCachedResult now u st =
     (if u = [] then (JNull, st)
      else (case entries st (cacheKey u) of
              None \<Rightarrow> (JNull, st)
            | Some entry \<Rightarrow>
                if now - timestamp entry > CACHE_TTL_MS
                then (JNull, st\<lparr>entries := (entries st)(cacheKey u := None)\<rparr>)
                else (result entry, st)))"

definition cacheResult :: "int \<Rightarrow> string \<Rightarrow> json \<Rightarrow> storage \<Rightarrow> storage" where
  "cacheResult now u res st =
     (if u = [] then st
      else st\<lparr>entries := (entries st)(cacheKey u \<mapsto> \<lparr>result = res, timestamp = now, entry_url = u\<rparr>)\<rparr>)"


section \<open>Background worker: the analysis handler\<close>

datatype SiteType = LINKEDIN | INTERNSHALA | GENERIC | UNSUPPORTED

record JobPosting =
  title :: string
  company :: string
  location :: string
  experience :: string
  salary :: string
  description :: string
  skills :: "string list"
  site :: SiteType
  url :: string
  extractedAt :: string

datatype js_error =
    Error string
  | JsonSyntaxError
  | FetchRejected

datatype response =
    Success json bool
  | Failure string bool

record request =
  endpoint :: string
  req_jobData :: JobPosting
  req_resumeText :: string

datatype fetched = Rejected | Reply nat string

text \<open>
  What one run of the handler reads from outside: the clock at each of its four
  readings, the outcome of \<open>getSettings\<close> and \<open>normalizeBackendUrl\<close> (the backend
  url, or the error thrown for it), and the network (\<open>Rejected\<close> is a network error or
  the 60 s timeout).
\<close>

record env =
  t_cache :: int
  t_debit :: int
  t_store :: int
  t_refund :: int
  backendUrl :: "js_error + string"
  fetch :: "request \<Rightarrow> fetched"

definition limitMessage :: string where
  "limitMessage = ''Daily analysis limit reached (10/day). Resets at midnight.''"

definition response_ok :: "nat \<Rightarrow> bool" where
  "response_ok status = (200 \<le> status \<and> status \<le> 299)"

definition guardedCall ::
  "(string \<Rightarrow> json option) \<Rightarrow> env \<Rightarrow> JobPosting \<Rightarrow> string \<Rightarrow> string \<Rightarrow> storage
     \<Rightarrow> (js_error + json) \<times> storage \<times> request list" where
  \<comment> \<open>the body of the \<open>try\<close> block: its value or the exception it ends with, the store, the requests sent\<close>
  "guardedCall JSON_parse e jobData resumeText u st =
     (case backendUrl e of
        Inl err \<Rightarrow> (Inl err, st, [])
      | Inr b \<Rightarrow>
          (let req = \<lparr>endpoint = b @ ''/analyze'', req_jobData = jobData, req_resumeText = resumeText\<rparr>
           in case fetch e req of
                Rejected \<Rightarrow> (Inl FetchRejected, st, [req])
              | Reply status bodyText \<Rightarrow>
                  if \<not> response_ok status
                  then (Inl (Error (parseBackendError JSON_parse status bodyText)), st, [req])
                  else (case JSON_parse bodyText of
                          None \<Rightarrow> (Inl JsonSyntaxError, st, [req])
                        | Some res \<Rightarrow> (Inr res, cacheResult (t_store e) u res st, [req]))))"

definition handleAnalyzeJob ::
  "(string \<Rightarrow> json option) \<Rightarrow> env \<Rightarrow> JobPosting option \<Rightarrow> string \<Rightarrow> string \<Rightarrow> storage
     \<Rightarrow> (js_error + response) \<times> storage \<times> request list" where
  \<comment> \<open>\<open>Inl\<close> is the rejection of the promise; the last component lists the requests sent to the backend\<close>
  "handleAnalyzeJob JSON_parse e jobData resumeText u st =
     (if resumeText = [] \<or> trim resumeText = []
      then (Inl (Error ''Resume is required. Please upload or paste your resume first.''), st, [])
      else (case (case jobData of
                    None \<Rightarrow> None
                  | Some j \<Rightarrow> if title j = [] then None else Some j) of
              None \<Rightarrow>
                (Inl (Error ''Job details are missing. Open a supported job page and try again.''), st, [])
            | Some j \<Rightarrow>
                (case getCachedResult (t_cache e) u st of
                   (cached, st1) \<Rightarrow>
                     if truthy cached then (Inr (Success cached True), st1, [])
                     else (case checkAndDecrementRateLimit (t_debit e) st1 of
                             (limitOk, st2) \<Rightarrow>
                               if \<not> limitOk then (Inr (Failure limitMessage True), st2, [])
                               else (case guardedCall JSON_parse e j resumeText u st2 of
                                       (Inr res, st3, sent) \<Rightarrow> (Inr (Success res False), st3, sent)
                                     | (Inl err, st3, sent) \<Rightarrow>
                                         (Inl err, refundRateLimitToken (t_refund e) st3, sent))))))"


section \<open>Background worker: notions of the specification and sample inputs\<close>

datatype ledger_op = Debit | Credit

fun ledger_step :: "storage \<Rightarrow> ledger_op \<times> int \<Rightarrow> storage" where
  \<comment> \<open>one ledger call at clock reading \<open>now\<close>\<close>
  "ledger_step st (Debit, now) = snd (checkAndDecrementRateLimit now st)"
| "ledger_step st (Credit, now) = refundRateLimitToken now st"

definition run_ledger :: "storage \<Rightarrow> (ledger_op \<times> int) list \<Rightarrow> storage" where
  "run_ledger st ops = foldl ledger_step st ops"

definition quota_ok :: "storage \<Rightarrow> bool" where
  \<comment> \<open>the stored record, when there is one, is a QuotaRecord: its counter lies in \<open>[0, DAILY_LIMIT]\<close>\<close>
  "quota_ok st = (case rateLimit st of
                    None \<Rightarrow> True
                  | Some r \<Rightarrow> 0 \<le> remaining r \<and> remaining r \<le> DAILY_LIMIT)"

definition msgText :: "json \<Rightarrow> string option" where
  \<comment> \<open>the text of the item's \<open>msg\<close>: the empty text for a \<open>msg\<close> that is missing, null, false, zero
      or empty, else what \<open>String\<close> makes of it; \<open>None\<close> when that conversion throws\<close>
  "msgText item =
     (case member item ''msg'' of
        None \<Rightarrow> Some []
      | Some m \<Rightarrow> if truthy m then js_String m else Some [])"

definition mentionsTooShort :: "json \<Rightarrow> bool" where
  \<comment> \<open>the text of the item's \<open>msg\<close> says, in any letter case, that the job description is too short\<close>
  "mentionsTooShort item =
     (case msgText item of
        None \<Rightarrow> False
      | Some m \<Rightarrow> str_includes (toLowerCase m) ''job description is too short'')"

definition body_short :: string where
  \<open>body_short = ''{"detail":[{"msg":"job description is too short"}]}''\<close>

definition parse_short :: "string \<Rightarrow> json option" where
  \<comment> \<open>\<open>JSON.parse\<close> on the one body the samples use\<close>
  "parse_short s =
     (if s = body_short
      then Some (JObj [(''detail'', JArr [JObj [(''msg'', JStr ''job description is too short'')]])])
      else None)"

definition body_object :: string where
  \<open>body_object = ''{"detail":[{"msg":{"toString":1}},{"msg":"job description is too short"}]}''\<close>

definition parse_object :: "string \<Rightarrow> json option" where
  \<comment> \<open>\<open>JSON.parse\<close> on a body whose first item has an object for \<open>msg\<close>\<close>
  "parse_object s =
     (if s = body_object
      then Some (JObj [(''detail'',
                   JArr [JObj [(''msg'', JObj [(''toString'', JNum ''1'')])],
                         JObj [(''msg'', JStr ''job description is too short'')]])])
      else None)"

definition body_required :: string where
  \<open>body_required = ''{"detail":[{"msg":"field required"}]}''\<close>

definition parse_required :: "string \<Rightarrow> json option" where
  \<comment> \<open>\<open>JSON.parse\<close> on a body whose one item reports another error, and on the body \<open>null\<close>\<close>
  "parse_required s =
     (if s = body_required
      then Some (JObj [(''detail'', JArr [JObj [(''msg'', JStr ''field required'')]])])
      else if s = ''null'' then Some JNull
      else None)"

definition store_empty :: storage where
  "store_empty = \<lparr>rateLimit = None, entries = Map.empty\<rparr>"

definition store_of :: "int \<Rightarrow> int \<Rightarrow> storage" where
  \<comment> \<open>a store whose ledger record is dated \<open>d\<close> with \<open>n\<close> calls left, and no cache entry\<close>
  "store_of d n = \<lparr>rateLimit = Some \<lparr>date = d, remaining = n\<rparr>, entries = Map.empty\<rparr>"

definition url_search :: string where
  "url_search = ''https://www.linkedin.com/jobs/search/?currentJobId=12345''"

definition result_sample :: json where
  "result_sample = JObj [(''match_percentage'', JNum ''72'')]"

definition job_sample :: JobPosting where
  "job_sample = \<lparr>title = ''Senior Engineer'', company = ''Acme'', location = [],
     experience = ''Not specified'', salary = ''Not disclosed'', description = [], skills = [],
     site = LINKEDIN, url = url_search, extractedAt = ''2024-01-01T00:00:00.000Z''\<rparr>"

definition fetch_down :: "request \<Rightarrow> fetched" where
  "fetch_down req = Rejected"

definition fetch_422 :: "request \<Rightarrow> fetched" where
  "fetch_422 req = Reply 422 body_short"

definition env_day0 :: env where
  \<comment> \<open>every clock reading on day 0; the backend unreachable\<close>
  "env_day0 = \<lparr>t_cache = 1000, t_debit = 2000, t_store = 3000, t_refund = 4000,
     backendUrl = Inr ''http://localhost:8000'', fetch = fetch_down\<rparr>"

definition env_midnight :: env where
  \<comment> \<open>the debit one second before UTC midnight, the refund one second after it\<close>
  "env_midnight = \<lparr>t_cache = 86398000, t_debit = 86399000, t_store = 86400500, t_refund = 86401000,
     backendUrl = Inr ''http://localhost:8000'', fetch = fetch_down\<rparr>"

definition env_422 :: env where
  "env_422 = \<lparr>t_cache = 1000, t_debit = 2000, t_store = 3000, t_refund = 4000,
     backendUrl = Inr ''http://localhost:8000'', fetch = fetch_422\<rparr>"

definition ledger_ops_sample :: "(ledger_op \<times> int) list" where
  "ledger_ops_sample = [(Debit, 1000), (Debit, 2000), (Credit, 3000), (Credit, 4000), (Credit, 5000)]"


section \<open>Regular expressions, as the extension uses them\<close>

text \<open>
  The patterns of the source are built from character classes, sequence, ordered
  alternation, the greedy \<open>?\<close>, greedy repetition of a character class, capture groups,
  \<open>\b\<close> and \<open>^\<close>.  A match state is the character before the position (\<open>None\<close> at the
  start of the input), the rest of the input, and the captures made so far.  \<open>re_states\<close>
  lists the states in which a pattern can end, in the order in which a backtracking
  matcher tries them: the head of the list is the match JavaScript reports.
\<close>

datatype re =
    Chr "char \<Rightarrow> bool"
  | Cat re re
  | Alt re re
  | Opt re
  | Many "char \<Rightarrow> bool"
  | Grp nat re
  | Wordb
  | Bol
  | Eps

type_synonym mstate = "char option \<times> string \<times> (nat \<times> string) list"

fun many_states :: "(char \<Rightarrow> bool) \<Rightarrow> char option \<Rightarrow> string \<Rightarrow> (nat \<times> string) list \<Rightarrow> mstate list" where
  \<comment> \<open>greedy: the longest run first, then each shorter one\<close>
  "many_states p b [] caps = [(b, [], caps)]"
| "many_states p b (c # cs) caps =
     (if p c then many_states p (Some c) cs caps @ [(b, c # cs, caps)] else [(b, c # cs, caps)])"

definition wordAt :: "char option \<Rightarrow> bool" where
  "wordAt x = (case x of None \<Rightarrow> False | Some c \<Rightarrow> isWord c)"

definition nextChar :: "string \<Rightarrow> char option" where
  "nextChar s = (case s of [] \<Rightarrow> None | c # cs \<Rightarrow> Some c)"

fun re_states :: "re \<Rightarrow> mstate \<Rightarrow> mstate list" where
  "re_states (Chr p) (b, s, caps) =
     (case s of [] \<Rightarrow> [] | c # cs \<Rightarrow> if p c then [(Some c, cs, caps)] else [])"
| "re_states (Cat r1 r2) st = concat (map (re_states r2) (re_states r1 st))"
| "re_states (Alt r1 r2) st = re_states r1 st @ re_states r2 st"
| "re_states (Opt r) st = re_states r st @ [st]"
| "re_states (Many p) (b, s, caps) = many_states p b s caps"
| "re_states (Grp n r) (b, s, caps) =
     map (\<lambda>(b', s', caps'). (b', s', (n, take (length s - length s') s) # caps'))
       (re_states r (b, s, caps))"
| "re_states Wordb (b, s, caps) =
     (if wordAt b \<noteq> wordAt (nextChar s) then [(b, s, caps)] else [])"
| "re_states Bol (b, s, caps) = (if b = None then [(b, s, caps)] else [])"
| "re_states Eps st = [st]"

definition Plus :: "(char \<Rightarrow> bool) \<Rightarrow> re" where
  "Plus p = Cat (Chr p) (Many p)"

definition lit :: "string \<Rightarrow> re" where
  \<comment> \<open>the characters of the literal, one after the other\<close>
  "lit w = foldr (\<lambda>c r. Cat (Chr (\<lambda>x. x = c)) r) w Eps"

definition liti :: "string \<Rightarrow> re" where
  \<comment> \<open>the same under the \<open>i\<close> flag\<close>
  "liti w = foldr (\<lambda>c r. Cat (Chr (\<lambda>x. toLowerChar x = toLowerChar c)) r) w Eps"

definition alts :: "re list \<Rightarrow> re" where
  \<comment> \<open>\<open>r1|r2|...|rn\<close>, tried from the left; the list is never empty in this theory\<close>
  "alts rs = foldr Alt (butlast rs) (last rs)"

definition seqs :: "re list \<Rightarrow> re" where
  "seqs rs = foldr Cat rs Eps"

text \<open>
  A match found: the index it starts at, the text it covers (\<open>m[0]\<close>) and its groups.
\<close>

record rmatch =
  m_index :: nat
  m_text :: string
  m_groups :: "(nat \<times> string) list"

definition group :: "rmatch \<Rightarrow> nat \<Rightarrow> string option" where
  \<comment> \<open>\<open>m[n]\<close>; \<open>None\<close> is \<open>undefined\<close>, a group that took no part\<close>
  "group m n = map_of (m_groups m) n"

fun re_search :: "re \<Rightarrow> char option \<Rightarrow> string \<Rightarrow> nat \<Rightarrow> rmatch option" where
  \<comment> \<open>the leftmost match at or after the current position, which has index \<open>i\<close>\<close>
  "re_search r b [] i =
     (case re_states r (b, [], []) of
        [] \<Rightarrow> None
      | (b', s', caps) # rest \<Rightarrow> Some \<lparr>m_index = i, m_text = [], m_groups = caps\<rparr>)"
| "re_search r b (c # cs) i =
     (case re_states r (b, c # cs, []) of
        [] \<Rightarrow> re_search r (Some c) cs (Suc i)
      | (b', s', caps) # rest \<Rightarrow>
          Some \<lparr>m_index = i, m_text = take (length (c # cs) - length s') (c # cs), m_groups = caps\<rparr>)"

definition str_match :: "string \<Rightarrow> re \<Rightarrow> rmatch option" where
  \<comment> \<open>\<open>text.match(re)\<close> for a pattern without the \<open>g\<close> flag\<close>
  "str_match s r = re_search r None s 0"

definition re_test :: "re \<Rightarrow> string \<Rightarrow> bool" where
  "re_test r s = (str_match s r \<noteq> None)"

fun re_scan :: "re \<Rightarrow> char option \<Rightarrow> string \<Rightarrow> nat \<Rightarrow> nat \<Rightarrow> rmatch list" where
  \<comment> \<open>every match from the left, none overlapping an earlier one: \<open>skip\<close> counts the
      characters still covered by the last match\<close>
  "re_scan r b [] i skip =
     (if skip > 0 then []
      else (case re_states r (b, [], []) of
              [] \<Rightarrow> []
            | (b', s', caps) # rest \<Rightarrow> [\<lparr>m_index = i, m_text = [], m_groups = caps\<rparr>]))"
| "re_scan r b (c # cs) i skip =
     (if skip > 0 then re_scan r (Some c) cs (Suc i) (skip - 1)
      else (case re_states r (b, c # cs, []) of
              [] \<Rightarrow> re_scan r (Some c) cs (Suc i) 0
            | (b', s', caps) # rest \<Rightarrow>
                \<lparr>m_index = i, m_text = take (length (c # cs) - length s') (c # cs), m_groups = caps\<rparr>
                  # re_scan r (Some c) cs (Suc i) (length (c # cs) - length s' - 1)))"

definition matchAll :: "string \<Rightarrow> re \<Rightarrow> rmatch list" where
  \<comment> \<open>\<open>text.matchAll(re)\<close> for a pattern with the \<open>g\<close> flag\<close>
  "matchAll s r = re_scan r None s 0 0"

definition ci_prefix :: "string \<Rightarrow> string \<Rightarrow> bool" where
  \<comment> \<open>the text starts with the word, in any letter case\<close>
  "ci_prefix w s = (length w \<le> length s \<and> toLowerCase (take (length w) s) = toLowerCase w)"


section \<open>Resume parser: the section extractor\<close>

definition allSectionHeaders :: "string list" where
  "allSectionHeaders =
     [''experience'', ''work experience'', ''employment'', ''education'', ''skills'',
      ''technical skills'', ''projects'', ''certifications'', ''achievements'',
      ''summary'', ''objective'', ''contact'', ''references'', ''publications'', ''languages'']"

definition isHeading :: "string list \<Rightarrow> string \<Rightarrow> bool" where
  \<comment> \<open>the test that enters the section, on a raw line\<close>
  "isHeading headings line =
     (let lower = trim (toLowerCase line)
      in list_ex (\<lambda>h. lower = h \<or> startsWith lower (h @ '':'') \<or> startsWith lower (h @ '' ''))
           headings)"

definition isStop :: "string list \<Rightarrow> string \<Rightarrow> bool" where
  \<comment> \<open>the test that leaves the section, on a raw line\<close>
  "isStop headings line =
     (let lower = trim (toLowerCase line)
      in list_ex (\<lambda>h. (lower = h \<or> startsWith lower (h @ '':'')) \<and> h \<notin> set headings)
           allSectionHeaders)"

fun sectionLines :: "string list \<Rightarrow> bool \<Rightarrow> string list \<Rightarrow> string list" where
  \<comment> \<open>the loop over the lines, \<open>inSection\<close> as its second argument\<close>
  "sectionLines headings inSection [] = []"
| "sectionLines headings False (l # ls) = sectionLines headings (isHeading headings l) ls"
| "sectionLines headings True (l # ls) =
     (if isStop headings l then [] else l # sectionLines headings True ls)"

definition extractSection :: "string \<Rightarrow> string list \<Rightarrow> string option" where
  \<comment> \<open>\<open>None\<close> would be \<open>null\<close> or \<open>undefined\<close>; the source returns a string on its only path\<close>
  "extractSection text headings =
     Some (trim (join [CHR 0x0A] (sectionLines headings False (splitLines text))))"

definition falsy :: "string option \<Rightarrow> bool" where
  \<comment> \<open>\<open>!sectionText\<close>: a missing value or the empty string\<close>
  "falsy x = (case x of None \<Rightarrow> True | Some s \<Rightarrow> s = [])"

definition orElse :: "string option \<Rightarrow> string \<Rightarrow> string" where
  \<comment> \<open>\<open>sectionText || text\<close>\<close>
  "orElse x d = (case x of None \<Rightarrow> d | Some s \<Rightarrow> if s = [] then d else s)"


section \<open>Resume parser: the field extractors\<close>

definition contactClass :: "char \<Rightarrow> bool" where
  \<comment> \<open>the character class \<open>[@|linkedin|github|phone|mobile|\d{10}]\<close> under the \<open>i\<close> flag:
      its literal members, and the digits for \<open>\d\<close>\<close>
  "contactClass c = (toLowerChar c \<in> set ''@|linkedin|github|phone|mobile|{10}'' \<or> isDigit c)"

definition headerWordRe :: re where
  \<comment> \<open>\<open>/^(resume|curriculum|cv|objective|summary)/i\<close>\<close>
  "headerWordRe =
     seqs [Bol, Grp 1 (alts [liti ''resume'', liti ''curriculum'', liti ''cv'', liti ''objective'',
                            liti ''summary''])]"

fun firstName :: "string list \<Rightarrow> string" where
  \<comment> \<open>the \<open>for\<close> loop of \<open>extractName\<close>\<close>
  "firstName [] = []"
| "firstName (line # ls) =
     (if re_test (Chr contactClass) line then firstName ls
      else if length line > 50 \<or> length line < 2 then firstName ls
      else if re_test headerWordRe line then firstName ls
      else line)"

definition extractName :: "string \<Rightarrow> string" where
  "extractName text = firstName (take 5 (filter (\<lambda>l. l \<noteq> []) (map trim (splitLines text))))"

definition emailRe :: re where
  \<comment> \<open>\<open>/[\w.+-]+@[\w-]+\.[\w.]+/\<close>\<close>
  "emailRe =
     seqs [Plus (\<lambda>c. isWord c \<or> c \<in> set ''.+-''), lit ''@'', Plus (\<lambda>c. isWord c \<or> c = CHR ''-''),
           lit ''.'', Plus (\<lambda>c. isWord c \<or> c = CHR ''.'')]"

definition extractEmail :: "string \<Rightarrow> string" where
  "extractEmail text = (case str_match text emailRe of None \<Rightarrow> [] | Some m \<Rightarrow> m_text m)"

definition kw :: "re list \<Rightarrow> re" where
  \<comment> \<open>\<open>\b(a|b|...)\b\<close>\<close>
  "kw rs = seqs [Wordb, Grp 1 (alts rs), Wordb]"

definition js :: "string \<Rightarrow> re" where
  \<comment> \<open>\<open>name(?:\.js)?\<close>\<close>
  "js w = seqs [liti w, Opt (liti ''.js'')]"

definition opt_last :: "string \<Rightarrow> string \<Rightarrow> re" where
  \<comment> \<open>\<open>html5?\<close>: a word and an optional last character\<close>
  "opt_last w c = seqs [liti w, Opt (liti c)]"

definition techPatterns :: "re list" where
  "techPatterns =
     [kw [liti ''python'', liti ''javascript'', liti ''typescript'', liti ''java'', liti ''c++'',
          liti ''c#'', liti ''ruby'', liti ''go'', liti ''rust'', liti ''scala'', liti ''php'',
          liti ''swift'', liti ''kotlin'', liti ''r'', liti ''matlab'', liti ''bash'', liti ''shell''],
      kw [js ''react'', js ''vue'', liti ''angular'', js ''next'', liti ''nuxt'', liti ''svelte'',
          opt_last ''html'' ''5'', opt_last ''css'' ''3'', liti ''sass'', liti ''less'',
          liti ''tailwind'', liti ''bootstrap'', liti ''jquery'', liti ''webpack'', liti ''vite''],
      kw [js ''node'', js ''express'', liti ''django'', liti ''flask'', liti ''fastapi'',
          liti ''spring'', liti ''laravel'', liti ''rails'', liti ''asp.net'', liti ''graphql'',
          liti ''rest'', liti ''restful''],
      kw [liti ''mysql'', liti ''postgresql'', liti ''postgres'', liti ''mongodb'', liti ''redis'',
          liti ''elasticsearch'', liti ''sqlite'', liti ''cassandra'', liti ''dynamodb'',
          liti ''firebase'', liti ''supabase'', liti ''prisma''],
      kw [liti ''aws'', liti ''gcp'', liti ''azure'', liti ''docker'', liti ''kubernetes'',
          liti ''k8s'', liti ''ci/cd'', liti ''jenkins'', liti ''github actions'', liti ''terraform'',
          liti ''ansible'', liti ''linux'', liti ''nginx'', liti ''apache''],
      kw [liti ''tensorflow'', liti ''pytorch'', liti ''scikit-learn'', liti ''pandas'',
          liti ''numpy'', liti ''keras'', liti ''hugging face'', liti ''llm'', liti ''nlp'',
          liti ''machine learning'', liti ''deep learning'', liti ''data science''],
      kw [liti ''git'', liti ''github'', liti ''gitlab'', liti ''jira'', liti ''confluence'',
          liti ''figma'', liti ''postman'', liti ''swagger'', liti ''vs code'', liti ''intellij'',
          liti ''vim'']]"

definition set_add :: "string list \<Rightarrow> string \<Rightarrow> string list" where
  \<comment> \<open>\<open>Set.prototype.add\<close> on the members in insertion order\<close>
  "set_add xs x = (if x \<in> set xs then xs else xs @ [x])"

definition isSeparator :: "char \<Rightarrow> bool" where
  \<comment> \<open>\<open>[,\n\|\<dots>\t]\<close>: comma, line feed, bar, the four bullets (the middle dot is \<open>0xB7\<close>) and tab\<close>
  "isSeparator c = (c \<in> set '',|'' \<or> (of_char c :: nat) \<in> {10, 9, 183}
                      \<or> c \<in> {bullet, smallSquare, whiteBullet})"

definition cleanItem :: "string \<Rightarrow> string" where
  \<comment> \<open>\<open>s.replace(/[^\w\s.#+]/g, "").trim()\<close>\<close>
  "cleanItem s = trim (filter (\<lambda>c. isWord c \<or> isSpace c \<or> c \<in> set ''.#+'') s)"

definition skillsHeadings :: "string list" where
  "skillsHeadings =
     [''skills'', ''technical skills'', ''core competencies'', ''technologies'', ''tech stack'',
      ''tools'', ''competencies'']"

definition scanTech :: "string \<Rightarrow> string list" where
  \<comment> \<open>the loop over \<open>techPatterns\<close>: every match, lower-cased and trimmed, added to the set\<close>
  "scanTech rawText =
     foldl (\<lambda>acc pattern.
              foldl (\<lambda>acc' m. set_add acc' (trim (toLowerCase (m_text m))))
                acc (matchAll rawText pattern))
       [] techPatterns"

definition sectionItems :: "string \<Rightarrow> string list" where
  \<comment> \<open>the comma or bullet separated items of the skills section\<close>
  "sectionItems sectionText =
     filter (\<lambda>s. length s > 1 \<and> length s < 40) (map cleanItem (splitOn isSeparator sectionText))"

definition extractSkills :: "string \<Rightarrow> string list" where
  "extractSkills text =
     (let sectionText = extractSection text skillsHeadings;
          rawText = orElse sectionText text;
          skills1 = scanTech rawText;
          skills2 = (if falsy sectionText then skills1
                     else foldl (\<lambda>acc s. set_add acc (toLowerCase s)) skills1
                            (sectionItems (orElse sectionText [])))
      in take 60 (filter (\<lambda>s. length (trim s) > 1) skills2))"

definition dotted :: "string \<Rightarrow> string \<Rightarrow> re" where
  \<comment> \<open>\<open>b\.?tech\<close>\<close>
  "dotted a b = seqs [liti a, Opt (lit ''.''), liti b]"

definition educationRe :: re where
  "educationRe =
     Grp 1 (alts [dotted ''b'' ''tech'', dotted ''m'' ''tech'', dotted ''b'' ''e'', dotted ''m'' ''e'',
                  dotted ''b'' ''sc'', dotted ''m'' ''sc'', liti ''bca'', liti ''mca'', liti ''bachelor'',
                  liti ''master'', liti ''phd'', liti ''diploma'', liti ''engineering'',
                  liti ''computer science'', liti ''information technology'',
                  seqs [Chr isDigit, Chr isDigit, Chr isDigit, Chr isDigit]])"

definition extractEducation :: "string \<Rightarrow> string list" where
  "extractEducation text =
     (let sectionText = extractSection text [''education'', ''academic'', ''degree'', ''qualification'']
      in if falsy sectionText then []
         else take 5 (filter (re_test educationRe)
                        (filter (\<lambda>l. length l > 5 \<and> length l < 200)
                           (map trim (splitLines (orElse sectionText []))))))"

datatype years =
    Parsed string
  | Whole int

text \<open>
  \<open>Parsed s\<close> is the number \<open>parseFloat\<close> reads from the decimal numeral \<open>s\<close>;
  \<open>Whole n\<close> is the integer \<open>n\<close>.
\<close>

definition decimalRe :: re where
  \<comment> \<open>\<open>(\d+\.?\d*)\<close>\<close>
  "decimalRe = Grp 1 (seqs [Plus isDigit, Opt (lit ''.''), Many isDigit])"

definition directPatterns :: "re list" where
  "directPatterns =
     [seqs [decimalRe, Opt (lit ''+''), Many isSpace, liti ''year'', Opt (liti ''s''), Plus isSpace,
            Opt (seqs [liti ''of'', Plus isSpace]),
            alts [liti ''experience'', liti ''exp'', liti ''work'']],
      seqs [liti ''experience'', Plus (\<lambda>c. c = CHR '':'' \<or> isSpace c), decimalRe, Opt (lit ''+''),
            Many isSpace, liti ''year'', Opt (liti ''s'')]]"

definition yearRe :: re where
  \<comment> \<open>\<open>20\d{2}\<close>\<close>
  "yearRe = seqs [lit ''20'', Chr isDigit, Chr isDigit]"

definition yearRangeRe :: re where
  \<comment> \<open>\<open>/\b(20\d{2})\s*[-\<dots>]\s*(20\d{2}|present|current)\b/gi\<close>; the class lists the hyphen and
      the en dash\<close>
  "yearRangeRe =
     seqs [Wordb, Grp 1 yearRe, Many isSpace, Chr (\<lambda>c. c = CHR ''-'' \<or> c = enDash), Many isSpace,
           Grp 2 (alts [yearRe, liti ''present'', liti ''current'']), Wordb]"

definition parseInt :: "string \<Rightarrow> int" where
  \<comment> \<open>on a string of decimal digits, which is all the source passes\<close>
  "parseInt s = foldl (\<lambda>n c. 10 * n + (int (of_char c) - 48)) 0 s"

definition groupText :: "rmatch \<Rightarrow> nat \<Rightarrow> string" where
  "groupText m n = (case group m n of None \<Rightarrow> [] | Some s \<Rightarrow> s)"

definition rangeMonths :: "int \<Rightarrow> rmatch \<Rightarrow> int" where
  \<comment> \<open>the body of the loop over the year ranges; \<open>currentYear\<close> is \<open>new Date().getFullYear()\<close>\<close>
  "rangeMonths currentYear m =
     (let start = parseInt (groupText m 1);
          end = (if re_test (alts [liti ''present'', liti ''current'']) (groupText m 2)
                 then currentYear else parseInt (groupText m 2))
      in (end - start) * 12)"

fun firstDirect :: "re list \<Rightarrow> string \<Rightarrow> rmatch option" where
  "firstDirect [] text = None"
| "firstDirect (r # rs) text =
     (case str_match text r of None \<Rightarrow> firstDirect rs text | Some m \<Rightarrow> Some m)"

definition extractExperienceYears :: "int \<Rightarrow> string \<Rightarrow> years" where
  "extractExperienceYears currentYear text =
     (case firstDirect directPatterns text of
        Some m \<Rightarrow> Parsed (groupText m 1)
      | None \<Rightarrow>
          (let totalMonths = foldl (\<lambda>t m. t + rangeMonths currentYear m) 0 (matchAll text yearRangeRe)
           in if totalMonths > 0 then Whole ((totalMonths + 6) div 12) else Whole 0))"

definition stripBullet :: "string \<Rightarrow> string" where
  \<comment> \<open>\<open>l.replace(/^[\<dots>\-*]\s*/, "")\<close>; the class lists the four bullets, the hyphen and the star\<close>
  "stripBullet l =
     (case l of
        [] \<Rightarrow> []
      | c # cs \<Rightarrow> if c \<in> set ''-*'' \<or> (of_char c :: nat) = 183 \<or> c \<in> {bullet, smallSquare, whiteBullet}
                  then dropWhile isSpace cs else l)"

definition listItems :: "string option \<Rightarrow> string list" where
  \<comment> \<open>the shared tail of \<open>extractProjects\<close> and \<open>extractCertifications\<close>\<close>
  "listItems sectionText =
     (if falsy sectionText then []
      else take 8 (filter (\<lambda>l. length l > 5 \<and> length l < 150)
                     (map (\<lambda>l. trim (stripBullet l)) (splitLines (orElse sectionText [])))))"

definition extractProjects :: "string \<Rightarrow> string list" where
  "extractProjects text =
     listItems (extractSection text [''projects'', ''personal projects'', ''side projects'', ''portfolio''])"

definition extractCertifications :: "string \<Rightarrow> string list" where
  "extractCertifications text =
     listItems (extractSection text
       [''certifications'', ''certificates'', ''courses'', ''achievements'', ''awards''])"

record ParsedResume =
  name :: string
  email :: string
  resume_skills :: "string list"
  education :: "string list"
  experienceYears :: years
  projects :: "string list"
  certifications :: "string list"

definition extractResumeFields :: "int \<Rightarrow> string \<Rightarrow> ParsedResume" where
  "extractResumeFields currentYear text =
     \<lparr>name = extractName text,
      email = extractEmail text,
      resume_skills = extractSkills text,
      education = extractEducation text,
      experienceYears = extractExperienceYears currentYear text,
      projects = extractProjects text,
      certifications = extractCertifications text\<rparr>"

definition scenario1 :: string where
  "scenario1 = ''John Doe'' @ [CHR 0x0A] @ ''john@x.com'' @ [CHR 0x0A]
     @ ''Skills: Python, React, Docker'' @ [CHR 0x0A] @ ''Education'' @ [CHR 0x0A]
     @ ''B.Tech Computer Science 2020''"

section \<open>Resume parser: year ranges as the specification writes them\<close>

text \<open>
  A year range, read without the pattern matcher.  It starts where no letter, digit or
  underscore stands directly before it, with a year \<open>20YY\<close>; then come optional white
  space, a hyphen or an en dash, optional white space, and the end: a year \<open>20YY\<close>, or the
  word present or current in any letter case; no letter, digit or underscore follows
  the end.  The ranges of a text are taken from the left, and a range that starts inside
  an earlier one is not taken.
\<close>

datatype range_end = Until nat | Present | Current

definition isDash :: "char \<Rightarrow> bool" where
  "isDash c = (c = CHR ''-'' \<or> c = enDash)"

definition digitVal :: "char \<Rightarrow> nat" where
  "digitVal c = of_char c - 48"

definition year_at :: "string \<Rightarrow> nat option" where
  \<comment> \<open>the year \<open>20YY\<close> that stands here\<close>
  "year_at s =
     (case s of
        a # b # c # d # r \<Rightarrow>
          if a = CHR ''2'' \<and> b = CHR ''0'' \<and> isDigit c \<and> isDigit d
          then Some (2000 + 10 * digitVal c + digitVal d) else None
      | _ \<Rightarrow> None)"

definition open_end :: "string \<Rightarrow> bool" where
  \<comment> \<open>no letter, digit or underscore stands here\<close>
  "open_end s = (case s of [] \<Rightarrow> True | c # cs \<Rightarrow> \<not> isWord c)"

definition end_at :: "string \<Rightarrow> (range_end \<times> nat) option" where
  \<comment> \<open>the end of a range that stands here, and the number of characters it covers\<close>
  "end_at s =
     (case year_at s of
        Some y \<Rightarrow> if open_end (drop 4 s) then Some (Until y, 4) else None
      | None \<Rightarrow>
          if ci_prefix ''present'' s \<and> open_end (drop 7 s) then Some (Present, 7)
          else if ci_prefix ''current'' s \<and> open_end (drop 7 s) then Some (Current, 7)
          else None)"

definition range_at_start :: "string \<Rightarrow> ((nat \<times> range_end) \<times> nat) option" where
  \<comment> \<open>the range whose first year stands here\<close>
  "range_at_start s =
     (case year_at s of
        None \<Rightarrow> None
      | Some y \<Rightarrow>
          (case dropWhile isSpace (drop 4 s) of
             [] \<Rightarrow> None
           | d # r \<Rightarrow>
               if isDash d
               then (case end_at (dropWhile isSpace r) of
                       None \<Rightarrow> None
                     | Some (e, n) \<Rightarrow> Some ((y, e), length s - length (dropWhile isSpace r) + n))
               else None))"

definition range_at :: "char option \<Rightarrow> string \<Rightarrow> ((nat \<times> range_end) \<times> nat) option" where
  \<comment> \<open>the range that starts here, \<open>b\<close> being the character before, and the number of
      characters it covers\<close>
  "range_at b s =
     (case b of
        Some x \<Rightarrow> if isWord x then None else range_at_start s
      | None \<Rightarrow> range_at_start s)"

fun ranges_from :: "char option \<Rightarrow> string \<Rightarrow> nat \<Rightarrow> (nat \<times> range_end) list" where
  \<comment> \<open>\<open>k\<close> counts the characters still covered by the last range taken\<close>
  "ranges_from b [] k = []"
| "ranges_from b (c # cs) k =
     (if k > 0 then ranges_from (Some c) cs (k - 1)
      else (case range_at b (c # cs) of
              None \<Rightarrow> ranges_from (Some c) cs 0
            | Some (r, n) \<Rightarrow> r # ranges_from (Some c) cs (n - 1)))"

definition year_ranges :: "string \<Rightarrow> (nat \<times> range_end) list" where
  "year_ranges text = ranges_from None text 0"

definition end_year :: "int \<Rightarrow> range_end \<Rightarrow> int" where
  "end_year currentYear e = (case e of Until y \<Rightarrow> int y | Present \<Rightarrow> currentYear | Current \<Rightarrow> currentYear)"

definition range_years :: "int \<Rightarrow> nat \<times> range_end \<Rightarrow> int" where
  "range_years currentYear r = end_year currentYear (snd r) - int (fst r)"

definition ranges_text :: string where
  \<comment> \<open>two ranges that count, one with an en dash and spaces, one ending in a word; and
      three that do not: glued to a letter before, glued to a letter after, of another
      century\<close>
  "ranges_text = ''Acme 2019 '' @ [enDash] @ '' 2021, v2010-2012'' @ [CHR 0x0A]
     @ ''Beta 2022-Present, 2013-2014b, 1998-2005''"

fun needs :: "(char \<Rightarrow> bool) \<Rightarrow> re \<Rightarrow> bool" where
  \<comment> \<open>every match of the pattern consumes a character that satisfies \<open>q\<close>\<close>
  "needs q (Chr p) = (\<forall>x. p x \<longrightarrow> q x)"
| "needs q (Cat r1 r2) = (needs q r1 \<or> needs q r2)"
| "needs q (Alt r1 r2) = (needs q r1 \<and> needs q r2)"
| "needs q (Grp n r) = needs q r"
| "needs q r = False"

definition isY :: "char \<Rightarrow> bool" where
  "isY x = (toLowerChar x = CHR ''y'')"

definition isX :: "char \<Rightarrow> bool" where
  "isX x = (toLowerChar x = CHR ''x'')"

definition notDigit :: "char \<Rightarrow> bool" where
  "notDigit x = (\<not> isDigit x)"

definition section_sample :: string where
  \<comment> \<open>a resume with a skills section of one line\<close>
  "section_sample = ''Summary'' @ [CHR 0x0A] @ ''Skills'' @ [CHR 0x0A] @ ''Git, Kanban'' @ [CHR 0x0A]
     @ ''Education'' @ [CHR 0x0A] @ ''B.Tech''"


section \<open>Content script: job identity\<close>

definition getJobSignature :: "JobPosting \<Rightarrow> string" where
  "getJobSignature jobData =
     toLowerCase (trim (url jobData)) @ ''|'' @ toLowerCase (trim (title jobData)) @ ''|''
       @ toLowerCase (trim (company jobData))"

definition viewIdRe :: re where
  \<comment> \<open>\<open>/linkedin\.com\/jobs\/view\/(\d+)/i\<close>\<close>
  "viewIdRe = seqs [liti ''linkedin.com/jobs/view/'', Grp 1 (Plus isDigit)]"

definition currentJobIdRe :: re where
  \<comment> \<open>\<open>/[?&]currentJobId=(\d+)/i\<close>\<close>
  "currentJobIdRe = seqs [Chr (\<lambda>c. c \<in> set ''?&''), liti ''currentJobId='', Grp 1 (Plus isDigit)]"

definition firstGroup :: "string \<Rightarrow> re \<Rightarrow> string option" where
  \<comment> \<open>\<open>url.match(re)?.[1]\<close>\<close>
  "firstGroup s r = (case str_match s r of None \<Rightarrow> None | Some m \<Rightarrow> group m 1)"

definition getJobIdentity :: "string \<Rightarrow> JobPosting \<Rightarrow> string" where
  \<comment> \<open>\<open>href\<close> is \<open>location.href\<close>\<close>
  "getJobIdentity href jobData =
     (let u = (if url jobData = [] then href else url jobData) in
      case (case firstGroup u viewIdRe of None \<Rightarrow> None | Some v \<Rightarrow> if v = [] then None else Some v) of
        Some viewId \<Rightarrow> ''li_view_'' @ viewId
      | None \<Rightarrow>
          (case (case firstGroup u currentJobIdRe of
                   None \<Rightarrow> None
                 | Some v \<Rightarrow> if v = [] then None else Some v) of
             Some currentJobId \<Rightarrow> ''li_search_'' @ currentJobId
           | None \<Rightarrow> getJobSignature jobData))"


section \<open>Content script: the change detector\<close>

fun collapseSpaces :: "bool \<Rightarrow> string \<Rightarrow> string" where
  \<comment> \<open>\<open>replace(/\s+/g, " ")\<close>; the flag says that the last character was white space\<close>
  "collapseSpaces inRun [] = []"
| "collapseSpaces inRun (c # cs) =
     (if isSpace c then (if inRun then collapseSpaces True cs else CHR '' '' # collapseSpaces True cs)
      else c # collapseSpaces False cs)"

definition squeeze :: "string \<Rightarrow> string" where
  "squeeze s = trim (collapseSpaces False s)"

fun pickFallback :: "string \<Rightarrow> string list \<Rightarrow> string" where
  \<comment> \<open>the loop over the selectors, on the squeezed text each selector yields (empty when it
      finds nothing)\<close>
  "pickFallback fallback [] = fallback"
| "pickFallback fallback (txt # txts) =
     (let fallback' = (if length txt > length fallback then txt else fallback)
      in if length fallback' \<ge> 1200 then fallback' else pickFallback fallback' txts)"

definition ensureJobDescription :: "string list \<Rightarrow> JobPosting \<Rightarrow> JobPosting" where
  \<comment> \<open>\<open>pageTexts\<close>: the inner text of the page under each of the nine selectors, in order\<close>
  "ensureJobDescription pageTexts jobData =
     (let current = squeeze (description jobData) in
      if length current \<ge> 50 then jobData\<lparr>description := take 8000 current\<rparr>
      else (let fallback = pickFallback [] (map squeeze pageTexts);
                merged = trim (join [CHR 0x0A, CHR 0x0A] (filter (\<lambda>s. s \<noteq> []) [current, fallback]))
            in jobData\<lparr>description := take 8000 merged\<rparr>))"

definition anyChar :: "char \<Rightarrow> bool" where
  \<comment> \<open>\<open>.\<close>: every character but a line terminator\<close>
  "anyChar c = ((of_char c :: nat) \<notin> {10, 13})"

definition isJobPageUrl :: "string \<Rightarrow> bool" where
  "isJobPageUrl u =
     (re_test (liti ''linkedin.com/jobs/view/'') u
      \<or> re_test (seqs [liti ''linkedin.com/jobs/search/'', Many anyChar, liti ''currentJobId'']) u
      \<or> re_test (seqs [liti ''internshala.com/'', Grp 1 (alts [liti ''internship'', liti ''jobs'']),
                        liti ''/'']) u)"

datatype panel_content = Intro | ReadyPrompt | LoadingShown | ResultShown json | ErrorShown string

record panel =
  is_open :: bool
  header_title :: string
  header_company :: "string option"
  content :: panel_content

datatype message = UPSERT_CURRENT_JOB JobPosting | CLEAR_CURRENT_JOB

record page_state =
  overlayInjected :: bool
  currentJobData :: "JobPosting option"
  overlayPanel :: "panel option"
  lastOpenedUrl :: "string option"
  currentJobIdentity :: string
  lastExtractionSuccessAt :: int

definition initial_state :: page_state where
  "initial_state = \<lparr>overlayInjected = False, currentJobData = None, overlayPanel = None,
     lastOpenedUrl = None, currentJobIdentity = [], lastExtractionSuccessAt = 0\<rparr>"

definition injectOverlay :: "page_state \<Rightarrow> page_state" where
  \<comment> \<open>the panel as \<open>getInitialPanelHTML\<close> builds it\<close>
  "injectOverlay s =
     (if overlayInjected s \<and> overlayPanel s \<noteq> None then s
      else s\<lparr>overlayPanel := Some
               \<lparr>is_open = False,
                header_title = (case currentJobData s of
                                  None \<Rightarrow> ''Detected Job''
                                | Some j \<Rightarrow> if title j = [] then ''Detected Job'' else title j),
                header_company = (case currentJobData s of
                                    None \<Rightarrow> None
                                  | Some j \<Rightarrow> if company j = [] then None else Some (company j)),
                content = Intro\<rparr>,
             overlayInjected := True\<rparr>)"

definition updateSidebarJobHeader :: "JobPosting \<Rightarrow> panel \<Rightarrow> panel" where
  "updateSidebarJobHeader jobData p =
     p\<lparr>header_title := (if title jobData = [] then ''Detected Job'' else title jobData),
       header_company := (if trim (company jobData) = [] then None else Some (trim (company jobData)))\<rparr>"

definition showReadyState :: "panel \<Rightarrow> panel" where
  "showReadyState p = p\<lparr>content := ReadyPrompt\<rparr>"

definition openSidebar :: "string \<Rightarrow> page_state \<Rightarrow> page_state" where
  \<comment> \<open>step 1 of \<open>onPageChange\<close>\<close>
  "openSidebar u s =
     (if isJobPageUrl u \<and> lastOpenedUrl s \<noteq> Some u
      then (let s1 = s\<lparr>lastOpenedUrl := Some u\<rparr>;
                s2 = (if \<not> overlayInjected s1 then injectOverlay s1 else s1)
            in s2\<lparr>overlayPanel := map_option (\<lambda>p. p\<lparr>is_open := True\<rparr>) (overlayPanel s2)\<rparr>)
      else s)"

text \<open>
  One run of \<open>onPageChange\<close>: \<open>u\<close> is \<open>location.href\<close>, \<open>now\<close> the clock,
  \<open>extracted\<close> what \<open>tryExtractJobData\<close> returns, \<open>pageTexts\<close> what the page shows under
  the description selectors.  The result is the new state, the messages sent to the
  background worker, and whether the "new job" prompt was raised (\<open>isNewJob\<close>).
\<close>

definition onPageChange ::
  "string \<Rightarrow> int \<Rightarrow> JobPosting option \<Rightarrow> string list \<Rightarrow> page_state
     \<Rightarrow> page_state \<times> message list \<times> bool" where
  "onPageChange u now extracted pageTexts s0 =
     (let s = openSidebar u s0 in
      case extracted of
        None \<Rightarrow>
          if \<not> isJobPageUrl u
          then (s\<lparr>currentJobData := None, currentJobIdentity := [], lastExtractionSuccessAt := 0\<rparr>,
                [CLEAR_CURRENT_JOB], False)
          else if lastExtractionSuccessAt s \<noteq> 0 \<and> now - lastExtractionSuccessAt s > 12000
          then (s\<lparr>currentJobData := None, currentJobIdentity := []\<rparr>, [CLEAR_CURRENT_JOB], False)
          else (s, [], False)
      | Some jobData \<Rightarrow>
          (let normalizedJobData = ensureJobDescription pageTexts jobData;
               nextIdentity = getJobIdentity u normalizedJobData;
               isNewJob = (currentJobIdentity s \<noteq> nextIdentity);
               s1 = s\<lparr>currentJobData := Some normalizedJobData, currentJobIdentity := nextIdentity,
                      lastExtractionSuccessAt := now\<rparr>;
               s2 = s1\<lparr>overlayPanel := map_option (updateSidebarJobHeader normalizedJobData)
                                           (overlayPanel s1)\<rparr>;
               s3 = (if isNewJob then s2\<lparr>overlayPanel := map_option showReadyState (overlayPanel s2)\<rparr>
                     else s2)
           in (s3, [UPSERT_CURRENT_JOB normalizedJobData], isNewJob)))"


section \<open>Content script: native ids as the specification describes them\<close>

definition digit_next :: "string \<Rightarrow> bool" where
  "digit_next s = (case s of [] \<Rightarrow> False | d # ds \<Rightarrow> isDigit d)"

definition view_at :: "string \<Rightarrow> bool" where
  \<comment> \<open>here stands \<open>linkedin.com/jobs/view/\<close> and a digit\<close>
  "view_at s = (ci_prefix ''linkedin.com/jobs/view/'' s \<and> digit_next (drop 23 s))"

definition param_at :: "string \<Rightarrow> bool" where
  \<comment> \<open>here stands \<open>?\<close> or \<open>&\<close>, \<open>currentJobId=\<close> and a digit\<close>
  "param_at s = (case s of [] \<Rightarrow> False
                 | c # cs \<Rightarrow> c \<in> set ''?&'' \<and> ci_prefix ''currentJobId='' cs \<and> digit_next (drop 13 cs))"

fun first_at :: "(string \<Rightarrow> bool) \<Rightarrow> string \<Rightarrow> string option" where
  \<comment> \<open>the text from the first place where \<open>P\<close> holds\<close>
  "first_at P [] = (if P [] then Some [] else None)"
| "first_at P (c # cs) = (if P (c # cs) then Some (c # cs) else first_at P cs)"

definition view_id :: "string \<Rightarrow> string option" where
  \<comment> \<open>the numeric job-view identifier of the url\<close>
  "view_id u = map_option (\<lambda>s. takeWhile isDigit (drop 23 s)) (first_at view_at u)"

definition search_id :: "string \<Rightarrow> string option" where
  \<comment> \<open>the value of the first numeric \<open>currentJobId\<close> query parameter of the url\<close>
  "search_id u = map_option (\<lambda>s. takeWhile isDigit (drop 14 s)) (first_at param_at u)"

definition url_both :: string where
  "url_both = ''https://www.linkedin.com/jobs/view/999/?currentJobId=12345''"

definition job_renamed :: JobPosting where
  "job_renamed = job_sample\<lparr>title := ''Senior Engineer II''\<rparr>"

definition job_both :: JobPosting where
  "job_both = job_sample\<lparr>url := url_both\<rparr>"


section \<open>Content script: the page\<close>

text \<open>
  A node of the page is an element or a text; \<open>ident\<close> stands for its identity as an
  object, which a deep copy does not share.  The page holds the document's tree, the
  trees that hang in no document (the copies \<open>cloneNode\<close> makes), and the next identity
  to give out.  A node is addressed by its identity, so that removing a node changes the
  tree that holds it, the document's as well as a copy's.
\<close>

datatype dom =
    Elem nat string "(string \<times> string) list" "dom list"
  | Txt nat string

record page =
  document :: dom
  detached :: "dom list"
  next_id :: nat
  doc_title :: string

fun ident :: "dom \<Rightarrow> nat" where
  "ident (Elem i t as ks) = i"
| "ident (Txt i s) = i"

fun ids :: "dom \<Rightarrow> nat set" where
  "ids (Elem i t as ks) = insert i (\<Union> (set (map ids ks)))"
| "ids (Txt i s) = {i}"

fun relabel :: "nat \<Rightarrow> dom \<Rightarrow> dom \<times> nat"
  and relabel_list :: "nat \<Rightarrow> dom list \<Rightarrow> dom list \<times> nat" where
  \<comment> \<open>a deep copy whose nodes take the identities from \<open>n\<close> on; also the next free identity\<close>
  "relabel n (Txt i s) = (Txt n s, Suc n)"
| "relabel n (Elem i t as ks) = (case relabel_list (Suc n) ks of (ks', m) \<Rightarrow> (Elem n t as ks', m))"
| "relabel_list n [] = ([], n)"
| "relabel_list n (k # ks) =
     (case relabel n k of (k', m) \<Rightarrow> (case relabel_list m ks of (ks', m') \<Rightarrow> (k' # ks', m')))"

definition cloneNode :: "dom \<Rightarrow> page \<Rightarrow> nat \<times> page" where
  \<comment> \<open>\<open>el.cloneNode(true)\<close>: the identity of the copy, which hangs in no document\<close>
  "cloneNode el p =
     (case relabel (next_id p) el of
        (c, m) \<Rightarrow> (next_id p, p\<lparr>detached := c # detached p, next_id := m\<rparr>))"

fun prune :: "nat \<Rightarrow> dom \<Rightarrow> dom" where
  \<comment> \<open>the tree without the node \<open>i\<close> below its root\<close>
  "prune i (Txt j s) = Txt j s"
| "prune i (Elem j t as ks) = Elem j t as (map (prune i) (filter (\<lambda>k. ident k \<noteq> i) ks))"

definition remove_node :: "nat \<Rightarrow> page \<Rightarrow> page" where
  \<comment> \<open>\<open>n.remove()\<close>: the node leaves its parent, in whichever tree it hangs; the subtree
      taken out is dropped\<close>
  "remove_node i p = p\<lparr>document := prune i (document p), detached := map (prune i) (detached p)\<rparr>"

fun subtree :: "nat \<Rightarrow> dom \<Rightarrow> dom option"
  and subtree_list :: "nat \<Rightarrow> dom list \<Rightarrow> dom option" where
  "subtree i (Txt j s) = (if i = j then Some (Txt j s) else None)"
| "subtree i (Elem j t as ks) = (if i = j then Some (Elem j t as ks) else subtree_list i ks)"
| "subtree_list i [] = None"
| "subtree_list i (k # ks) = (case subtree i k of Some d \<Rightarrow> Some d | None \<Rightarrow> subtree_list i ks)"

definition node_of :: "nat \<Rightarrow> page \<Rightarrow> dom option" where
  \<comment> \<open>the node with this identity as it is now\<close>
  "node_of i p = subtree_list i (document p # detached p)"


section \<open>Content script: selectors\<close>

datatype simple_sel =
    Tag string
  | Cls string
  | Ident string
  | AttrHas string string
  | AttrIs string string

text \<open>
  \<open>Tag ''h1''\<close> is \<open>h1\<close>, \<open>Cls ''tag''\<close> is \<open>.tag\<close>, \<open>Ident ''job-details''\<close> is
  \<open>#job-details\<close>, \<open>AttrHas ''class'' ''company''\<close> is \<open>[class*="company"]\<close> and
  \<open>AttrIs ''role'' ''main''\<close> is \<open>[role='main']\<close>.  A compound selector is a list of
  these on one element (\<open>h1.t-24\<close>), a complex one a chain of compounds from an ancestor
  down to the element (\<open>.profile h1\<close>), a selector a comma list of complex ones.
\<close>

type_synonym compound = "simple_sel list"
type_synonym complex = "compound list"
type_synonym selector = "complex list"

definition attr :: "dom \<Rightarrow> string \<Rightarrow> string option" where
  "attr el a = (case el of Elem i t as ks \<Rightarrow> map_of as a | Txt i s \<Rightarrow> None)"

definition classes :: "dom \<Rightarrow> string list" where
  "classes el = (case attr el ''class'' of
                   None \<Rightarrow> []
                 | Some v \<Rightarrow> filter (\<lambda>c. c \<noteq> []) (splitOn isSpace v))"

fun matches_simple :: "simple_sel \<Rightarrow> dom \<Rightarrow> bool" where
  "matches_simple (Tag t) el = (case el of Elem i t' as ks \<Rightarrow> toLowerCase t' = toLowerCase t | Txt i s \<Rightarrow> False)"
| "matches_simple (Cls c) el = (c \<in> set (classes el))"
| "matches_simple (Ident x) el = (attr el ''id'' = Some x)"
| "matches_simple (AttrHas a v) el = (case attr el a of None \<Rightarrow> False | Some w \<Rightarrow> str_includes w v)"
| "matches_simple (AttrIs a v) el = (attr el a = Some v)"

definition is_element :: "dom \<Rightarrow> bool" where
  "is_element el = (case el of Elem i t as ks \<Rightarrow> True | Txt i s \<Rightarrow> False)"

definition matches_compound :: "compound \<Rightarrow> dom \<Rightarrow> bool" where
  "matches_compound c el = (is_element el \<and> list_all (\<lambda>s. matches_simple s el) c)"

fun chain_ok :: "compound list \<Rightarrow> dom list \<Rightarrow> bool" where
  \<comment> \<open>the compounds, innermost first, are met by some of the ancestors, nearest first\<close>
  "chain_ok [] ancestors = True"
| "chain_ok (c # cs) [] = False"
| "chain_ok (c # cs) (a # ancestors) =
     ((matches_compound c a \<and> chain_ok cs ancestors) \<or> chain_ok (c # cs) ancestors)"

definition matches_complex :: "complex \<Rightarrow> dom list \<Rightarrow> dom \<Rightarrow> bool" where
  "matches_complex cx ancestors el =
     (case rev cx of [] \<Rightarrow> False | c # cs \<Rightarrow> matches_compound c el \<and> chain_ok cs ancestors)"

definition matches :: "selector \<Rightarrow> dom list \<Rightarrow> dom \<Rightarrow> bool" where
  "matches sel ancestors el = list_ex (\<lambda>cx. matches_complex cx ancestors el) sel"

fun below :: "dom list \<Rightarrow> dom \<Rightarrow> (dom list \<times> dom) list"
  and below_list :: "dom list \<Rightarrow> dom list \<Rightarrow> (dom list \<times> dom) list" where
  \<comment> \<open>the nodes below a node in document order, each with its ancestors, nearest first\<close>
  "below ancestors (Txt i s) = []"
| "below ancestors (Elem i t as ks) = below_list (Elem i t as ks # ancestors) ks"
| "below_list ancestors [] = []"
| "below_list ancestors (k # ks) = (ancestors, k) # below ancestors k @ below_list ancestors ks"

definition select_below :: "selector \<Rightarrow> dom \<Rightarrow> dom list" where
  \<comment> \<open>\<open>el.querySelectorAll(sel)\<close> on a tree whose root has no parent\<close>
  "select_below sel root = map snd (filter (\<lambda>(a, el). matches sel a el) (below [] root))"

definition select_all :: "selector \<Rightarrow> page \<Rightarrow> dom list" where
  \<comment> \<open>\<open>document.querySelectorAll(sel)\<close>: the root element and all below it\<close>
  "select_all sel p =
     map snd (filter (\<lambda>(a, el). matches sel a el) (([], document p) # below [] (document p)))"

definition querySelector :: "selector \<Rightarrow> page \<Rightarrow> dom option" where
  "querySelector sel p = (case select_all sel p of [] \<Rightarrow> None | el # els \<Rightarrow> Some el)"

definition tag :: "string \<Rightarrow> selector" where
  "tag t = [[[Tag t]]]"

definition cls :: "string \<Rightarrow> selector" where
  "cls c = [[[Cls c]]]"

definition has_class :: "string \<Rightarrow> selector" where
  \<comment> \<open>\<open>[class*="..."]\<close>\<close>
  "has_class v = [[[AttrHas ''class'' v]]]"

definition document_body :: "page \<Rightarrow> dom option" where
  "document_body p = querySelector (tag ''body'') p"

definition orText :: "string \<Rightarrow> string \<Rightarrow> string" where
  \<comment> \<open>\<open>a || b\<close> on strings\<close>
  "orText a b = (if a = [] then b else a)"

definition orNode :: "dom option \<Rightarrow> dom option \<Rightarrow> dom option" where
  \<comment> \<open>\<open>a || b\<close> on elements\<close>
  "orNode a b = (case a of None \<Rightarrow> b | Some x \<Rightarrow> Some x)"

definition trimmedText :: "(dom \<Rightarrow> string) \<Rightarrow> dom option \<Rightarrow> string" where
  \<comment> \<open>\<open>el?.innerText?.trim() || ""\<close>\<close>
  "trimmedText innerText el = (case el of None \<Rightarrow> [] | Some e \<Rightarrow> trim (innerText e))"

definition getText :: "(dom \<Rightarrow> string) \<Rightarrow> page \<Rightarrow> selector \<Rightarrow> string" where
  "getText innerText p sel = trimmedText innerText (querySelector sel p)"


section \<open>Content script: the extractors\<close>

definition yearsRe :: re where
  \<comment> \<open>\<open>years?\<close>\<close>
  "yearsRe = seqs [liti ''year'', Opt (liti ''s'')]"

definition parseExperience :: "string \<Rightarrow> string" where
  "parseExperience s =
     (let m = (case str_match s (seqs [Grp 1 (Plus isDigit), Opt (lit ''+''), Many isSpace,
                                       alts [liti ''to'', lit ''-''], Many isSpace,
                                       Grp 2 (Plus isDigit), Many isSpace, yearsRe]) of
                 Some m1 \<Rightarrow> Some m1
               | None \<Rightarrow> str_match s (seqs [Grp 1 (Plus isDigit), Opt (lit ''+''), Many isSpace,
                                             yearsRe, Plus isSpace,
                                             Opt (seqs [liti ''of'', Plus isSpace]),
                                             alts [liti ''experience'', liti ''exp'']]))
      in case m of
           None \<Rightarrow> ''Not specified''
         | Some m' \<Rightarrow>
             if groupText m' 2 \<noteq> [] then groupText m' 1 @ ''-'' @ groupText m' 2 @ '' years''
             else groupText m' 1 @ ''+ years'')"

definition restOfLine :: re where
  \<comment> \<open>\<open>[^\n]*\<close>\<close>
  "restOfLine = Many (\<lambda>c. c \<noteq> CHR 0x0A)"

definition amountRe :: re where
  \<comment> \<open>\<open>\s*[\d,]+[^\n]*\<close>\<close>
  "amountRe = seqs [Many isSpace, Plus (\<lambda>c. isDigit c \<or> c = CHR '',''), restOfLine]"

definition extractSalary :: "string \<Rightarrow> string" where
  "extractSalary s =
     (let m = (case str_match s (seqs [alts [lit [rupee], seqs [liti ''rs'', Opt (lit ''.'')],
                                             liti ''inr''],
                                       amountRe]) of
                 Some m1 \<Rightarrow> Some m1
               | None \<Rightarrow>
                   (case str_match s (seqs [lit ''$'', amountRe]) of
                      Some m2 \<Rightarrow> Some m2
                    | None \<Rightarrow> str_match s (seqs [liti ''stipend'', Plus (\<lambda>c. c = CHR '':'' \<or> isSpace c),
                                                  restOfLine])))
      in case m of None \<Rightarrow> ''Not disclosed'' | Some m' \<Rightarrow> trim (m_text m'))"

definition removeAll :: "selector \<Rightarrow> nat \<Rightarrow> page \<Rightarrow> page" where
  \<comment> \<open>\<open>clone.querySelectorAll(sel).forEach(n => n.remove())\<close>, for the copy with identity \<open>c\<close>\<close>
  "removeAll sel c p =
     (case node_of c p of
        None \<Rightarrow> p
      | Some root \<Rightarrow> foldl (\<lambda>q n. remove_node (ident n) q) p (select_below sel root))"

definition stripTags :: "string list \<Rightarrow> nat \<Rightarrow> page \<Rightarrow> page" where
  "stripTags tags c p = foldl (\<lambda>q t. removeAll (tag t) c q) p tags"

definition textOf :: "(dom \<Rightarrow> string) \<Rightarrow> nat \<Rightarrow> page \<Rightarrow> string" where
  \<comment> \<open>\<open>clone.innerText || ""\<close>\<close>
  "textOf innerText c p = (case node_of c p of None \<Rightarrow> [] | Some el \<Rightarrow> innerText el)"

definition blankPosting :: JobPosting where
  \<comment> \<open>the fields an extractor leaves to \<open>extractJobData\<close> are empty\<close>
  "blankPosting = \<lparr>title = [], company = [], location = [], experience = [], salary = [],
     description = [], skills = [], site = UNSUPPORTED, url = [], extractedAt = []\<rparr>"

definition extractGeneric :: "(dom \<Rightarrow> string) \<Rightarrow> page \<Rightarrow> JobPosting option \<times> page" where
  \<comment> \<open>\<open>innerText\<close> is how the browser renders an element as text.  \<open>None\<close> is the \<open>null\<close>
      of the \<open>catch\<close> branch, reached when there is no element to copy.\<close>
  "extractGeneric innerText p =
     (let title' = orText (trimmedText innerText (querySelector (tag ''h1'') p)) (doc_title p);
          company' = trimmedText innerText (querySelector (has_class ''company'') p);
          location' = trimmedText innerText (querySelector (has_class ''location'') p);
          descEl = orNode (orNode (querySelector (has_class ''description'') p)
                                  (querySelector (tag ''main'') p))
                          (document_body p)
      in case descEl of
           None \<Rightarrow> (None, p)
         | Some el \<Rightarrow>
             (case cloneNode el p of
                (clone, p1) \<Rightarrow>
                  (let p2 = stripTags [''nav'', ''header'', ''footer'', ''script'', ''style''] clone p1;
                       description' = take 8000 (trim (textOf innerText clone p2))
                   in (Some (blankPosting\<lparr>title := title', company := company',
                               location := location', experience := parseExperience description',
                               salary := extractSalary description', description := description',
                               skills := []\<rparr>),
                       p2))))"

definition extractMainContent :: "(dom \<Rightarrow> string) \<Rightarrow> dom option \<Rightarrow> page \<Rightarrow> string \<times> page" where
  \<comment> \<open>the helper of \<open>utils/jobExtractor.js\<close>\<close>
  "extractMainContent innerText el p =
     (case el of
        None \<Rightarrow> ([], p)
      | Some e \<Rightarrow>
          (case cloneNode e p of
             (clone, p1) \<Rightarrow>
               (let p2 = stripTags [''nav'', ''header'', ''footer'', ''script'', ''style'',
                                    ''noscript'', ''aside''] clone p1
                in (take 8000 (trim (textOf innerText clone p2)), p2))))"

definition firstText :: "(dom \<Rightarrow> string) \<Rightarrow> page \<Rightarrow> selector list \<Rightarrow> string" where
  \<comment> \<open>\<open>getText(a) || getText(b) || ...\<close>\<close>
  "firstText innerText p sels = foldr (\<lambda>sel r. orText (getText innerText p sel) r) sels []"

definition firstNode :: "page \<Rightarrow> selector list \<Rightarrow> dom option" where
  \<comment> \<open>\<open>document.querySelector(a) || document.querySelector(b) || ...\<close>\<close>
  "firstNode p sels = foldr (\<lambda>sel r. orNode (querySelector sel p) r) sels None"

definition chipTexts :: "(dom \<Rightarrow> string) \<Rightarrow> page \<Rightarrow> selector \<Rightarrow> string list" where
  \<comment> \<open>\<open>[...skillEls].map(el => el.innerText.trim()).filter(Boolean)\<close>\<close>
  "chipTexts innerText p sel = filter (\<lambda>s. s \<noteq> []) (map (\<lambda>el. trim (innerText el)) (select_all sel p))"

definition extractLinkedIn :: "(dom \<Rightarrow> string) \<Rightarrow> bool \<Rightarrow> page \<Rightarrow> JobPosting option \<times> page" where
  \<comment> \<open>\<open>throws\<close>: the \<open>try\<close> block ends in an exception, and the \<open>catch\<close> branch runs\<close>
  "extractLinkedIn innerText throws p =
     (if throws then extractGeneric innerText p
      else (let title' = firstText innerText p
                    [cls ''job-details-jobs-unified-top-card__job-title'',
                     cls ''jobs-unified-top-card__job-title'', tag ''h1''];
                company' = firstText innerText p
                    [[[[Cls ''job-details-jobs-unified-top-card__company-name''], [Tag ''a'']]],
                     [[[Cls ''jobs-unified-top-card__company-name''], [Tag ''a'']]],
                     cls ''job-details-jobs-unified-top-card__company-name'',
                     cls ''jobs-unified-top-card__company-name'',
                     [[[Cls ''jobs-unified-top-card__subtitle-primary-grouping''], [Tag ''a'']]],
                     cls ''topcard__org-name-link''];
                location' = firstText innerText p
                    [cls ''job-details-jobs-unified-top-card__bullet'',
                     cls ''jobs-unified-top-card__bullet''];
                descEl = firstNode p [cls ''jobs-description__content'', cls ''jobs-description'',
                                      [[[Ident ''job-details'']]]];
                description' = trimmedText innerText descEl
            in (Some (blankPosting\<lparr>title := title', company := company', location := location',
                        experience := parseExperience description',
                        salary := extractSalary description', description := description',
                        skills := chipTexts innerText p
                          [[[Cls ''job-details-skill-match-status-list__unmatched-skill-text'']],
                           [[Cls ''job-details-preferences-and-skills__pill'']]]\<rparr>),
                p)))"

definition extractInternshala :: "(dom \<Rightarrow> string) \<Rightarrow> bool \<Rightarrow> page \<Rightarrow> JobPosting option \<times> page" where
  "extractInternshala innerText throws p =
     (let descWrapper = firstNode p [[[[Ident ''about_internship'']]], cls ''internship-description''];
          wrapped = trimmedText innerText descWrapper
      in if throws \<or> (wrapped = [] \<and> document_body p = None) then extractGeneric innerText p
         else (let title' = firstText innerText p
                       [[[[Cls ''profile''], [Tag ''h1'']]], [[[Tag ''h1'', Cls ''job-internship-name'']]],
                        tag ''h1''];
                   company' = firstText innerText p
                       [cls ''company-name'', [[[Cls ''link_display_like_text''], [Cls ''heading_6'']]]];
                   location' = getText innerText p (cls ''location_link'');
                   description' = orText wrapped
                       (take 5000 (trimmedText innerText (document_body p)));
                   stipend = getText innerText p (cls ''stipend_container'')
               in (Some (blankPosting\<lparr>title := title', company := company', location := location',
                           experience := parseExperience description',
                           salary := extractSalary (orText stipend description'),
                           description := description',
                           skills := chipTexts innerText p
                             [[[Cls ''round_tabs''], [Cls ''round_without_icon'']],
                              [[Cls ''tags_container''], [Cls ''tag'']]]\<rparr>),
                   p)))"

definition hasJobKeywords :: "(dom \<Rightarrow> string) \<Rightarrow> page \<Rightarrow> bool" where
  "hasJobKeywords innerText p =
     (let t = (case document_body p of None \<Rightarrow> [] | Some b \<Rightarrow> toLowerCase (innerText b))
      in list_ex (\<lambda>k. str_includes t k)
           [''responsibilities'', ''requirements'', ''qualifications'', ''job description'',
            ''what you will do'', ''skills required''])"

definition detectSite :: "(dom \<Rightarrow> string) \<Rightarrow> string \<Rightarrow> page \<Rightarrow> SiteType" where
  "detectSite innerText href p =
     (if re_test (lit ''linkedin.com/jobs'') href then LINKEDIN
      else if re_test (seqs [lit ''internshala.com/'', Grp 1 (alts [lit ''internship'', lit ''jobs''])]) href
      then INTERNSHALA
      else if hasJobKeywords innerText p then GENERIC
      else UNSUPPORTED)"

definition ensureSelectors :: "selector list" where
  "ensureSelectors =
     [cls ''jobs-description__content'', cls ''jobs-description-content__text'',
      cls ''jobs-description'', [[[Ident ''job-details'']]], has_class ''description'', tag ''main'',
      [[[AttrIs ''role'' ''main'']]], tag ''article'', tag ''body'']"

definition pageTexts :: "(dom \<Rightarrow> string) \<Rightarrow> page \<Rightarrow> string list" where
  \<comment> \<open>what \<open>ensureJobDescription\<close> reads from the page\<close>
  "pageTexts innerText p =
     map (\<lambda>sel. case querySelector sel p of None \<Rightarrow> [] | Some el \<Rightarrow> innerText el) ensureSelectors"

definition extractJobData ::
  "(dom \<Rightarrow> string) \<Rightarrow> bool \<Rightarrow> string \<Rightarrow> string \<Rightarrow> page \<Rightarrow> JobPosting option \<times> page" where
  \<comment> \<open>\<open>href\<close> is \<open>window.location.href\<close>, \<open>nowIso\<close> is \<open>new Date().toISOString()\<close>\<close>
  "extractJobData innerText throws href nowIso p =
     (let site' = detectSite innerText href p in
      case (if site' = LINKEDIN then extractLinkedIn innerText throws p
            else if site' = INTERNSHALA then extractInternshala innerText throws p
            else if site' = GENERIC then extractGeneric innerText p
            else (None, p)) of
        (None, p') \<Rightarrow> (None, p')
      | (Some data, p') \<Rightarrow>
          (Some (ensureJobDescription (pageTexts innerText p')
                   (data\<lparr>site := site', url := href, extractedAt := nowIso\<rparr>)),
           p'))"


section \<open>Content script: well-formed pages and a sample page\<close>

definition wf_page :: "page \<Rightarrow> bool" where
  \<comment> \<open>no node of the document has an identity that is still to be given out\<close>
  "wf_page p = (\<forall>i \<in> ids (document p). i < next_id p)"

fun textContent :: "dom \<Rightarrow> string" where
  \<comment> \<open>a rendering for the samples: the texts of the subtree in document order\<close>
  "textContent (Txt i s) = s"
| "textContent (Elem i t as ks) = concat (map textContent ks)"

definition page_sample :: page where
  "page_sample =
     \<lparr>document =
        Elem 0 ''html'' []
          [Elem 1 ''body'' []
            [Elem 2 ''h1'' [] [Txt 3 ''Senior Engineer''],
             Elem 4 ''div'' [(''class'', ''job-description box'')]
               [Elem 5 ''nav'' [] [Txt 6 ''Home''],
                Txt 7 ''Requirements: 3 to 5 years. '',
                Elem 8 ''script'' [] [Txt 9 ''track()'']]]],
      detached = [], next_id = 10, doc_title = ''Careers''\<rparr>"

definition keeps :: "dom \<Rightarrow> nat \<Rightarrow> page \<Rightarrow> bool" where
  \<comment> \<open>the document is \<open>d\<close>, and the copy \<open>c\<close> heads the trees outside it and shares no node with it\<close>
  "keeps d c q =
     (document q = d \<and> c \<notin> ids d
      \<and> (\<exists>cl others. detached q = cl # others \<and> ident cl = c \<and> ids cl \<inter> ids d = {}))"

definition sample_box :: dom where
  \<comment> \<open>the description container of the sample page\<close>
  "sample_box =
     Elem 4 ''div'' [(''class'', ''job-description box'')]
       [Elem 5 ''nav'' [] [Txt 6 ''Home''],
        Txt 7 ''Requirements: 3 to 5 years. '',
        Elem 8 ''script'' [] [Txt 9 ''track()'']]"

definition sample_copy :: dom where
  \<comment> \<open>its deep copy, with the identities from 10 on\<close>
  "sample_copy =
     Elem 10 ''div'' [(''class'', ''job-description box'')]
       [Elem 11 ''nav'' [] [Txt 12 ''Home''],
        Txt 13 ''Requirements: 3 to 5 years. '',
        Elem 14 ''script'' [] [Txt 15 ''track()'']]"

definition sample_stripped :: dom where
  \<comment> \<open>the copy without its \<open>nav\<close> and \<open>script\<close>\<close>
  "sample_stripped =
     Elem 10 ''div'' [(''class'', ''job-description box'')] [Txt 13 ''Requirements: 3 to 5 years. '']"


section \<open>The quota ledger\<close>

lemma trim_Nil [simp]: "trim [] = []"
  by (simp add: trim_def)

text \<open>The sample inputs, evaluated step by step.\<close>

lemma resume_sample_nonblank: "trim ''my resume'' \<noteq> []"
  by (simp add: trim_def isSpace_def)

lemma job_sample_title: "title job_sample \<noteq> []"
  by (simp add: job_sample_def)

lemma store_of_ok: "0 \<le> n \<Longrightarrow> n \<le> 10 \<Longrightarrow> quota_ok (store_of d n)"
  by (simp add: quota_ok_def store_of_def DAILY_LIMIT_def)

lemma cache_miss_sample: "getCachedResult t url_search (store_of d n) = (JNull, store_of d n)"
  by (simp add: getCachedResult_def store_of_def url_search_def)

lemma debit_sample:
  "getTodayKey t = d \<Longrightarrow> 0 < n \<Longrightarrow>
   checkAndDecrementRateLimit t (store_of d n) = (True, store_of d (n - 1))"
  by (simp add: checkAndDecrementRateLimit_def store_of_def Let_def)

lemma debit_sample_zero:
  "getTodayKey t = d \<Longrightarrow> checkAndDecrementRateLimit t (store_of d 0) = (False, store_of d 0)"
  by (simp add: checkAndDecrementRateLimit_def store_of_def Let_def)

lemma refund_sample:
  "getTodayKey t = d \<Longrightarrow> n < 10 \<Longrightarrow> refundRateLimitToken t (store_of d n) = store_of d (n + 1)"
  by (simp add: refundRateLimitToken_def store_of_def DAILY_LIMIT_def Let_def)

lemma refund_sample_full:
  "getTodayKey t = d \<Longrightarrow> refundRateLimitToken t (store_of d 10) = store_of d 10"
  by (simp add: refundRateLimitToken_def store_of_def DAILY_LIMIT_def Let_def)

lemma refund_sample_other_day:
  "getTodayKey t \<noteq> d \<Longrightarrow> refundRateLimitToken t (store_of d n) = store_of d n"
  by (simp add: refundRateLimitToken_def store_of_def Let_def)

lemma status_sample:
  "getTodayKey t = d \<Longrightarrow> fst (getRateLimitStatus t (store_of d n)) = n"
  by (simp add: getRateLimitStatus_def store_of_def Let_def)

lemma env_day0_days:
  "getTodayKey (t_debit env_day0) = 0" "getTodayKey (t_refund env_day0) = 0"
  by (simp_all add: env_day0_def getTodayKey_def)

lemma env_midnight_days:
  "getTodayKey (t_debit env_midnight) = 0" "getTodayKey (t_refund env_midnight) \<noteq> 0"
  by (simp_all add: env_midnight_def getTodayKey_def)

lemma guarded_down:
  "backendUrl e = Inr b \<Longrightarrow> fetch e = fetch_down \<Longrightarrow>
   guardedCall P e j rt u st
     = (Inl FetchRejected, st, [\<lparr>endpoint = b @ ''/analyze'', req_jobData = j, req_resumeText = rt\<rparr>])"
  by (simp add: guardedCall_def fetch_down_def Let_def)

lemma env_down:
  "backendUrl env_day0 = Inr ''http://localhost:8000''" "fetch env_day0 = fetch_down"
  "backendUrl env_midnight = Inr ''http://localhost:8000''" "fetch env_midnight = fetch_down"
  by (simp_all add: env_day0_def env_midnight_def)

lemma quota_ok_debit: "quota_ok st \<Longrightarrow> quota_ok (snd (checkAndDecrementRateLimit now st))"
  by (auto simp: quota_ok_def checkAndDecrementRateLimit_def Let_def DAILY_LIMIT_def
      split: option.splits)

lemma quota_ok_credit: "quota_ok st \<Longrightarrow> quota_ok (refundRateLimitToken now st)"
  by (auto simp: quota_ok_def refundRateLimitToken_def Let_def DAILY_LIMIT_def split: option.splits)

lemma quota_ok_step: "quota_ok st \<Longrightarrow> quota_ok (ledger_step st x)"
  by (cases x; cases "fst x") (auto simp: quota_ok_debit quota_ok_credit)

lemma quota_ok_run: "quota_ok st \<Longrightarrow> quota_ok (run_ledger st ops)"
  unfolding run_ledger_def
  by (induction ops arbitrary: st) (simp_all add: quota_ok_step)

lemma status_range:
  "quota_ok st \<Longrightarrow>
   0 \<le> fst (getRateLimitStatus now st) \<and> fst (getRateLimitStatus now st) \<le> DAILY_LIMIT"
  by (auto simp: quota_ok_def getRateLimitStatus_def Let_def DAILY_LIMIT_def split: option.splits)

lemma debit_credit_status:
  assumes "quota_ok st" and "getTodayKey t2 = getTodayKey t1"
    and "fst (checkAndDecrementRateLimit t1 st)"
  shows "fst (getRateLimitStatus t2 (refundRateLimitToken t2 (snd (checkAndDecrementRateLimit t1 st))))
           = fst (getRateLimitStatus t1 st)"
  using assms
  by (auto simp: quota_ok_def getRateLimitStatus_def refundRateLimitToken_def
      checkAndDecrementRateLimit_def Let_def DAILY_LIMIT_def split: option.splits if_splits)

lemma debit_credit_record:
  assumes "quota_ok st" and "getTodayKey t2 = getTodayKey t1"
    and "fst (checkAndDecrementRateLimit t1 st)"
    and "rateLimit st = Some r" and "date r = getTodayKey t1"
  shows "refundRateLimitToken t2 (snd (checkAndDecrementRateLimit t1 st)) = st"
  using assms
  by (auto simp: quota_ok_def refundRateLimitToken_def checkAndDecrementRateLimit_def Let_def
      DAILY_LIMIT_def split: option.splits if_splits)

text \<open>
  Claim C1.  Start from a store whose ledger record, if any, is a QuotaRecord (counter in
  \<open>[0, DAILY_LIMIT]\<close>, \<open>DAILY_LIMIT = 10\<close>) and run any sequence of \<open>checkAndDebit\<close> and
  \<open>credit\<close> calls.  The stored counter and the counter \<open>status\<close> reports stay in
  \<open>[0, 10]\<close>.  From the state reached, a debit that returns true followed by a credit on
  the same calendar day leaves the reported counter as it was, and leaves the whole store
  as it was when the stored record was already dated that day.
\<close>

theorem quota_ledger_invariant:
  assumes "quota_ok st" and "getTodayKey t2 = getTodayKey t1"
  shows "DAILY_LIMIT = 10
     \<and> quota_ok (run_ledger st ops)
     \<and> 0 \<le> fst (getRateLimitStatus t1 (run_ledger st ops))
     \<and> fst (getRateLimitStatus t1 (run_ledger st ops)) \<le> DAILY_LIMIT
     \<and> (fst (checkAndDecrementRateLimit t1 (run_ledger st ops)) \<longrightarrow>
          fst (getRateLimitStatus t2
                (refundRateLimitToken t2 (snd (checkAndDecrementRateLimit t1 (run_ledger st ops)))))
            = fst (getRateLimitStatus t1 (run_ledger st ops))
        \<and> (\<forall>r. rateLimit (run_ledger st ops) = Some r \<and> date r = getTodayKey t1 \<longrightarrow>
              refundRateLimitToken t2 (snd (checkAndDecrementRateLimit t1 (run_ledger st ops)))
                = run_ledger st ops))"
proof -
  have ok: "quota_ok (run_ledger st ops)"
    using assms(1) by (rule quota_ok_run)
  show ?thesis
    using ok status_range[OF ok, of t1] debit_credit_status[OF ok assms(2)]
      debit_credit_record[OF ok assms(2)]
    by (auto simp: DAILY_LIMIT_def)
qed

theorem quota_ledger_invariant_witness:
  "quota_ok (store_of 0 1) \<and> getTodayKey 7000 = getTodayKey 6000
   \<and> run_ledger (store_of 0 1) ledger_ops_sample = store_of 0 3
   \<and> fst (checkAndDecrementRateLimit 6000 (store_of 0 3))
   \<and> refundRateLimitToken 7000 (snd (checkAndDecrementRateLimit 6000 (store_of 0 3))) = store_of 0 3"
proof -
  have ok: "quota_ok (store_of 0 1)"
    by (simp add: store_of_ok)
  have day: "getTodayKey 7000 = getTodayKey 6000"
    by (simp add: getTodayKey_def)
  have days: "getTodayKey 1000 = 0" "getTodayKey 2000 = 0" "getTodayKey 3000 = 0"
    "getTodayKey 4000 = 0" "getTodayKey 5000 = 0" "getTodayKey 6000 = 0"
    by (simp_all add: getTodayKey_def)
  have run: "run_ledger (store_of 0 1) ledger_ops_sample = store_of 0 3"
    by (simp add: run_ledger_def ledger_ops_sample_def days debit_sample debit_sample_zero
        refund_sample)
  have deb: "checkAndDecrementRateLimit 6000 (store_of 0 3) = (True, store_of 0 2)"
    using debit_sample[OF days(6), of 3] by simp
  have r: "rateLimit (store_of 0 3) = Some \<lparr>date = 0, remaining = 3\<rparr>"
    by (simp add: store_of_def)
  show ?thesis
    using quota_ledger_invariant[OF ok day, of ledger_ops_sample] ok day run deb r days(6)
    by simp
qed


section \<open>The result cache\<close>

lemma url_search_nonempty: "url_search \<noteq> []"
  by (simp add: url_search_def)

lemma cache_fresh:
  "u \<noteq> [] \<Longrightarrow> T' - T \<le> CACHE_TTL_MS \<Longrightarrow>
   getCachedResult T' u (cacheResult T u res st) = (res, cacheResult T u res st)"
  by (simp add: getCachedResult_def cacheResult_def)

lemma cache_expired:
  "u \<noteq> [] \<Longrightarrow> T' - T > CACHE_TTL_MS \<Longrightarrow>
   getCachedResult T' u (cacheResult T u res st)
     = (JNull, st\<lparr>entries := (entries st)(cacheKey u := None)\<rparr>)"
  by (simp add: getCachedResult_def cacheResult_def)

lemma cache_put_entry: "u \<noteq> [] \<Longrightarrow> entries (cacheResult T u res st) (cacheKey u) \<noteq> None"
  by (simp add: cacheResult_def)

lemma cache_empty_url: "cacheResult T [] res st = st \<and> getCachedResult T' [] st = (JNull, st)"
  by (simp add: getCachedResult_def cacheResult_def)

text \<open>
  Claim C4, as the claim states it, fails at the boundary: an entry written at time 0 and
  read exactly 24 h later is still returned, and stays in the store.
\<close>

theorem cache_ttl_boundary_counterexample:
  "fst (getCachedResult (0 + CACHE_TTL_MS) url_search (cacheResult 0 url_search result_sample store_empty))
     = result_sample
   \<and> result_sample \<noteq> JNull
   \<and> snd (getCachedResult (0 + CACHE_TTL_MS) url_search (cacheResult 0 url_search result_sample store_empty))
     = cacheResult 0 url_search result_sample store_empty
   \<and> entries (cacheResult 0 url_search result_sample store_empty) (cacheKey url_search) \<noteq> None"
proof -
  have "getCachedResult (0 + CACHE_TTL_MS) url_search (cacheResult 0 url_search result_sample store_empty)
          = (result_sample, cacheResult 0 url_search result_sample store_empty)"
    by (rule cache_fresh[OF url_search_nonempty]) simp
  then show ?thesis
    using cache_put_entry[OF url_search_nonempty, of 0 result_sample store_empty]
    by (simp add: result_sample_def)
qed

text \<open>
  Claim C4, amended.  For a non-empty url, after \<open>put(url, result)\<close> at time \<open>T\<close> a
  \<open>get(url)\<close> at any time \<open>T'\<close> with \<open>T' - T \<le> 24 h\<close> returns the stored result and leaves
  the store as it is; at any time with \<open>T' - T > 24 h\<close> it returns null and removes the
  entry.  For an empty url \<open>put\<close> stores nothing and \<open>get\<close> returns null.
\<close>

theorem cache_ttl:
  "CACHE_TTL_MS = 86400000
 \<and> (u \<noteq> [] \<and> T' - T \<le> CACHE_TTL_MS \<longrightarrow>
       getCachedResult T' u (cacheResult T u res st) = (res, cacheResult T u res st))
 \<and> (u \<noteq> [] \<and> T' - T > CACHE_TTL_MS \<longrightarrow>
       fst (getCachedResult T' u (cacheResult T u res st)) = JNull
     \<and> snd (getCachedResult T' u (cacheResult T u res st))
         = st\<lparr>entries := (entries st)(cacheKey u := None)\<rparr>)
 \<and> (u = [] \<longrightarrow> cacheResult T u res st = st \<and> getCachedResult T' u st = (JNull, st))"
  by (simp add: cache_fresh cache_expired cache_empty_url) (simp add: CACHE_TTL_MS_def)

theorem cache_ttl_witness:
  "url_search \<noteq> [] \<and> (86400000 :: int) - 0 \<le> CACHE_TTL_MS \<and> (86400001 :: int) - 0 > CACHE_TTL_MS
   \<and> getCachedResult 86400000 url_search (cacheResult 0 url_search result_sample store_empty)
       = (result_sample, cacheResult 0 url_search result_sample store_empty)
   \<and> fst (getCachedResult 86400001 url_search (cacheResult 0 url_search result_sample store_empty))
       = JNull
   \<and> entries (snd (getCachedResult 86400001 url_search
                     (cacheResult 0 url_search result_sample store_empty))) (cacheKey url_search) = None"
proof -
  have a: "(86400000 :: int) - 0 \<le> CACHE_TTL_MS"
    by (simp add: CACHE_TTL_MS_def)
  have b: "(86400001 :: int) - 0 > CACHE_TTL_MS"
    by (simp add: CACHE_TTL_MS_def)
  have c: "getCachedResult 86400000 url_search (cacheResult 0 url_search result_sample store_empty)
       = (result_sample, cacheResult 0 url_search result_sample store_empty)"
    using cache_ttl[of url_search 86400000 0 result_sample store_empty] url_search_nonempty a
    by blast
  have d: "fst (getCachedResult 86400001 url_search (cacheResult 0 url_search result_sample store_empty))
       = JNull
    \<and> snd (getCachedResult 86400001 url_search (cacheResult 0 url_search result_sample store_empty))
       = store_empty\<lparr>entries := (entries store_empty)(cacheKey url_search := None)\<rparr>"
    using cache_ttl[of url_search 86400001 0 result_sample store_empty] url_search_nonempty b
    by blast
  have e: "entries (snd (getCachedResult 86400001 url_search
                     (cacheResult 0 url_search result_sample store_empty))) (cacheKey url_search) = None"
    by (simp add: d)
  show ?thesis
    using url_search_nonempty a b c d e by blast
qed


section \<open>The analysis handler\<close>

lemma cached_rateLimit [simp]: "rateLimit (snd (getCachedResult t u st)) = rateLimit st"
  by (auto simp: getCachedResult_def split: option.splits)

lemma debit_only_rateLimit:
  "rateLimit st' = rateLimit st \<Longrightarrow>
   fst (checkAndDecrementRateLimit t st') = fst (checkAndDecrementRateLimit t st)"
  by (auto simp: checkAndDecrementRateLimit_def Let_def split: option.splits)

lemma debit_exhausted:
  "rateLimit st = Some r \<Longrightarrow> date r = getTodayKey t \<Longrightarrow> remaining r = 0 \<Longrightarrow>
   checkAndDecrementRateLimit t st = (False, st)"
  by (simp add: checkAndDecrementRateLimit_def Let_def)

text \<open>
  Claim C7.  When today's quota record has \<open>remaining = 0\<close>, \<open>checkAndDebit\<close> returns
  false and leaves the store as it is; the handler sends no request to the backend and
  leaves the ledger record as it is; and whenever the handler reaches the quota check (a
  resume, a job title, no usable cached result) its caller receives the failure with the
  limit message and the rate-limited flag set.
\<close>

theorem quota_exhausted:
  assumes "rateLimit st = Some r" and "date r = getTodayKey (t_debit e)" and "remaining r = 0"
  shows "checkAndDecrementRateLimit (t_debit e) st = (False, st)
     \<and> snd (snd (handleAnalyzeJob JSON_parse e jobData resumeText u st)) = []
     \<and> rateLimit (fst (snd (handleAnalyzeJob JSON_parse e jobData resumeText u st))) = rateLimit st
     \<and> (trim resumeText \<noteq> [] \<and> jobData = Some j \<and> title j \<noteq> []
          \<and> \<not> truthy (fst (getCachedResult (t_cache e) u st)) \<longrightarrow>
        fst (handleAnalyzeJob JSON_parse e jobData resumeText u st) = Inr (Failure limitMessage True))"
proof -
  obtain c st1 where g: "getCachedResult (t_cache e) u st = (c, st1)"
    by force
  have r1: "rateLimit st1 = Some r"
    using cached_rateLimit[of "t_cache e" u st] g assms(1) by simp
  have d1: "checkAndDecrementRateLimit (t_debit e) st1 = (False, st1)"
    using debit_exhausted[OF r1 assms(2,3)] .
  show ?thesis
    using debit_exhausted[OF assms] g d1 r1 assms(1)
    by (auto simp: handleAnalyzeJob_def split: option.splits)
qed

theorem quota_exhausted_witness:
  "rateLimit (store_of 0 0) = Some \<lparr>date = 0, remaining = 0\<rparr>
   \<and> date \<lparr>date = 0, remaining = 0\<rparr> = getTodayKey (t_debit env_day0)
   \<and> trim ''my resume'' \<noteq> [] \<and> title job_sample \<noteq> []
   \<and> \<not> truthy (fst (getCachedResult (t_cache env_day0) url_search (store_of 0 0)))
   \<and> checkAndDecrementRateLimit (t_debit env_day0) (store_of 0 0) = (False, store_of 0 0)
   \<and> fst (handleAnalyzeJob parse_short env_day0 (Some job_sample) ''my resume'' url_search (store_of 0 0))
       = Inr (Failure limitMessage True)
   \<and> snd (snd (handleAnalyzeJob parse_short env_day0 (Some job_sample) ''my resume'' url_search
                  (store_of 0 0))) = []"
proof -
  have a: "rateLimit (store_of 0 0) = Some \<lparr>date = 0, remaining = 0\<rparr>"
    by (simp add: store_of_def)
  have b: "date \<lparr>date = 0, remaining = 0\<rparr> = getTodayKey (t_debit env_day0)"
    by (simp add: env_day0_days)
  have c: "remaining \<lparr>date = 0, remaining = 0\<rparr> = 0"
    by simp
  have f: "\<not> truthy (fst (getCachedResult (t_cache env_day0) url_search (store_of 0 0)))"
    by (simp add: cache_miss_sample)
  show ?thesis
    using quota_exhausted[OF a b c, of parse_short "Some job_sample" "''my resume''" url_search
        job_sample]
      a b f resume_sample_nonblank job_sample_title
    by simp
qed

lemma guarded_fst: "fst (guardedCall P e j rt u st') = fst (guardedCall P e j rt u st)"
  by (auto simp: guardedCall_def Let_def split: sum.splits fetched.splits option.splits)

lemma guarded_fail_store:
  "fst (guardedCall P e j rt u st) = Inl err \<Longrightarrow> fst (snd (guardedCall P e j rt u st)) = st"
  by (auto simp: guardedCall_def Let_def split: sum.splits fetched.splits option.splits if_splits)

lemma status_only_rateLimit:
  "rateLimit st' = rateLimit st \<Longrightarrow> getRateLimitStatus t st' = getRateLimitStatus t st"
  by (simp add: getRateLimitStatus_def)

lemma refund_other_day:
  assumes "fst (checkAndDecrementRateLimit t1 st)" and "getTodayKey t2 \<noteq> getTodayKey t1"
  shows "refundRateLimitToken t2 (snd (checkAndDecrementRateLimit t1 st))
           = snd (checkAndDecrementRateLimit t1 st)
    \<and> fst (getRateLimitStatus t2 (snd (checkAndDecrementRateLimit t1 st))) = DAILY_LIMIT"
  using assms
  by (auto simp: refundRateLimitToken_def checkAndDecrementRateLimit_def getRateLimitStatus_def
      Let_def split: option.splits if_splits)

text \<open>
  Claim C6, as the claim states it, fails when the day changes between the debit and the
  failure: the debit at 23:59:59 takes the counter from 5 to 4, the backend is unreachable,
  and the refund at 00:00:01 finds a record dated yesterday and writes nothing.  The stored
  counter is 4, not the 5 it was before the attempt.
\<close>

theorem refund_midnight_counterexample:
  "rateLimit (store_of 0 5) = Some \<lparr>date = 0, remaining = 5\<rparr>
   \<and> fst (checkAndDecrementRateLimit (t_debit env_midnight) (store_of 0 5))
   \<and> handleAnalyzeJob parse_short env_midnight (Some job_sample) ''my resume'' url_search (store_of 0 5)
       = (Inl FetchRejected, store_of 0 4,
          [\<lparr>endpoint = ''http://localhost:8000/analyze'', req_jobData = job_sample,
            req_resumeText = ''my resume''\<rparr>])"
proof -
  have r: "rateLimit (store_of 0 5) = Some \<lparr>date = 0, remaining = 5\<rparr>"
    by (simp add: store_of_def)
  have d: "checkAndDecrementRateLimit (t_debit env_midnight) (store_of 0 5) = (True, store_of 0 4)"
    using debit_sample[OF env_midnight_days(1), of 5] by simp
  have g: "guardedCall parse_short env_midnight job_sample ''my resume'' url_search (store_of 0 4)
             = (Inl FetchRejected, store_of 0 4,
                [\<lparr>endpoint = ''http://localhost:8000/analyze'', req_jobData = job_sample,
                  req_resumeText = ''my resume''\<rparr>])"
    using guarded_down[OF env_down(3,4)] by simp
  have f: "refundRateLimitToken (t_refund env_midnight) (store_of 0 4) = store_of 0 4"
    using refund_sample_other_day[OF env_midnight_days(2)] .
  show ?thesis
    using resume_sample_nonblank job_sample_title
    by (simp add: r d handleAnalyzeJob_def cache_miss_sample g f)
qed

text \<open>
  Claim C6, amended.  Take an attempt that reaches the debit (a resume, a job title, no
  usable cached result), whose debit returns true and whose guarded call fails (the backend
  url is rejected, the request is rejected or times out, the response is not 2xx, or its
  body is not JSON).  The failure propagates to the caller.  When the refund runs on the
  calendar day of the debit, the counter that \<open>status\<close> reports afterwards equals the one it
  reported before the attempt; when the day has changed in between, no credit is written
  and \<open>status\<close> reports the full daily limit.
\<close>

theorem failed_attempt_refund:
  assumes "quota_ok st"
    and "trim resumeText \<noteq> []" and "title j \<noteq> []"
    and "\<not> truthy (fst (getCachedResult (t_cache e) u st))"
    and "fst (checkAndDecrementRateLimit (t_debit e) st)"
    and "fst (guardedCall JSON_parse e j resumeText u st) = Inl err"
  shows "fst (handleAnalyzeJob JSON_parse e (Some j) resumeText u st) = Inl err
     \<and> fst (getRateLimitStatus (t_refund e)
             (fst (snd (handleAnalyzeJob JSON_parse e (Some j) resumeText u st))))
         = (if getTodayKey (t_refund e) = getTodayKey (t_debit e)
            then fst (getRateLimitStatus (t_debit e) st) else DAILY_LIMIT)"
proof -
  obtain c st1 where g: "getCachedResult (t_cache e) u st = (c, st1)"
    by force
  have r1: "rateLimit st1 = rateLimit st"
    using cached_rateLimit[of "t_cache e" u st] g by simp
  obtain st2 where d: "checkAndDecrementRateLimit (t_debit e) st1 = (True, st2)"
    using debit_only_rateLimit[OF r1, of "t_debit e"] assms(5)
    by (cases "checkAndDecrementRateLimit (t_debit e) st1") auto
  have ok1: "quota_ok st1"
    using assms(1) r1 by (simp add: quota_ok_def)
  have f: "fst (guardedCall JSON_parse e j resumeText u st2) = Inl err"
    using assms(6) guarded_fst by metis
  obtain st3 sent where gc: "guardedCall JSON_parse e j resumeText u st2 = (Inl err, st3, sent)"
    using f by (cases "guardedCall JSON_parse e j resumeText u st2") auto
  have st3: "st3 = st2"
    using guarded_fail_store[OF f] gc by simp
  have h: "handleAnalyzeJob JSON_parse e (Some j) resumeText u st
            = (Inl err, refundRateLimitToken (t_refund e) st2, sent)"
    using assms(2,3,4) g d gc st3 by (auto simp: handleAnalyzeJob_def)
  have st2: "st2 = snd (checkAndDecrementRateLimit (t_debit e) st1)"
    using d by simp
  have deb: "fst (checkAndDecrementRateLimit (t_debit e) st1)"
    using d by simp
  show ?thesis
  proof (cases "getTodayKey (t_refund e) = getTodayKey (t_debit e)")
    case True
    then show ?thesis
      using h debit_credit_status[OF ok1 True deb] st2 status_only_rateLimit[OF r1, of "t_debit e"]
      by simp
  next
    case False
    then show ?thesis
      using h refund_other_day[OF deb False] st2 by simp
  qed
qed

theorem failed_attempt_refund_witness:
  "quota_ok (store_of 0 5) \<and> trim ''my resume'' \<noteq> [] \<and> title job_sample \<noteq> []
   \<and> \<not> truthy (fst (getCachedResult (t_cache env_day0) url_search (store_of 0 5)))
   \<and> fst (checkAndDecrementRateLimit (t_debit env_day0) (store_of 0 5))
   \<and> fst (guardedCall parse_short env_day0 job_sample ''my resume'' url_search (store_of 0 5))
       = Inl FetchRejected
   \<and> fst (handleAnalyzeJob parse_short env_day0 (Some job_sample) ''my resume'' url_search (store_of 0 5))
       = Inl FetchRejected
   \<and> fst (getRateLimitStatus (t_refund env_day0)
           (fst (snd (handleAnalyzeJob parse_short env_day0 (Some job_sample) ''my resume'' url_search
                        (store_of 0 5))))) = 5"
proof -
  have a: "quota_ok (store_of 0 5)"
    by (simp add: store_of_ok)
  have d: "\<not> truthy (fst (getCachedResult (t_cache env_day0) url_search (store_of 0 5)))"
    by (simp add: cache_miss_sample)
  have e: "fst (checkAndDecrementRateLimit (t_debit env_day0) (store_of 0 5))"
    using debit_sample[OF env_day0_days(1), of 5] by simp
  have f: "fst (guardedCall parse_short env_day0 job_sample ''my resume'' url_search (store_of 0 5))
             = Inl FetchRejected"
    using guarded_down[OF env_down(1,2)] by simp
  have g: "fst (getRateLimitStatus (t_debit env_day0) (store_of 0 5)) = 5"
    using status_sample[OF env_day0_days(1)] .
  show ?thesis
    using failed_attempt_refund[OF a resume_sample_nonblank job_sample_title d e f]
      a resume_sample_nonblank job_sample_title d e f g env_day0_days
    by simp
qed


section \<open>Backend error messages\<close>

lemma itemTest_text:
  "itemTest i = (case msgText i of None \<Rightarrow> None | Some m \<Rightarrow> Some (mentionsTooShort i))"
  by (auto simp: itemTest_def msgText_def mentionsTooShort_def split: option.splits)

lemma some_item_hit:
  "k < length xs \<Longrightarrow> mentionsTooShort (xs ! k) \<Longrightarrow> \<forall>j < k. msgText (xs ! j) \<noteq> None
     \<Longrightarrow> some_item xs = Some True"
proof (induction xs arbitrary: k)
  case Nil
  then show ?case by simp
next
  case (Cons x xs)
  show ?case
  proof (cases k)
    case 0
    then show ?thesis
      using Cons.prems(2) by (auto simp: itemTest_text mentionsTooShort_def split: option.splits)
  next
    case (Suc n)
    have x: "msgText x \<noteq> None"
      using Cons.prems(3) Suc by auto
    have r: "some_item xs = Some True"
    proof (rule Cons.IH[of n])
      show "n < length xs" using Cons.prems(1) Suc by simp
      show "mentionsTooShort (xs ! n)" using Cons.prems(2) Suc by simp
      show "\<forall>j < n. msgText (xs ! j) \<noteq> None"
      proof (intro allI impI)
        fix j assume "j < n"
        then have "Suc j < k" using Suc by simp
        then have "msgText ((x # xs) ! Suc j) \<noteq> None" using Cons.prems(3) by blast
        then show "msgText (xs ! j) \<noteq> None" by simp
      qed
    qed
    show ?thesis
      using x r by (auto simp: itemTest_text split: option.splits bool.splits)
  qed
qed

lemma some_item_miss: "\<forall>i \<in> set xs. \<not> mentionsTooShort i \<Longrightarrow> some_item xs \<noteq> Some True"
  by (induction xs) (auto simp: itemTest_text split: option.splits bool.splits)

lemma some_item_throw:
  "k < length xs \<Longrightarrow> msgText (xs ! k) = None \<Longrightarrow> \<forall>j < k. \<not> mentionsTooShort (xs ! j)
     \<Longrightarrow> some_item xs = None"
proof (induction xs arbitrary: k)
  case Nil
  then show ?case by simp
next
  case (Cons x xs)
  show ?case
  proof (cases k)
    case 0
    then show ?thesis
      using Cons.prems(2) by (simp add: itemTest_text)
  next
    case (Suc n)
    have x: "\<not> mentionsTooShort x"
      using Cons.prems(3) Suc by auto
    have r: "some_item xs = None"
    proof (rule Cons.IH[of n])
      show "n < length xs" using Cons.prems(1) Suc by simp
      show "msgText (xs ! n) = None" using Cons.prems(2) Suc by simp
      show "\<forall>j < n. \<not> mentionsTooShort (xs ! j)"
      proof (intro allI impI)
        fix j assume "j < n"
        then have "Suc j < k" using Suc by simp
        then have "\<not> mentionsTooShort ((x # xs) ! Suc j)" using Cons.prems(3) by blast
        then show "\<not> mentionsTooShort (xs ! j)" by simp
      qed
    qed
    show ?thesis
      using x r by (auto simp: itemTest_text split: option.splits bool.splits)
  qed
qed

lemma generic_message:
  "genericMessage status bodyText = ''Server error '' @ showNat status @ '': '' @ bodyText"
  by (simp add: genericMessage_def)

lemma showNat_422: "showNat 422 = ''422''"
  by (simp add: showNat.simps)

lemma showNat_500: "showNat 500 = ''500''"
  by (simp add: showNat.simps)

lemma parse_object_body:
  "parse_object (if body_object = [] then ''{}'' else body_object)
     = Some (JObj [(''detail'',
               JArr [JObj [(''msg'', JObj [(''toString'', JNum ''1'')])],
                     JObj [(''msg'', JStr ''job description is too short'')]])])"
  by (simp add: parse_object_def body_object_def)

lemma too_short_sample: "mentionsTooShort (JObj [(''msg'', JStr ''job description is too short'')])"
  by (simp add: mentionsTooShort_def msgText_def toLowerCase_def toLowerChar_def)

text \<open>
  Claim C9, as the claim states it, fails when the \<open>msg\<close> of an earlier item cannot be made
  a string.  The \<open>detail\<close> list below has an item whose \<open>msg\<close> says that the job description
  is too short; the item before it has an object with a \<open>toString\<close> member for \<open>msg\<close>, on
  which \<open>String\<close> throws, and the message is the generic "Server error 422" one.
\<close>

theorem too_short_after_object_counterexample:
  \<open>parse_object body_object
     = Some (JObj [(''detail'',
               JArr [JObj [(''msg'', JObj [(''toString'', JNum ''1'')])],
                     JObj [(''msg'', JStr ''job description is too short'')]])])
   \<and> mentionsTooShort (JObj [(''msg'', JStr ''job description is too short'')])
   \<and> msgText (JObj [(''msg'', JObj [(''toString'', JNum ''1'')])]) = None
   \<and> parseBackendError parse_object 422 body_object
       = ''Server error 422: {"detail":[{"msg":{"toString":1}},{"msg":"job description is too short"}]}''\<close>
proof -
  have a: "parse_object body_object
     = Some (JObj [(''detail'',
               JArr [JObj [(''msg'', JObj [(''toString'', JNum ''1'')])],
                     JObj [(''msg'', JStr ''job description is too short'')]])])"
    by (simp add: parse_object_def)
  have b: "msgText (JObj [(''msg'', JObj [(''toString'', JNum ''1'')])]) = None"
    by (simp add: msgText_def)
  have c: "some_item [JObj [(''msg'', JObj [(''toString'', JNum ''1'')])],
                      JObj [(''msg'', JStr ''job description is too short'')]] = None"
    by (simp add: itemTest_text b)
  have d: "parseBackendError parse_object 422 body_object = genericMessage 422 body_object"
    by (simp add: parseBackendError_def parse_object_body c del: some_item.simps)
  have e: \<open>genericMessage 422 body_object
     = ''Server error 422: {"detail":[{"msg":{"toString":1}},{"msg":"job description is too short"}]}''\<close>
    by (simp add: generic_message showNat_422 body_object_def)
  show ?thesis
    using a b d e too_short_sample by simp
qed

text \<open>
  Claim C9, amended.  Take a backend response with status 422 whose body is JSON with a
  \<open>detail\<close> list.  The items are tested from the left, the text of each item's \<open>msg\<close>
  being what \<open>String\<close> makes of it.  If an item's text contains "job description is too
  short" in any letter case, and the \<open>msg\<close> of every item before it can be made a string,
  the message is "Could not read enough job description from this page yet. Scroll/open
  full job details and try again in a few seconds.".  In every other case the message is
  "Server error", the status, a colon and the body: when no item's text contains the
  phrase; when an item whose \<open>msg\<close> cannot be made a string comes before every item that
  contains it; when the body is not JSON or has no \<open>detail\<close> list; and for every status
  other than 422.  The handler throws this message for every response that is not 2xx.
\<close>

theorem backend_error_message:
  "(status = 422 \<and> JSON_parse (if bodyText = [] then ''{}'' else bodyText) = Some parsed
      \<and> member parsed ''detail'' = Some (JArr items)
      \<and> k < length items \<and> mentionsTooShort (items ! k) \<and> (\<forall>j < k. msgText (items ! j) \<noteq> None)
      \<longrightarrow> parseBackendError JSON_parse status bodyText
            = ''Could not read enough job description from this page yet. Scroll/open full job details and try again in a few seconds.'')
 \<and> (status = 422 \<and> JSON_parse (if bodyText = [] then ''{}'' else bodyText) = Some parsed
      \<and> member parsed ''detail'' = Some (JArr items)
      \<and> (\<forall>i \<in> set items. \<not> mentionsTooShort i)
      \<longrightarrow> parseBackendError JSON_parse status bodyText = ''Server error 422: '' @ bodyText)
 \<and> (status = 422 \<and> JSON_parse (if bodyText = [] then ''{}'' else bodyText) = Some parsed
      \<and> member parsed ''detail'' = Some (JArr items)
      \<and> k < length items \<and> msgText (items ! k) = None \<and> (\<forall>j < k. \<not> mentionsTooShort (items ! j))
      \<longrightarrow> parseBackendError JSON_parse status bodyText = ''Server error 422: '' @ bodyText)
 \<and> (status = 422 \<and> JSON_parse (if bodyText = [] then ''{}'' else bodyText) = None
      \<longrightarrow> parseBackendError JSON_parse status bodyText = ''Server error 422: '' @ bodyText)
 \<and> (status = 422 \<and> JSON_parse (if bodyText = [] then ''{}'' else bodyText) = Some parsed
      \<and> (\<forall>xs. member parsed ''detail'' \<noteq> Some (JArr xs))
      \<longrightarrow> parseBackendError JSON_parse status bodyText = ''Server error 422: '' @ bodyText)
 \<and> (status \<noteq> 422
      \<longrightarrow> parseBackendError JSON_parse status bodyText
            = ''Server error '' @ showNat status @ '': '' @ bodyText)
 \<and> (backendUrl e = Inr b
      \<and> fetch e \<lparr>endpoint = b @ ''/analyze'', req_jobData = j, req_resumeText = rt\<rparr>
          = Reply status bodyText
      \<and> \<not> response_ok status
      \<longrightarrow> fst (guardedCall JSON_parse e j rt u st)
            = Inl (Error (parseBackendError JSON_parse status bodyText)))"
proof -
  have g: "genericMessage 422 bodyText = ''Server error 422: '' @ bodyText"
    by (simp add: generic_message showNat_422)
  have a: "parseBackendError JSON_parse status bodyText
            = ''Could not read enough job description from this page yet. Scroll/open full job details and try again in a few seconds.''"
    if "status = 422" "JSON_parse (if bodyText = [] then ''{}'' else bodyText) = Some parsed"
      "member parsed ''detail'' = Some (JArr items)" "k < length items"
      "mentionsTooShort (items ! k)" "\<forall>j < k. msgText (items ! j) \<noteq> None"
    using that(1-3) some_item_hit[OF that(4-6)]
    by (simp add: parseBackendError_def shortDescriptionMessage_def)
  have b: "parseBackendError JSON_parse status bodyText = ''Server error 422: '' @ bodyText"
    if "status = 422" "JSON_parse (if bodyText = [] then ''{}'' else bodyText) = Some parsed"
      "member parsed ''detail'' = Some (JArr items)" "\<forall>i \<in> set items. \<not> mentionsTooShort i"
    using that(1-3) some_item_miss[OF that(4)] g
    by (auto simp: parseBackendError_def split: option.splits bool.splits)
  have c: "parseBackendError JSON_parse status bodyText = ''Server error 422: '' @ bodyText"
    if "status = 422" "JSON_parse (if bodyText = [] then ''{}'' else bodyText) = Some parsed"
      "member parsed ''detail'' = Some (JArr items)" "k < length items"
      "msgText (items ! k) = None" "\<forall>j < k. \<not> mentionsTooShort (items ! j)"
    using that(1-3) some_item_throw[OF that(4-6)] g
    by (simp add: parseBackendError_def)
  have d: "parseBackendError JSON_parse status bodyText = ''Server error 422: '' @ bodyText"
    if "status = 422" "JSON_parse (if bodyText = [] then ''{}'' else bodyText) = None"
    using that g by (simp add: parseBackendError_def)
  have e': "parseBackendError JSON_parse status bodyText = ''Server error 422: '' @ bodyText"
    if "status = 422" "JSON_parse (if bodyText = [] then ''{}'' else bodyText) = Some parsed"
      "\<forall>xs. member parsed ''detail'' \<noteq> Some (JArr xs)"
    using that g by (simp add: parseBackendError_def split: option.splits json.splits)
  have f: "parseBackendError JSON_parse status bodyText
            = ''Server error '' @ showNat status @ '': '' @ bodyText"
    if "status \<noteq> 422"
    using that by (simp add: parseBackendError_def generic_message)
  have h: "fst (guardedCall JSON_parse e j rt u st)
            = Inl (Error (parseBackendError JSON_parse status bodyText))"
    if "backendUrl e = Inr b"
      "fetch e \<lparr>endpoint = b @ ''/analyze'', req_jobData = j, req_resumeText = rt\<rparr>
         = Reply status bodyText"
      "\<not> response_ok status"
    using that by (simp add: guardedCall_def Let_def)
  show ?thesis
    by (intro conjI impI; (elim conjE)?; (rule a b c d e' f h; assumption))
qed

theorem backend_error_message_witness:
  \<open>parse_short body_short
     = Some (JObj [(''detail'', JArr [JObj [(''msg'', JStr ''job description is too short'')]])])
   \<and> mentionsTooShort (JObj [(''msg'', JStr ''job description is too short'')])
   \<and> parseBackendError parse_short 422 body_short
       = ''Could not read enough job description from this page yet. Scroll/open full job details and try again in a few seconds.''
   \<and> parseBackendError parse_short 500 body_short
       = ''Server error 500: {"detail":[{"msg":"job description is too short"}]}''
   \<and> \<not> mentionsTooShort (JObj [(''msg'', JStr ''field required'')])
   \<and> parseBackendError parse_required 422 body_required
       = ''Server error 422: {"detail":[{"msg":"field required"}]}''
   \<and> msgText (JObj [(''msg'', JObj [(''toString'', JNum ''1'')])]) = None
   \<and> parseBackendError parse_object 422 body_object
       = ''Server error 422: {"detail":[{"msg":{"toString":1}},{"msg":"job description is too short"}]}''
   \<and> parse_required ''not json'' = None
   \<and> parseBackendError parse_required 422 ''not json'' = ''Server error 422: not json''
   \<and> parse_required ''null'' = Some JNull
   \<and> parseBackendError parse_required 422 ''null'' = ''Server error 422: null''
   \<and> \<not> response_ok 422
   \<and> fst (guardedCall parse_short env_422 job_sample ''my resume'' url_search store_empty)
       = Inl (Error ''Could not read enough job description from this page yet. Scroll/open full job details and try again in a few seconds.'')\<close>
proof -
  have p: "parse_short (if body_short = [] then ''{}'' else body_short)
     = Some (JObj [(''detail'', JArr [JObj [(''msg'', JStr ''job description is too short'')]])])"
    by (simp add: parse_short_def body_short_def)
  have m: "member (JObj [(''detail'', JArr [JObj [(''msg'', JStr ''job description is too short'')]])])
             ''detail'' = Some (JArr [JObj [(''msg'', JStr ''job description is too short'')]])"
    by simp
  have k: "(0::nat) < length [JObj [(''msg'', JStr ''job description is too short'')]]"
    by simp
  have me: "mentionsTooShort ([JObj [(''msg'', JStr ''job description is too short'')]] ! 0)"
    by (simp add: too_short_sample)
  have u: "backendUrl env_422 = Inr ''http://localhost:8000''"
    by (simp add: env_422_def)
  have f: "fetch env_422 \<lparr>endpoint = ''http://localhost:8000'' @ ''/analyze'', req_jobData = job_sample,
             req_resumeText = ''my resume''\<rparr> = Reply 422 body_short"
    by (simp add: env_422_def fetch_422_def)
  have n: "\<not> response_ok 422"
    by (simp add: response_ok_def)
  have s: \<open>''Server error '' @ showNat 500 @ '': '' @ body_short
             = ''Server error 500: {"detail":[{"msg":"job description is too short"}]}''\<close>
    by (simp add: showNat_500 body_short_def)
  have w: "parseBackendError parse_short 422 body_short
       = ''Could not read enough job description from this page yet. Scroll/open full job details and try again in a few seconds.''
     \<and> fst (guardedCall parse_short env_422 job_sample ''my resume'' url_search store_empty)
       = Inl (Error (parseBackendError parse_short 422 body_short))"
    using backend_error_message[of 422 parse_short body_short
        "JObj [(''detail'', JArr [JObj [(''msg'', JStr ''job description is too short'')]])]"
        "[JObj [(''msg'', JStr ''job description is too short'')]]" 0
        env_422 "''http://localhost:8000''" job_sample "''my resume''" url_search store_empty]
      p m k me u f n
    by simp
  have g: "parseBackendError parse_short 500 body_short
             = ''Server error '' @ showNat 500 @ '': '' @ body_short"
    using backend_error_message[of 500 parse_short body_short] by simp
  have rp: "parse_required (if body_required = [] then ''{}'' else body_required)
     = Some (JObj [(''detail'', JArr [JObj [(''msg'', JStr ''field required'')]])])"
    by (simp add: parse_required_def body_required_def)
  have rm: "\<not> mentionsTooShort (JObj [(''msg'', JStr ''field required'')])"
    by (simp add: mentionsTooShort_def msgText_def toLowerCase_def toLowerChar_def)
  have r: \<open>parseBackendError parse_required 422 body_required
             = ''Server error 422: {"detail":[{"msg":"field required"}]}''\<close>
    using backend_error_message[of 422 parse_required body_required
        "JObj [(''detail'', JArr [JObj [(''msg'', JStr ''field required'')]])]"
        "[JObj [(''msg'', JStr ''field required'')]]"] rp rm
    by (simp add: body_required_def)
  have ot: "msgText ([JObj [(''msg'', JObj [(''toString'', JNum ''1'')])],
                      JObj [(''msg'', JStr ''job description is too short'')]] ! 0) = None"
    by (simp add: msgText_def)
  have o: \<open>parseBackendError parse_object 422 body_object
             = ''Server error 422: {"detail":[{"msg":{"toString":1}},{"msg":"job description is too short"}]}''\<close>
    using backend_error_message[of 422 parse_object body_object
        "JObj [(''detail'',
               JArr [JObj [(''msg'', JObj [(''toString'', JNum ''1'')])],
                     JObj [(''msg'', JStr ''job description is too short'')]])]"
        "[JObj [(''msg'', JObj [(''toString'', JNum ''1'')])],
          JObj [(''msg'', JStr ''job description is too short'')]]" 0]
      parse_object_body ot
    by (simp add: body_object_def)
  have nj: "parse_required (if ''not json'' = [] then ''{}'' else ''not json'') = None"
    by (simp add: parse_required_def body_required_def)
  have j: "parseBackendError parse_required 422 ''not json'' = ''Server error 422: not json''"
    using backend_error_message[of 422 parse_required "''not json''"] nj by simp
  have nl: "parse_required (if ''null'' = [] then ''{}'' else ''null'') = Some JNull"
    by (simp add: parse_required_def body_required_def)
  have l: "parseBackendError parse_required 422 ''null'' = ''Server error 422: null''"
    using backend_error_message[of 422 parse_required "''null''" JNull] nl by simp
  have q: "parse_short body_short
     = Some (JObj [(''detail'', JArr [JObj [(''msg'', JStr ''job description is too short'')]])])"
    "parse_required ''not json'' = None" "parse_required ''null'' = Some JNull"
    by (simp_all add: parse_short_def parse_required_def body_required_def)
  show ?thesis
    using w g s too_short_sample n r rm o ot j l q by simp
qed


section \<open>Evaluating the string and pattern functions\<close>

lemmas re_defs = seqs_def Plus_def lit_def liti_def alts_def str_match_def matchAll_def re_test_def
  isWord_def isDigit_def isSpace_def wordAt_def nextChar_def toLowerChar_def char_of_def
  bit_Suc_0_iff Let_def

lemmas str_defs = trim_def toLowerCase_def splitLines_def startsWith_def falsy_def orElse_def


section \<open>Literals and digit runs\<close>

lemma liti_Nil: "liti [] = Eps"
  by (simp add: liti_def)

lemma liti_Cons: "liti (c # w) = Cat (Chr (\<lambda>x. toLowerChar x = toLowerChar c)) (liti w)"
  by (simp add: liti_def)

lemma ci_prefix_Nil: "ci_prefix [] s"
  by (simp add: ci_prefix_def toLowerCase_def)

lemma ci_prefix_Cons:
  "ci_prefix (c # w) s = (case s of [] \<Rightarrow> False | x # xs \<Rightarrow> toLowerChar x = toLowerChar c \<and> ci_prefix w xs)"
  by (cases s) (auto simp: ci_prefix_def toLowerCase_def)

lemma liti_states:
  "re_states (liti w) (b, s, caps)
     = (if ci_prefix w s
        then [(if w = [] then b else Some (s ! (length w - 1)), drop (length w) s, caps)]
        else [])"
proof (induction w arbitrary: b s)
  case Nil
  then show ?case by (simp add: liti_Nil ci_prefix_Nil)
next
  case (Cons c w)
  show ?case
  proof (cases s)
    case Nil
    then show ?thesis by (simp add: liti_Cons ci_prefix_Cons)
  next
    case (Cons x xs)
    then show ?thesis
      using Cons.IH[of "Some x" xs]
      by (cases w) (auto simp: liti_Cons ci_prefix_Cons)
  qed
qed

lemma many_states_hd:
  "\<exists>others. many_states p b s caps
     = (if takeWhile p s = [] then b else Some (last (takeWhile p s)), dropWhile p s, caps) # others"
proof (induction s arbitrary: b)
  case Nil
  then show ?case by simp
next
  case (Cons x xs)
  show ?case
  proof (cases "p x")
    case True
    obtain others where o: "many_states p (Some x) xs caps
       = (if takeWhile p xs = [] then Some x else Some (last (takeWhile p xs)), dropWhile p xs, caps) # others"
      using Cons.IH[of "Some x"] by blast
    show ?thesis using True o by auto
  next
    case False
    then show ?thesis by simp
  qed
qed

lemma run_sum: "length (takeWhile p s) + length (dropWhile p s) = length s"
  by (induction s) auto

lemma run_length: "length s - length (dropWhile p s) = length (takeWhile p s)"
  using run_sum[of p s] by linarith

lemma take_run: "take (length (takeWhile p s)) s = takeWhile p s"
  by (induction s) auto

lemma plus_group_states:
  "\<exists>others. re_states (Grp n (Plus p)) (b, s, caps)
     = (if s \<noteq> [] \<and> p (hd s)
        then (Some (last (takeWhile p s)), dropWhile p s, (n, takeWhile p s) # caps) # others
        else [])"
proof (cases s)
  case Nil
  then show ?thesis by (simp add: Plus_def)
next
  case (Cons x xs)
  show ?thesis
  proof (cases "p x")
    case True
    obtain others where o: "many_states p (Some x) xs caps
       = (if takeWhile p xs = [] then Some x else Some (last (takeWhile p xs)), dropWhile p xs, caps) # others"
      using many_states_hd by blast
    have len: "Suc (length xs) - length (dropWhile p xs) = Suc (length (takeWhile p xs))"
      using run_sum[of p xs] by linarith
    show ?thesis
      using True o len by (auto simp: Cons Plus_def take_run)
  next
    case False
    then show ?thesis by (simp add: Cons Plus_def)
  qed
qed


section \<open>Patterns that cannot match\<close>

lemma many_states_suffix:
  "(b', s', c') \<in> set (many_states p b s c) \<Longrightarrow> suffix s' s"
  by (induction s arbitrary: b) (auto simp: suffix_Cons split: if_splits)

lemma re_states_suffix:
  "(b', s', c') \<in> set (re_states r (b, s, c)) \<Longrightarrow> suffix s' s"
proof (induction r arbitrary: b s c b' s' c')
  case (Chr p)
  then show ?case by (auto simp: suffix_Cons split: list.splits if_splits)
next
  case (Cat r1 r2)
  then obtain b1 s1 c1 where m: "(b1, s1, c1) \<in> set (re_states r1 (b, s, c))"
    and n: "(b', s', c') \<in> set (re_states r2 (b1, s1, c1))"
    by auto
  show ?case using Cat.IH(1)[OF m] Cat.IH(2)[OF n] suffix_order.trans by blast
next
  case (Alt r1 r2)
  then show ?case by auto
next
  case (Opt r)
  then show ?case by auto
next
  case (Many p)
  then show ?case by (auto dest: many_states_suffix)
next
  case (Grp n r)
  then show ?case by auto
next
  case Wordb
  then show ?case by (auto split: if_splits)
next
  case Bol
  then show ?case by (auto split: if_splits)
next
  case Eps
  then show ?case by auto
qed

lemma needs_no_states:
  "needs q r \<Longrightarrow> \<forall>x \<in> set s. \<not> q x \<Longrightarrow> re_states r (b, s, c) = []"
proof (induction r arbitrary: b s c)
  case (Chr p)
  then show ?case by (auto split: list.splits)
next
  case (Cat r1 r2)
  show ?case
  proof (cases "needs q r1")
    case True
    then show ?thesis using Cat.IH(1)[OF True Cat.prems(2)] by simp
  next
    case False
    then have n2: "needs q r2" using Cat.prems(1) by simp
    have "re_states r2 st = []" if "st \<in> set (re_states r1 (b, s, c))" for st
    proof -
      obtain b1 s1 c1 where st: "st = (b1, s1, c1)" by (cases st)
      have "suffix s1 s" using re_states_suffix that st by blast
      then have "\<forall>x \<in> set s1. \<not> q x" using Cat.prems(2) set_mono_suffix by blast
      then show ?thesis using Cat.IH(2)[OF n2] st by simp
    qed
    then show ?thesis by simp
  qed
next
  case (Alt r1 r2)
  then show ?case by simp
next
  case (Grp n r)
  then show ?case by simp
qed simp_all

lemma needs_no_search:
  "needs q r \<Longrightarrow> \<forall>x \<in> set s. \<not> q x \<Longrightarrow> re_search r b s i = None"
  by (induction s arbitrary: b i) (simp_all add: needs_no_states)

lemma needs_no_scan:
  "needs q r \<Longrightarrow> \<forall>x \<in> set s. \<not> q x \<Longrightarrow> re_scan r b s i k = []"
  by (induction s arbitrary: b i k) (simp_all add: needs_no_states)


section \<open>The section extractor\<close>

lemma sectionLines_none: "\<not> list_ex (isHeading hs) ls \<Longrightarrow> sectionLines hs False ls = []"
  by (induction ls) auto

lemma sectionLines_pre:
  "\<not> list_ex (isHeading hs) pre \<Longrightarrow> sectionLines hs False (pre @ rest) = sectionLines hs False rest"
  by (induction pre) auto

lemma sectionLines_body:
  "\<not> list_ex (isStop hs) ls \<Longrightarrow> tail = [] \<or> isStop hs (hd tail)
     \<Longrightarrow> sectionLines hs True (ls @ tail) = ls"
proof (induction ls)
  case Nil
  then show ?case by (cases tail) auto
next
  case (Cons a ls)
  then show ?case by simp
qed

lemma extractSection_none:
  "\<not> list_ex (isHeading hs) (splitLines text) \<Longrightarrow> extractSection text hs = Some []"
  by (simp add: extractSection_def sectionLines_none trim_def)

lemma extractSection_found:
  assumes "splitLines text = pre @ l # ls @ tail" and "\<not> list_ex (isHeading hs) pre"
    and "isHeading hs l" and "\<not> list_ex (isStop hs) ls" and "tail = [] \<or> isStop hs (hd tail)"
  shows "extractSection text hs = Some (trim (join [CHR 0x0A] ls))"
proof -
  have "sectionLines hs False (pre @ l # ls @ tail) = sectionLines hs False (l # ls @ tail)"
    using sectionLines_pre[OF assms(2)] by simp
  also have "\<dots> = sectionLines hs True (ls @ tail)"
    using assms(3) by simp
  also have "\<dots> = ls"
    using sectionLines_body[OF assms(4,5)] .
  finally show ?thesis
    using assms(1) by (simp add: extractSection_def)
qed

lemma skills_fallback:
  "extractSection text skillsHeadings = Some []
     \<Longrightarrow> extractSkills text = take 60 (filter (\<lambda>x. length (trim x) > 1) (scanTech text))"
  by (simp add: extractSkills_def falsy_def orElse_def)

lemma skills_section:
  "extractSection text skillsHeadings = Some s \<Longrightarrow> s \<noteq> []
     \<Longrightarrow> extractSkills text
           = take 60 (filter (\<lambda>x. length (trim x) > 1)
               (foldl (\<lambda>acc x. set_add acc (toLowerCase x)) (scanTech s) (sectionItems s)))"
  by (simp add: extractSkills_def falsy_def orElse_def)


section \<open>The skills of the sample resumes\<close>

lemma foldl_texts:
  "foldl (\<lambda>acc m. f acc (m_text m)) acc ms = foldl f acc (map m_text ms)"
  by (induction ms arbitrary: acc) auto

lemma scanTech_texts:
  "scanTech t = foldl (\<lambda>acc p. foldl (\<lambda>acc' x. set_add acc' (trim (toLowerCase x))) acc
                                  (map m_text (matchAll t p))) [] techPatterns"
  by (simp add: scanTech_def foldl_texts[where f = "\<lambda>acc' x. set_add acc' (trim (toLowerCase x))"])

lemmas tech_eval = techPatterns_def kw_def alts_def js_def opt_last_def seqs_def liti_states
  ci_prefix_def matchAll_def toLowerCase_def toLowerChar_def isSpace_def isWord_def wordAt_def
  nextChar_def char_of_def bit_Suc_0_iff Let_def

lemma scenario1_tech:
  "map m_text (matchAll scenario1 (techPatterns ! 0)) = [''Python'']"
  "map m_text (matchAll scenario1 (techPatterns ! 1)) = [''React'']"
  "map m_text (matchAll scenario1 (techPatterns ! 2)) = []"
  "map m_text (matchAll scenario1 (techPatterns ! 3)) = []"
  "map m_text (matchAll scenario1 (techPatterns ! 4)) = [''Docker'']"
  "map m_text (matchAll scenario1 (techPatterns ! 5)) = []"
  "map m_text (matchAll scenario1 (techPatterns ! 6)) = []"
  by (simp_all add: tech_eval scenario1_def)

lemma foldl_nth: "foldl f a xs = foldl (\<lambda>acc k. f acc (xs ! k)) a [0..<length xs]"
proof (induction xs rule: rev_induct)
  case Nil
  then show ?case by simp
next
  case (snoc x xs)
  have "foldl (\<lambda>acc k. f acc ((xs @ [x]) ! k)) a [0..<length xs]
          = foldl (\<lambda>acc k. f acc (xs ! k)) a [0..<length xs]"
    by (rule foldl_cong) (auto simp: nth_append)
  then show ?case using snoc by simp
qed

lemma scanTech_nth:
  "scanTech t = foldl (\<lambda>acc k. foldl (\<lambda>acc' x. set_add acc' (trim (toLowerCase x))) acc
                                  (map m_text (matchAll t (techPatterns ! k)))) []
                  [0, 1, 2, 3, 4, 5, 6]"
proof -
  have "length techPatterns = 7"
    by (simp add: techPatterns_def)
  moreover have "[0..<7] = [0, 1, 2, 3, 4, 5, 6 :: nat]"
    by (simp add: upt_rec)
  ultimately show ?thesis
    using foldl_nth[of "\<lambda>acc p. foldl (\<lambda>acc' x. set_add acc' (trim (toLowerCase x))) acc
                                  (map m_text (matchAll t p))" "[]" techPatterns]
    by (simp add: scanTech_texts)
qed

lemma scenario1_scan: "scanTech scenario1 = [''python'', ''react'', ''docker'']"
  by (simp add: scanTech_nth scenario1_tech[unfolded One_nat_def] set_add_def trim_def toLowerCase_def
      toLowerChar_def isSpace_def char_of_def bit_Suc_0_iff)

lemma plain_scan: "scanTech ''Python and Docker'' = [''python'', ''docker'']"
  by (simp add: scanTech_def tech_eval set_add_def trim_def)

lemma section_scan: "scanTech ''Git, Kanban'' = [''git'']"
  by (simp add: scanTech_def tech_eval set_add_def trim_def)

lemma section_items: "sectionItems ''Git, Kanban'' = [''Git'', ''Kanban'']"
  by (simp add: sectionItems_def cleanItem_def isSeparator_def bullet_def smallSquare_def
      whiteBullet_def re_defs str_defs)

lemma scenario1_education_section:
  "extractSection scenario1 [''education'', ''academic'', ''degree'', ''qualification'']
     = Some ''B.Tech Computer Science 2020''"
  by (simp add: extractSection_def scenario1_def isHeading_def isStop_def allSectionHeaders_def
      re_defs str_defs)

lemma scenario1_skills_section: "extractSection scenario1 skillsHeadings = Some []"
  by (simp add: extractSection_def scenario1_def skillsHeadings_def isHeading_def isStop_def
      allSectionHeaders_def re_defs str_defs)

lemma scenario1_heading: "list_ex (isHeading skillsHeadings) (splitLines scenario1)"
  by (simp add: scenario1_def skillsHeadings_def isHeading_def re_defs str_defs)

text \<open>
  Claim C3, as the claim states it, fails.  On a text none of whose lines is a skills
  heading, \<open>extractSection\<close> returns the empty string, not an absent value, and it returns
  the same empty string on a text whose skills section is found and empty.  Skills
  extraction scans the whole document in both cases: in the resume of scenario 1 the
  heading line "Skills: Python, React, Docker" is found, the section below it is empty,
  and the three skills are read from the whole text.
\<close>

theorem segment_absent_counterexample:
  "\<not> list_ex (isHeading skillsHeadings) (splitLines ''John Doe'')
   \<and> extractSection ''John Doe'' skillsHeadings = Some []
   \<and> list_ex (isHeading skillsHeadings) (splitLines (''Skills'' @ [CHR 0x0A] @ ''Education''))
   \<and> extractSection (''Skills'' @ [CHR 0x0A] @ ''Education'') skillsHeadings = Some []
   \<and> list_ex (isHeading skillsHeadings) (splitLines scenario1)
   \<and> extractSection scenario1 skillsHeadings = Some []
   \<and> extractSkills scenario1 = [''python'', ''react'', ''docker'']"
proof -
  have a: "\<not> list_ex (isHeading skillsHeadings) (splitLines ''John Doe'')
     \<and> extractSection ''John Doe'' skillsHeadings = Some []
     \<and> list_ex (isHeading skillsHeadings) (splitLines (''Skills'' @ [CHR 0x0A] @ ''Education''))
     \<and> extractSection (''Skills'' @ [CHR 0x0A] @ ''Education'') skillsHeadings = Some []"
    by (simp add: extractSection_def skillsHeadings_def isHeading_def isStop_def
        allSectionHeaders_def re_defs str_defs)
  have b: "extractSkills scenario1 = [''python'', ''react'', ''docker'']"
    by (simp add: skills_fallback[OF scenario1_skills_section] scenario1_scan re_defs str_defs)
  show ?thesis
    using a b scenario1_heading scenario1_skills_section by simp
qed

text \<open>
  Claim C3, amended.  For every text and heading-alias set, \<open>extractSection\<close> returns a
  string, never an absent value.  When no line of the text matches a heading alias (equal
  to it after lower-casing and trimming, or starting with the alias and a colon or a
  space) it returns the empty string.  When a line matches, it returns the lines after
  the first such line, up to the next line that is another section's header, joined and
  trimmed; this too may be the empty string.  Skills extraction takes the empty string
  for "not found": on an empty result, whether the section is missing or found and
  empty, it scans the whole document for the technology names; on any other result it
  scans the section only and adds the section's separated items.
\<close>

theorem segment_not_found:
  "extractSection text headings \<noteq> None
   \<and> (\<not> list_ex (isHeading headings) (splitLines text) \<longrightarrow> extractSection text headings = Some [])
   \<and> (splitLines text = pre @ l # ls @ tail \<and> \<not> list_ex (isHeading headings) pre
        \<and> isHeading headings l \<and> \<not> list_ex (isStop headings) ls
        \<and> (tail = [] \<or> isStop headings (hd tail))
        \<longrightarrow> extractSection text headings = Some (trim (join [CHR 0x0A] ls)))
   \<and> (extractSection text skillsHeadings = Some []
        \<longrightarrow> extractSkills text = take 60 (filter (\<lambda>x. length (trim x) > 1) (scanTech text)))
   \<and> (extractSection text skillsHeadings = Some s \<and> s \<noteq> []
        \<longrightarrow> extractSkills text
              = take 60 (filter (\<lambda>x. length (trim x) > 1)
                  (foldl (\<lambda>acc x. set_add acc (toLowerCase x)) (scanTech s) (sectionItems s))))"
proof -
  have a: "extractSection text headings \<noteq> None"
    by (simp add: extractSection_def)
  show ?thesis
    using a extractSection_none[of headings "text"]
      extractSection_found[of "text" pre l ls tail headings]
      skills_fallback[of "text"] skills_section[of "text" s]
    by blast
qed

theorem segment_not_found_witness:
  "\<not> list_ex (isHeading skillsHeadings) (splitLines ''Python and Docker'')
   \<and> extractSection ''Python and Docker'' skillsHeadings = Some []
   \<and> extractSkills ''Python and Docker'' = [''python'', ''docker'']
   \<and> splitLines section_sample = [''Summary'', ''Skills'', ''Git, Kanban'', ''Education'', ''B.Tech'']
   \<and> isHeading skillsHeadings ''Skills''
   \<and> isStop skillsHeadings ''Education''
   \<and> extractSection section_sample skillsHeadings = Some ''Git, Kanban''
   \<and> extractSkills section_sample = [''git'', ''kanban'']"
proof -
  have a: "\<not> list_ex (isHeading skillsHeadings) (splitLines ''Python and Docker'')"
    by (simp add: skillsHeadings_def isHeading_def re_defs str_defs)
  have b: "splitLines section_sample = [''Summary''] @ ''Skills'' # [''Git, Kanban''] @ [''Education'', ''B.Tech'']"
    by (simp add: section_sample_def splitLines_def)
  have c: "\<not> list_ex (isHeading skillsHeadings) [''Summary'']"
    by (simp add: skillsHeadings_def isHeading_def re_defs str_defs)
  have d: "isHeading skillsHeadings ''Skills''"
    by (simp add: skillsHeadings_def isHeading_def re_defs str_defs)
  have e: "\<not> list_ex (isStop skillsHeadings) [''Git, Kanban'']"
    by (simp add: skillsHeadings_def isStop_def allSectionHeaders_def re_defs str_defs)
  have f: "isStop skillsHeadings ''Education''"
    by (simp add: skillsHeadings_def isStop_def allSectionHeaders_def re_defs str_defs)
  have g: "trim (join [CHR 0x0A] [''Git, Kanban'']) = ''Git, Kanban''"
    by (simp add: re_defs str_defs)
  have h: "take 60 (filter (\<lambda>x. length (trim x) > 1) (scanTech ''Python and Docker''))
             = [''python'', ''docker'']"
    by (simp add: plain_scan re_defs str_defs)
  have i: "take 60 (filter (\<lambda>x. length (trim x) > 1)
             (foldl (\<lambda>acc x. set_add acc (toLowerCase x)) (scanTech ''Git, Kanban'')
                (sectionItems ''Git, Kanban'')))
             = [''git'', ''kanban'']"
    by (simp add: section_scan section_items set_add_def re_defs str_defs)
  have w1: "extractSection ''Python and Docker'' skillsHeadings = Some []
       \<and> extractSkills ''Python and Docker'' = [''python'', ''docker'']"
    using segment_not_found[of "''Python and Docker''" skillsHeadings] a h by simp
  have w2: "extractSection section_sample skillsHeadings = Some ''Git, Kanban''"
    using segment_not_found[of section_sample skillsHeadings "[''Summary'']" "''Skills''"
        "[''Git, Kanban'']" "[''Education'', ''B.Tech'']"] b c d e f g
    by simp
  have w3: "extractSkills section_sample = [''git'', ''kanban'']"
    using segment_not_found[of section_sample skillsHeadings _ _ _ _ "''Git, Kanban''"] w2 i
    by simp
  show ?thesis
    using a b d f w1 w2 w3 by simp
qed


section \<open>The resume fields of scenario 1\<close>

text \<open>
  Claim C2.  On the text of scenario 1 the code returns the empty name, not "John Doe":
  the contact test is a character class, so every one of the five lines has a character
  of it ("John Doe" has \<open>o\<close>, \<open>h\<close>, \<open>n\<close>, \<open>d\<close> and \<open>e\<close>) and is skipped.  The email and the
  education are as the claim says, and the skills section is found empty, so that the
  skills are scanned from the whole text.
\<close>

theorem scenario1_name_empty:
  "extractName scenario1 = []
   \<and> re_test (Chr contactClass) ''John Doe''
   \<and> extractEmail scenario1 = ''john@x.com''
   \<and> extractEducation scenario1 = [''B.Tech Computer Science 2020'']
   \<and> orElse (extractSection scenario1 skillsHeadings) scenario1 = scenario1"
proof -
  have n: "extractName scenario1 = []"
    by (simp add: extractName_def scenario1_def contactClass_def headerWordRe_def re_defs str_defs)
  have c: "re_test (Chr contactClass) ''John Doe''"
    by (simp add: contactClass_def re_defs)
  have e: "extractEmail scenario1 = ''john@x.com''"
    by (simp add: extractEmail_def scenario1_def emailRe_def re_defs str_defs)
  have d: "extractEducation scenario1 = [''B.Tech Computer Science 2020'']"
    by (simp add: extractEducation_def scenario1_education_section educationRe_def dotted_def
        re_defs str_defs)
  have s: "orElse (extractSection scenario1 skillsHeadings) scenario1 = scenario1"
    by (simp add: scenario1_skills_section orElse_def)
  show ?thesis
    using n c e d s by blast
qed


section \<open>Year ranges: the pattern and the plain reading agree\<close>

lemma yearRe_states:
  "re_states yearRe (b, s, caps)
     = (case year_at s of None \<Rightarrow> [] | Some y \<Rightarrow> [(Some (s ! 3), drop 4 s, caps)])"
  by (simp add: yearRe_def year_at_def seqs_def lit_def split: list.splits)

lemma year_at_Some:
  "year_at s = Some y \<Longrightarrow>
     \<exists>c d r. s = CHR ''2'' # CHR ''0'' # c # d # r \<and> isDigit c \<and> isDigit d
        \<and> y = 2000 + 10 * digitVal c + digitVal d"
  by (auto simp: year_at_def split: list.splits if_splits)

lemma space_not_dash: "isSpace c \<Longrightarrow> \<not> isDash c"
  by (auto simp: isSpace_def isDash_def enDash_def)

lemma space_lower: "isSpace c \<Longrightarrow> toLowerChar c = c"
  by (auto simp: isSpace_def toLowerChar_def)

lemma space_no_year: "isSpace c \<Longrightarrow> year_at (c # cs) = None"
  by (auto simp: isSpace_def year_at_def split: list.splits)

lemma space_no_word: "isSpace c \<Longrightarrow> \<not> ci_prefix ''present'' (c # cs) \<and> \<not> ci_prefix ''current'' (c # cs)"
  using space_lower[of c]
  by (auto simp: ci_prefix_Cons isSpace_def toLowerChar_def char_of_def bit_Suc_0_iff)

lemma space_no_end: "isSpace c \<Longrightarrow> end_at (c # cs) = None"
  using space_no_word[of c cs] by (simp add: end_at_def space_no_year)

lemma many_then:
  assumes "\<And>b c cs caps. p c \<Longrightarrow> re_states R (b, c # cs, caps) = []"
  shows "re_states (Cat (Many p) R) (b, s, caps)
           = re_states R (if takeWhile p s = [] then b else Some (last (takeWhile p s)),
                          dropWhile p s, caps)"
proof (induction s arbitrary: b)
  case Nil
  then show ?case by simp
next
  case (Cons x xs)
  show ?case
  proof (cases "p x")
    case True
    have "re_states (Cat (Many p) R) (b, x # xs, caps)
            = re_states (Cat (Many p) R) (Some x, xs, caps) @ re_states R (b, x # xs, caps)"
      using True by simp
    also have "\<dots> = re_states (Cat (Many p) R) (Some x, xs, caps)"
      using assms[OF True] by simp
    finally show ?thesis
      using Cons.IH[of "Some x"] True by simp
  next
    case False
    then show ?thesis by simp
  qed
qed

lemma open_end_iff: "open_end s = (\<not> wordAt (nextChar s))"
  by (cases s) (simp_all add: open_end_def wordAt_def nextChar_def)

lemma digit_word: "isDigit c \<Longrightarrow> isWord c"
  by (auto simp: isDigit_def isWord_def)

lemma lower_code:
  "(of_char (toLowerChar x) :: nat)
     = (if (65 \<le> (of_char x :: nat) \<and> (of_char x :: nat) \<le> 90)
           \<or> (192 \<le> (of_char x :: nat) \<and> (of_char x :: nat) \<le> 222 \<and> (of_char x :: nat) \<noteq> 215)
        then of_char x + 32 else of_char x)"
  by (auto simp: toLowerChar_def Let_def)

lemma lower_t_word:
  assumes "toLowerChar x = CHR ''t''"
  shows "isWord x"
proof -
  have "(of_char (toLowerChar x) :: nat) = 116"
    using assms by simp
  then show ?thesis
    by (auto simp: lower_code isWord_def Let_def split: if_splits)
qed

lemma year_not_word:
  "year_at s = Some y \<Longrightarrow> \<not> ci_prefix ''present'' s \<and> \<not> ci_prefix ''current'' s"
  by (auto dest!: year_at_Some simp: ci_prefix_Cons toLowerChar_def)

lemma present_not_current: "ci_prefix ''present'' s \<Longrightarrow> \<not> ci_prefix ''current'' s"
  by (auto simp: ci_prefix_Cons toLowerChar_def split: list.splits)

lemma word_last:
  assumes "ci_prefix ''present'' s \<or> ci_prefix ''current'' s"
  shows "isWord (s ! 6) \<and> 7 \<le> length s"
proof -
  have t: "toLowerChar CHR ''t'' = CHR ''t''"
    by (simp add: toLowerChar_def)
  show ?thesis
    using assms by (auto simp: ci_prefix_Cons t lower_t_word split: list.splits)
qed

lemma word7_states:
  assumes "length w = 7"
  shows "re_states (liti w) (b, s, caps)
           = (if ci_prefix w s then [(Some (s ! 6), drop 7 s, caps)] else [])"
proof -
  have "w \<noteq> []" using assms by auto
  then show ?thesis
    using assms by (simp add: liti_states)
qed

lemma word_states:
  "re_states (liti ''present'') (b, s, caps)
     = (if ci_prefix ''present'' s then [(Some (s ! 6), drop 7 s, caps)] else [])"
  "re_states (liti ''current'') (b, s, caps)
     = (if ci_prefix ''current'' s then [(Some (s ! 6), drop 7 s, caps)] else [])"
  by (rule word7_states, simp)+

lemma end_states:
  "re_states (Cat (Grp 2 (alts [yearRe, liti ''present'', liti ''current''])) (Cat Wordb Eps))
       (b, s, caps)
     = (case end_at s of
          None \<Rightarrow> []
        | Some (e, n) \<Rightarrow> [(Some (s ! (n - 1)), drop n s, (2, take n s) # caps)])"
proof (cases "year_at s")
  case (Some y)
  obtain c d r where s: "s = CHR ''2'' # CHR ''0'' # c # d # r" and d: "isDigit d"
    using year_at_Some[OF Some] by blast
  show ?thesis
    using year_not_word[OF Some] Some digit_word[OF d]
    by (simp add: alts_def yearRe_states word_states end_at_def open_end_iff wordAt_def s)
next
  case None
  show ?thesis
  proof (cases "ci_prefix ''present'' s")
    case True
    show ?thesis
      using None True present_not_current[OF True] word_last[of s]
      by (simp add: alts_def yearRe_states word_states end_at_def open_end_iff wordAt_def)
  next
    case False
    show ?thesis
    proof (cases "ci_prefix ''current'' s")
      case True
      show ?thesis
        using None True False word_last[of s]
        by (simp add: alts_def yearRe_states word_states end_at_def open_end_iff wordAt_def)
    next
      case c: False
      show ?thesis
        using None False c
        by (simp add: alts_def yearRe_states word_states end_at_def)
    qed
  qed
qed

lemma parseInt_year: "year_at s = Some y \<Longrightarrow> parseInt (take 4 s) = int y"
  by (auto dest!: year_at_Some simp: parseInt_def digitVal_def isDigit_def)

lemma word_needs: "needs notDigit (alts [liti ''present'', liti ''current''])"
  by (simp add: alts_def liti_def notDigit_def isDigit_def toLowerChar_def char_of_def
      bit_Suc_0_iff Let_def)

lemma year_text_no_word:
  assumes "year_at s = Some y"
  shows "\<not> re_test (alts [liti ''present'', liti ''current'']) (take 4 s)"
proof -
  have "\<forall>x \<in> set (take 4 s). \<not> notDigit x"
    using year_at_Some[OF assms] by (auto simp: notDigit_def isDigit_def)
  then show ?thesis
    using needs_no_search[OF word_needs] by (simp add: re_test_def str_match_def)
qed

lemma ci_prefix_take: "ci_prefix w s \<Longrightarrow> length w = n \<Longrightarrow> ci_prefix w (take n s)"
  by (auto simp: ci_prefix_def)

lemma word_text_word:
  assumes "ci_prefix ''present'' s \<or> ci_prefix ''current'' s"
  shows "re_test (alts [liti ''present'', liti ''current'']) (take 7 s)"
proof -
  have p: "ci_prefix ''present'' (take 7 s) \<or> ci_prefix ''current'' (take 7 s)"
    using assms ci_prefix_take[of "''present''" s 7] ci_prefix_take[of "''current''" s 7] by auto
  obtain c cs where t: "take 7 s = c # cs"
    using word_last[OF assms] by (cases "take 7 s") auto
  have "re_states (alts [liti ''present'', liti ''current'']) (None, take 7 s, []) \<noteq> []"
    using p by (auto simp: alts_def word_states)
  then show ?thesis
    by (auto simp: re_test_def str_match_def t split: list.splits)
qed

lemma end_text:
  assumes "end_at s = Some (e, n)"
  shows "(if re_test (alts [liti ''present'', liti ''current'']) (take n s) then cy
          else parseInt (take n s)) = end_year cy e"
    and "n \<le> length s" and "0 < n"
proof -
  show "(if re_test (alts [liti ''present'', liti ''current'']) (take n s) then cy
          else parseInt (take n s)) = end_year cy e"
  proof (cases "year_at s")
    case (Some y)
    then show ?thesis
      using assms year_text_no_word[OF Some] parseInt_year[OF Some]
      by (auto simp: end_at_def end_year_def split: if_splits)
  next
    case None
    then show ?thesis
      using assms word_text_word[of s]
      by (auto simp: end_at_def end_year_def split: if_splits)
  qed
  show "n \<le> length s"
  proof (cases "year_at s")
    case (Some y)
    then show ?thesis
      using assms year_at_Some[OF Some] by (auto simp: end_at_def split: if_splits)
  next
    case None
    then show ?thesis
      using assms word_last[of s] by (auto simp: end_at_def split: if_splits)
  qed
  show "0 < n"
    using assms by (auto simp: end_at_def split: option.splits if_splits)
qed

lemma suffix_drop_eq: "suffix t s \<Longrightarrow> drop (length s - length t) s = t"
  by (auto simp: suffix_def)

lemma dropWhile_rest: "dropWhile p xs = x # r \<Longrightarrow> \<not> (\<forall>y \<in> set xs. p y)"
  by (metis dropWhile_eq_Nil_conv list.distinct(1))

lemma body_states:
  "re_states
     (Cat (Grp 1 yearRe)
       (Cat (Many isSpace)
         (Cat (Chr (\<lambda>c. c = CHR ''-'' \<or> c = enDash))
           (Cat (Many isSpace)
             (Cat (Grp 2 (alts [yearRe, liti ''present'', liti ''current''])) (Cat Wordb Eps))))))
     (b, s, [])
   = (case year_at s of
        None \<Rightarrow> []
      | Some y \<Rightarrow>
          (case dropWhile isSpace (drop 4 s) of
             [] \<Rightarrow> []
           | d # r \<Rightarrow>
               if isDash d
               then (case end_at (dropWhile isSpace r) of
                       None \<Rightarrow> []
                     | Some (e, n) \<Rightarrow>
                         [(Some (dropWhile isSpace r ! (n - 1)), drop n (dropWhile isSpace r),
                           [(2, take n (dropWhile isSpace r)), (1, take 4 s)])])
               else []))"
proof -
  let ?E = "Cat (Grp 2 (alts [yearRe, liti ''present'', liti ''current''])) (Cat Wordb Eps)"
  let ?D = "Cat (Chr (\<lambda>c. c = CHR ''-'' \<or> c = enDash)) (Cat (Many isSpace) ?E)"
  let ?M = "Cat (Many isSpace) ?D"
  have e: "re_states (Cat (Many isSpace) ?E) (b, s, caps)
             = re_states ?E (if takeWhile isSpace s = [] then b else Some (last (takeWhile isSpace s)),
                             dropWhile isSpace s, caps)" for b s caps
    by (rule many_then) (simp add: end_states space_no_end del: re_states.simps)
  have d: "re_states ?M (b, s, caps)
             = re_states ?D (if takeWhile isSpace s = [] then b else Some (last (takeWhile isSpace s)),
                             dropWhile isSpace s, caps)" for b s caps
    by (rule many_then) (use space_not_dash in \<open>auto simp: isDash_def\<close>)
  have s3: "re_states ?D (b, r1, caps)
              = (case r1 of
                   [] \<Rightarrow> []
                 | x # r2 \<Rightarrow> if isDash x then re_states (Cat (Many isSpace) ?E) (Some x, r2, caps) else [])"
    for b r1 caps
    by (subst re_states.simps(2)) (simp add: isDash_def split: list.splits del: re_states.simps(2))
  have s1: "re_states (Cat (Grp 1 yearRe) ?M) (b, s, [])
              = (case year_at s of
                   None \<Rightarrow> []
                 | Some y \<Rightarrow> re_states ?M (Some (s ! 3), drop 4 s, [(1, take 4 s)]))"
  proof (cases "year_at s")
    case None
    then show ?thesis
      by (subst re_states.simps(2)) (simp add: yearRe_states del: re_states.simps(2))
  next
    case (Some y)
    have "4 \<le> length s" using year_at_Some[OF Some] by auto
    then have "length s - (length s - 4) = 4" by simp
    then show ?thesis
      using Some
      by (subst re_states.simps(2)) (simp add: yearRe_states del: re_states.simps(2))
  qed
  show ?thesis
    unfolding s1
    by (auto simp: d s3 e end_states dropWhile_eq_Nil_conv split: option.splits list.splits
        simp del: re_states.simps dest: dropWhile_rest)
qed

lemmas body_states' = body_states body_states[unfolded One_nat_def]

lemma yearRangeRe_Cat:
  "yearRangeRe
     = Cat Wordb
        (Cat (Grp 1 yearRe)
          (Cat (Many isSpace)
            (Cat (Chr (\<lambda>c. c = CHR ''-'' \<or> c = enDash))
              (Cat (Many isSpace)
                (Cat (Grp 2 (alts [yearRe, liti ''present'', liti ''current'']))
                  (Cat Wordb Eps))))))"
  by (simp add: yearRangeRe_def seqs_def)

lemma year_next_word: "year_at s = Some y \<Longrightarrow> wordAt (nextChar s)"
  by (auto dest!: year_at_Some simp: wordAt_def nextChar_def isWord_def)

lemma range_at_word: "range_at b s = (if wordAt b then None else range_at_start s)"
  by (simp add: range_at_def wordAt_def split: option.splits)

lemma range_states_none:
  assumes "range_at b s = None"
  shows "re_states yearRangeRe (b, s, []) = []"
proof (cases "year_at s")
  case None
  then show ?thesis
    unfolding yearRangeRe_Cat
    by (subst re_states.simps(2)) (simp add: body_states' del: re_states.simps(2))
next
  case (Some y)
  show ?thesis
  proof (cases "wordAt b")
    case True
    then show ?thesis
      unfolding yearRangeRe_Cat
      using year_next_word[OF Some]
      by (subst re_states.simps(2)) (simp del: re_states.simps(2))
  next
    case False
    then have "range_at_start s = None"
      using assms by (simp add: range_at_word)
    then show ?thesis
      unfolding yearRangeRe_Cat
      using Some
      by (subst re_states.simps(2))
        (auto simp: body_states' range_at_start_def split: list.splits option.splits if_splits
          simp del: re_states.simps(2) dest: dropWhile_rest)
  qed
qed

lemma range_states_some:
  assumes "range_at b s = Some (r, n)"
  shows "\<exists>b' caps. re_states yearRangeRe (b, s, []) = [(b', drop n s, caps)]
           \<and> 0 < n \<and> n \<le> length s
           \<and> (\<forall>m. m_groups m = caps \<longrightarrow> rangeMonths cy m = 12 * range_years cy r)"
proof -
  have w: "\<not> wordAt b" and st: "range_at_start s = Some (r, n)"
    using assms by (auto simp: range_at_word split: if_splits)
  obtain y e d t k where y: "year_at s = Some y" and r: "r = (y, e)"
    and dr: "dropWhile isSpace (drop 4 s) = d # t" and dd: "isDash d"
    and e: "end_at (dropWhile isSpace t) = Some (e, k)"
    and n: "n = length s - length (dropWhile isSpace t) + k"
    using st by (auto simp: range_at_start_def split: option.splits list.splits if_splits)
  let ?t = "dropWhile isSpace t"
  have "suffix ?t t" by (rule suffix_dropWhile)
  also have "suffix t (d # t)" by (simp add: suffix_ConsI)
  also have "suffix (d # t) (drop 4 s)"
    using suffix_dropWhile[of isSpace "drop 4 s"] dr by simp
  also have "suffix (drop 4 s) s" by (rule suffix_drop)
  finally have suf: "suffix ?t s" .
  have len: "length ?t \<le> length s"
    using suf by (rule suffix_length_le)
  have dt: "drop (length s - length ?t) s = ?t"
    using suf by (rule suffix_drop_eq)
  have k: "k \<le> length ?t" "0 < k"
    using end_text(2,3)[OF e] by simp_all
  have dn: "drop n s = drop k ?t"
  proof -
    have "drop k ?t = drop k (drop (length s - length ?t) s)"
      using dt by simp
    also have "\<dots> = drop n s"
      by (simp add: n add.commute)
    finally show ?thesis by simp
  qed
  have states: "re_states yearRangeRe (b, s, [])
      = [(Some (?t ! (k - 1)), drop n s, [(2, take k ?t), (1, take 4 s)])]"
    unfolding yearRangeRe_Cat
    using w year_next_word[OF y] y dr dd e dn
    by (subst re_states.simps(2)) (simp add: body_states' del: re_states.simps(2))
  have months: "rangeMonths cy m = 12 * range_years cy r"
    if "m_groups m = [(2, take k ?t), (1, take 4 s)]" for m
    using that end_text(1)[OF e, of cy] parseInt_year[OF y]
    by (auto simp: rangeMonths_def groupText_def group_def range_years_def r Let_def
        split: if_splits)
  show ?thesis
    using states months k len n by auto
qed

lemma scan_ranges:
  "map (rangeMonths cy) (re_scan yearRangeRe b s i k)
     = map (\<lambda>r. 12 * range_years cy r) (ranges_from b s k)"
proof (induction s arbitrary: b i k)
  case Nil
  have "range_at b [] = None"
    by (simp add: range_at_word range_at_start_def year_at_def)
  then show ?case
    using range_states_none[of b "[]"] by simp
next
  case (Cons c cs)
  show ?case
  proof (cases "k > 0")
    case True
    then show ?thesis
      using Cons.IH[of "Some c" "Suc i" "k - 1"] by simp
  next
    case False
    show ?thesis
    proof (cases "range_at b (c # cs)")
      case None
      then show ?thesis
        using False range_states_none[OF None] Cons.IH[of "Some c" "Suc i" 0] by simp
    next
      case (Some p)
      obtain r n where p: "p = (r, n)" by (cases p)
      obtain b' caps where st: "re_states yearRangeRe (b, c # cs, []) = [(b', drop n (c # cs), caps)]"
        and n: "0 < n" "n \<le> length (c # cs)"
        and m: "\<And>m. m_groups m = caps \<Longrightarrow> rangeMonths cy m = 12 * range_years cy r"
        using range_states_some[OF Some[unfolded p], of cy] by blast
      have len: "length (c # cs) - length (drop n (c # cs)) - 1 = n - 1"
        using n by simp
      show ?thesis
        using False Some p st m Cons.IH[of "Some c" "Suc i" "n - 1"] len
        by (simp del: re_states.simps length_drop drop.simps)
    qed
  qed
qed

lemma foldl_months:
  "foldl (\<lambda>t m. t + rangeMonths cy m) (a :: int) ms = a + sum_list (map (rangeMonths cy) ms)"
  by (induction ms arbitrary: a) auto

lemma sum_times: "sum_list (map (\<lambda>r. 12 * f r) rs) = 12 * (sum_list (map f rs) :: int)"
  by (induction rs) auto

lemma months_total:
  "foldl (\<lambda>t m. t + rangeMonths cy m) 0 (matchAll text yearRangeRe)
     = 12 * sum_list (map (range_years cy) (year_ranges text))"
  using scan_ranges[of cy None "text" 0 0]
  by (simp add: foldl_months matchAll_def year_ranges_def sum_times)


section \<open>Experience inferred from year ranges\<close>

lemma direct_needs:
  "needs isY (directPatterns ! 0)" "needs isX (directPatterns ! 1)"
  by (simp_all add: directPatterns_def decimalRe_def isX_def isY_def re_defs)

lemma no_direct:
  assumes "\<forall>x \<in> set s. \<not> isY x" and "\<forall>x \<in> set s. \<not> isX x"
  shows "firstDirect directPatterns s = None"
proof -
  obtain p1 p2 where d: "directPatterns = [p1, p2]"
    by (simp add: directPatterns_def)
  have "needs isY ([p1, p2] ! 0)" "needs isX ([p1, p2] ! 1)"
    using direct_needs unfolding d by blast+
  then have "needs isY p1" "needs isX p2"
    by simp_all
  then show ?thesis
    using needs_no_search assms by (simp add: d str_match_def)
qed

lemma sample_ranges: "year_ranges ranges_text = [(2019, Until 2021), (2022, Present)]"
  by (simp add: year_ranges_def ranges_text_def range_at_def range_at_start_def year_at_def
      end_at_def open_end_def ci_prefix_def isDash_def digitVal_def enDash_def
      isWord_def isDigit_def isSpace_def toLowerCase_def toLowerChar_def char_of_def
      bit_Suc_0_iff Let_def)

lemma sample_no_direct: "firstDirect directPatterns ranges_text = None"
  by (rule no_direct)
    (simp_all add: ranges_text_def isY_def isX_def enDash_def toLowerChar_def char_of_def
      bit_Suc_0_iff Let_def)

text \<open>
  Claim C8, as the claim states it, fails for a range outside this century: on "1998-2005"
  no direct pattern matches and the result is 0, not 7.
\<close>

theorem year_range_counterexample:
  "firstDirect directPatterns ''1998-2005'' = None
   \<and> extractExperienceYears 2024 ''1998-2005'' = Whole 0"
  by (simp add: extractExperienceYears_def directPatterns_def decimalRe_def yearRangeRe_def
      yearRe_def rangeMonths_def re_defs)

text \<open>
  Claim C8, amended.  For every document in which no direct "N years of experience"
  pattern matches, the inference takes the year ranges of the document from the left,
  none overlapping an earlier one.  A range starts at a word boundary with a year
  \<open>20YY\<close> (2000 to 2099), followed by optional white space, a hyphen or an en dash,
  optional white space, and a year \<open>20YY\<close> or the word present or current in any letter
  case, which ends at a word boundary.  The result is the sum of \<open>end - start\<close> over these
  ranges, present and current standing for the current year, when that sum is positive,
  and 0 otherwise: the months summed are twelve times that sum, so dividing by twelve
  needs no rounding.  A range of another century, or one glued to a letter or digit, is
  not counted; a document without any range gives 0.
\<close>

theorem experience_from_ranges:
  "firstDirect directPatterns text = None \<Longrightarrow>
     extractExperienceYears currentYear text
       = Whole (max 0 (sum_list (map (range_years currentYear) (year_ranges text))))"
  by (simp add: extractExperienceYears_def months_total Let_def max_def)

theorem experience_from_ranges_witness:
  "firstDirect directPatterns ranges_text = None
   \<and> year_ranges ranges_text = [(2019, Until 2021), (2022, Present)]
   \<and> extractExperienceYears 2024 ranges_text = Whole 4"
  using experience_from_ranges[OF sample_no_direct, of 2024] sample_no_direct
  by (simp add: sample_ranges range_years_def end_year_def)


section \<open>The job identity\<close>

lemma concat_singletons: "concat (map (\<lambda>x. [x]) xs) = xs"
  by (induction xs) auto

lemma re_states_Eps_fun: "re_states Eps = (\<lambda>x. [x])"
  by (rule ext) simp

lemma digit_next_iff: "digit_next s = (s \<noteq> [] \<and> isDigit (hd s))"
  by (cases s) (auto simp: digit_next_def)

lemma seq2_states:
  assumes "length w = n" and "w \<noteq> []"
  shows "re_states (seqs [liti w, G]) (b, s, caps)
           = (if ci_prefix w s then re_states G (Some (s ! (n - 1)), drop n s, caps) else [])"
  using assms
  by (simp add: seqs_def liti_states re_states_Eps_fun concat_singletons)

lemma seq3_states:
  assumes "length w = n" and "w \<noteq> []"
  shows "re_states (seqs [Chr p, liti w, G]) (b, c # cs, caps)
           = (if p c \<and> ci_prefix w cs then re_states G (Some (cs ! (n - 1)), drop n cs, caps)
              else [])"
  using assms
  by (simp add: seqs_def liti_states re_states_Eps_fun concat_singletons)

lemma seq3_states_Nil: "re_states (seqs [Chr p, liti w, G]) (b, [], caps) = []"
  by (simp add: seqs_def)

lemma digits_none:
  "\<not> digit_next s \<Longrightarrow> re_states (Grp 1 (Plus isDigit)) (b, s, caps) = []"
  using plus_group_states[of 1 isDigit b s caps] by (auto simp: digit_next_iff)

lemma digits_some:
  "digit_next s \<Longrightarrow>
   \<exists>b' t' others. re_states (Grp 1 (Plus isDigit)) (b, s, caps)
      = (b', t', (1, takeWhile isDigit s) # caps) # others"
  using plus_group_states[of 1 isDigit b s caps] by (auto simp: digit_next_iff)

lemma view_len: "length ''linkedin.com/jobs/view/'' = 23" "''linkedin.com/jobs/view/'' \<noteq> []"
  by simp_all

lemma param_len: "length ''currentJobId='' = 13" "''currentJobId='' \<noteq> []"
  by simp_all

lemma view_states_none: "\<not> view_at s \<Longrightarrow> re_states viewIdRe (b, s, []) = []"
  unfolding viewIdRe_def seq2_states[OF view_len] view_at_def
  using digits_none by auto

lemma view_states_some:
  assumes "view_at s"
  shows "\<exists>b' t' others. re_states viewIdRe (b, s, [])
           = (b', t', [(1, takeWhile isDigit (drop 23 s))]) # others"
  using assms digits_some[of "drop 23 s" "Some (s ! (23 - 1))" "[]"]
  unfolding viewIdRe_def seq2_states[OF view_len] view_at_def
  by auto

lemma param_states_none: "\<not> param_at s \<Longrightarrow> re_states currentJobIdRe (b, s, []) = []"
proof (cases s)
  case Nil
  then show ?thesis unfolding currentJobIdRe_def by (simp only: seq3_states_Nil)
next
  case (Cons c cs)
  assume "\<not> param_at s"
  then show ?thesis
    unfolding currentJobIdRe_def Cons seq3_states[OF param_len] param_at_def
    using digits_none by auto
qed

lemma param_states_some:
  assumes "param_at s"
  shows "\<exists>b' t' others. re_states currentJobIdRe (b, s, [])
           = (b', t', [(1, takeWhile isDigit (drop 14 s))]) # others"
proof -
  obtain c cs where s: "s = c # cs" using assms by (cases s) (auto simp: param_at_def)
  have d: "drop 14 (c # cs) = drop 13 cs" by simp
  show ?thesis
    using assms digits_some[of "drop 13 cs" "Some (cs ! (13 - 1))" "[]"]
    unfolding currentJobIdRe_def s seq3_states[OF param_len] param_at_def d
    by auto
qed

lemma search_first:
  assumes some: "\<And>b t. P t \<Longrightarrow> \<exists>b' t' others. re_states r (b, t, []) = (b', t', [(1, g t)]) # others"
    and none: "\<And>b t. \<not> P t \<Longrightarrow> re_states r (b, t, []) = []"
  shows "(case re_search r b s i of None \<Rightarrow> None | Some m \<Rightarrow> group m 1)
           = map_option g (first_at P s)"
proof (induction s arbitrary: b i)
  case Nil
  show ?case
  proof (cases "P []")
    case True
    then show ?thesis using some[OF True, of b] by (auto simp: group_def)
  next
    case False
    then show ?thesis using none[OF False, of b] by simp
  qed
next
  case (Cons c cs)
  show ?case
  proof (cases "P (c # cs)")
    case True
    then show ?thesis using some[OF True, of b] by (auto simp: group_def)
  next
    case False
    then show ?thesis using none[OF False, of b] Cons.IH by simp
  qed
qed

lemma first_view: "firstGroup u viewIdRe = view_id u"
  using search_first[of view_at viewIdRe "\<lambda>s. takeWhile isDigit (drop 23 s)" None u 0]
    view_states_some view_states_none
  by (simp add: firstGroup_def str_match_def view_id_def)

lemma first_param: "firstGroup u currentJobIdRe = search_id u"
  using search_first[of param_at currentJobIdRe "\<lambda>s. takeWhile isDigit (drop 14 s)" None u 0]
    param_states_some param_states_none
  by (simp add: firstGroup_def str_match_def search_id_def)

lemma first_at_holds: "first_at P s = Some t \<Longrightarrow> P t"
  by (induction s) (auto split: if_splits)

lemma view_id_nonempty: "view_id u = Some v \<Longrightarrow> v \<noteq> []"
proof -
  assume "view_id u = Some v"
  then obtain t where t: "first_at view_at u = Some t" "v = takeWhile isDigit (drop 23 t)"
    by (auto simp: view_id_def)
  then have "digit_next (drop 23 t)" using first_at_holds[of view_at u t] by (simp add: view_at_def)
  then show ?thesis using t(2) by (cases "drop 23 t") (auto simp: digit_next_def)
qed

lemma search_id_nonempty: "search_id u = Some v \<Longrightarrow> v \<noteq> []"
proof -
  assume "search_id u = Some v"
  then obtain t where t: "first_at param_at u = Some t" "v = takeWhile isDigit (drop 14 t)"
    by (auto simp: search_id_def)
  then have "param_at t" using first_at_holds[of param_at u t] by simp
  then obtain c cs where "t = c # cs" "digit_next (drop 13 cs)"
    by (cases t) (auto simp: param_at_def)
  then show ?thesis using t(2) by (cases "drop 13 cs") (auto simp: digit_next_def)
qed

lemma identity_refinement:
  "getJobIdentity href j =
     (let u = (if url j = [] then href else url j) in
      case view_id u of
        Some v \<Rightarrow> ''li_view_'' @ v
      | None \<Rightarrow> (case search_id u of Some n \<Rightarrow> ''li_search_'' @ n | None \<Rightarrow> getJobSignature j))"
  using view_id_nonempty search_id_nonempty
  by (auto simp: getJobIdentity_def Let_def first_view first_param split: option.splits)

lemma ensure_fields:
  "url (ensureJobDescription texts j) = url j"
  "title (ensureJobDescription texts j) = title j"
  "company (ensureJobDescription texts j) = company j"
  by (simp_all add: ensureJobDescription_def Let_def)

lemma open_identity: "currentJobIdentity (openSidebar u s) = currentJobIdentity s"
  by (simp add: openSidebar_def injectOverlay_def Let_def)

lemma page_success:
  "onPageChange u now (Some j) texts s =
     (let n = ensureJobDescription texts j;
          i = getJobIdentity u n
      in (fst (onPageChange u now (Some j) texts s), [UPSERT_CURRENT_JOB n], currentJobIdentity s \<noteq> i))"
  by (simp add: onPageChange_def Let_def open_identity)

lemma page_success_state:
  "currentJobIdentity (fst (onPageChange u now (Some j) texts s))
     = getJobIdentity u (ensureJobDescription texts j)"
  "currentJobData (fst (onPageChange u now (Some j) texts s)) = Some (ensureJobDescription texts j)"
  "lastExtractionSuccessAt (fst (onPageChange u now (Some j) texts s)) = now"
  by (simp_all add: onPageChange_def Let_def)

lemmas id_eval = view_id_def search_id_def view_at_def param_at_def ci_prefix_def digit_next_def
  toLowerCase_def toLowerChar_def char_of_def bit_Suc_0_iff isDigit_def Let_def

lemma url_search_ids: "view_id url_search = None" "search_id url_search = Some ''12345''"
  by (simp_all add: url_search_def id_eval)

lemma url_both_ids: "view_id url_both = Some ''999''" "search_id url_both = Some ''12345''"
  by (simp_all add: url_both_def id_eval)

text \<open>
  Claim C5, as the claim states it, fails for a url that carries both ids: the job-view
  id is tried first and wins.
\<close>

theorem native_id_counterexample:
  "search_id (url job_both) = Some ''12345''
   \<and> getJobIdentity [] job_both = ''li_view_999''"
  by (simp add: identity_refinement job_both_def url_both_ids) (simp add: url_both_def)

text \<open>
  Claim C5, amended.  For every posting with a url that has no numeric job-view id
  (\<open>linkedin.com/jobs/view/\<close> and digits) and whose first numeric \<open>currentJobId\<close> query
  parameter is \<open>N\<close>, the identity is \<open>li_search_N\<close>, whatever its title, company and
  description; with a job-view id \<open>V\<close> it is \<open>li_view_V\<close>.  Hence a second successful
  extraction with the same url and a changed title has the same identity: it replaces the
  current posting, sets the last-success time, notifies the worker with the new posting,
  and raises no "new job" prompt.
\<close>

theorem native_id_identity:
  "(url j \<noteq> [] \<and> view_id (url j) = None \<and> search_id (url j) = Some n \<longrightarrow>
      getJobIdentity href j = ''li_search_'' @ n)
   \<and> (url j \<noteq> [] \<and> view_id (url j) = Some v \<longrightarrow> getJobIdentity href j = ''li_view_'' @ v)
   \<and> (url j1 \<noteq> [] \<and> url j2 = url j1 \<and> view_id (url j1) = None \<and> search_id (url j1) = Some n \<longrightarrow>
        currentJobIdentity (fst (onPageChange u1 t1 (Some j1) texts1 s0)) = ''li_search_'' @ n
        \<and> currentJobIdentity
             (fst (onPageChange u2 t2 (Some j2) texts2 (fst (onPageChange u1 t1 (Some j1) texts1 s0))))
            = ''li_search_'' @ n
        \<and> currentJobData
             (fst (onPageChange u2 t2 (Some j2) texts2 (fst (onPageChange u1 t1 (Some j1) texts1 s0))))
            = Some (ensureJobDescription texts2 j2)
        \<and> title (ensureJobDescription texts2 j2) = title j2
        \<and> lastExtractionSuccessAt
             (fst (onPageChange u2 t2 (Some j2) texts2 (fst (onPageChange u1 t1 (Some j1) texts1 s0))))
            = t2
        \<and> snd (onPageChange u2 t2 (Some j2) texts2 (fst (onPageChange u1 t1 (Some j1) texts1 s0)))
            = ([UPSERT_CURRENT_JOB (ensureJobDescription texts2 j2)], False))"
proof -
  have a: "getJobIdentity h j = ''li_search_'' @ m"
    if "url j \<noteq> []" "view_id (url j) = None" "search_id (url j) = Some m" for h j m
    using that by (simp add: identity_refinement)
  have b: "getJobIdentity href j = ''li_view_'' @ v"
    if "url j \<noteq> []" "view_id (url j) = Some v"
    using that by (simp add: identity_refinement)
  have c: "getJobIdentity h (ensureJobDescription texts j) = ''li_search_'' @ m"
    if "url j \<noteq> []" "view_id (url j) = None" "search_id (url j) = Some m" for h j m texts
    using a[of "ensureJobDescription texts j" m h] that by (simp add: ensure_fields)
  have d: "snd (onPageChange u2 t2 (Some j2) texts2 (fst (onPageChange u1 t1 (Some j1) texts1 s0)))
            = ([UPSERT_CURRENT_JOB (ensureJobDescription texts2 j2)], False)"
    if h: "url j1 \<noteq> []" "url j2 = url j1" "view_id (url j1) = None" "search_id (url j1) = Some n"
  proof -
    have "getJobIdentity u2 (ensureJobDescription texts2 j2) = ''li_search_'' @ n"
      using c[of j2 n u2 texts2] h by simp
    moreover have "currentJobIdentity (fst (onPageChange u1 t1 (Some j1) texts1 s0)) = ''li_search_'' @ n"
      using c[OF h(1,3,4), of u1 texts1] by (simp add: page_success_state)
    ultimately show ?thesis
      by (subst page_success) (simp add: Let_def)
  qed
  show ?thesis
    using a[of j n href] b c[of j1 n u1 texts1] c[of j2 n u2 texts2] d
    by (simp add: page_success_state ensure_fields)
qed

theorem native_id_identity_witness:
  "url job_sample \<noteq> [] \<and> url job_renamed = url job_sample
   \<and> view_id (url job_sample) = None \<and> search_id (url job_sample) = Some ''12345''
   \<and> title job_renamed \<noteq> title job_sample
   \<and> getJobIdentity [] job_sample = ''li_search_12345''
   \<and> getJobIdentity [] job_renamed = ''li_search_12345''
   \<and> snd (onPageChange url_search 2000 (Some job_renamed) []
             (fst (onPageChange url_search 1000 (Some job_sample) [] initial_state)))
       = ([UPSERT_CURRENT_JOB (ensureJobDescription [] job_renamed)], False)"
proof -
  have u: "url job_sample = url_search" "url job_renamed = url_search"
    by (simp_all add: job_sample_def job_renamed_def)
  have t: "title job_renamed \<noteq> title job_sample"
    by (simp add: job_sample_def job_renamed_def)
  show ?thesis
    using native_id_identity[of job_sample "''12345''" "[]" _ job_sample job_renamed url_search 1000 "[]"
        initial_state url_search 2000 "[]"]
      native_id_identity[of job_renamed "''12345''" "[]"]
      u t url_search_ids url_search_nonempty
    by simp
qed


section \<open>Copies and the document\<close>

lemma ident_in_ids: "ident t \<in> ids t"
  by (cases t) auto

lemma relabel_ids:
  "relabel n t = (t', m) \<Longrightarrow> n < m \<and> ident t' = n \<and> (\<forall>i \<in> ids t'. n \<le> i \<and> i < m)"
  "relabel_list n ts = (ts', m) \<Longrightarrow> n \<le> m \<and> (\<forall>k \<in> set ts'. \<forall>i \<in> ids k. n \<le> i \<and> i < m)"
proof (induction n t and n ts arbitrary: t' m and ts' m rule: relabel_relabel_list.induct)
  case (1 n i s)
  then show ?case by auto
next
  case (2 n i t as ks)
  obtain ks' m' where r: "relabel_list (Suc n) ks = (ks', m')"
    by (cases "relabel_list (Suc n) ks")
  have t': "t' = Elem n t as ks'" and m: "m = m'"
    using "2.prems" r by auto
  have "Suc n \<le> m' \<and> (\<forall>k \<in> set ks'. \<forall>i \<in> ids k. Suc n \<le> i \<and> i < m')"
    using "2.IH"[OF r] .
  then show ?case
    unfolding t' m by (auto simp: less_eq_Suc_le) (meson Suc_leD)
next
  case (3 n)
  then show ?case by auto
next
  case (4 n k ks)
  obtain k' m1 where r1: "relabel n k = (k', m1)"
    by (cases "relabel n k")
  obtain ks' m2 where r2: "relabel_list m1 ks = (ks', m2)"
    by (cases "relabel_list m1 ks")
  have e: "ts' = k' # ks'" "m = m2"
    using "4.prems" r1 r2 by auto
  have a: "n < m1 \<and> ident k' = n \<and> (\<forall>i \<in> ids k'. n \<le> i \<and> i < m1)"
    using "4.IH"(1)[OF r1] .
  have b: "m1 \<le> m2 \<and> (\<forall>x \<in> set ks'. \<forall>i \<in> ids x. m1 \<le> i \<and> i < m2)"
    using "4.IH"(2)[OF r1[symmetric] r2] .
  show ?case
    unfolding e using a b by (auto intro: less_le_trans le_trans less_imp_le)
qed

lemma prune_absent: "i \<notin> ids t \<Longrightarrow> prune i t = t"
proof (induction t)
  case (Elem j tg as ks)
  have a: "\<forall>k \<in> set ks. ident k \<noteq> i"
    using Elem.prems ident_in_ids by fastforce
  have b: "\<forall>k \<in> set ks. prune i k = k"
    using Elem.IH Elem.prems by auto
  show ?case
    using a b by (simp add: filter_id_conv map_idI)
next
  case (Txt j s)
  then show ?case by simp
qed

lemma prune_ids: "ids (prune i t) \<subseteq> ids t"
proof (induction t)
  case (Elem j tg as ks)
  then show ?case by auto
next
  case (Txt j s)
  then show ?case by simp
qed

lemma prune_ident: "ident (prune i t) = ident t"
  by (cases t) auto

lemma subtree_ids:
  "subtree i t = Some d \<Longrightarrow> i \<in> ids t"
  "subtree_list i ts = Some d \<Longrightarrow> \<exists>t \<in> set ts. i \<in> ids t"
  by (induction i t and i ts rule: subtree_subtree_list.induct) (auto split: if_splits option.splits)

lemma subtree_root: "subtree (ident t) t = Some t"
  by (cases t) auto

lemma below_ids:
  "(a, el) \<in> set (below anc t) \<Longrightarrow> ident el \<in> ids t"
  "(a, el) \<in> set (below_list anc ts) \<Longrightarrow> \<exists>t \<in> set ts. ident el \<in> ids t"
  by (induction anc t and anc ts rule: below_below_list.induct) (auto simp: ident_in_ids)

lemma select_below_ids: "el \<in> set (select_below sel root) \<Longrightarrow> ident el \<in> ids root"
  using below_ids(1) by (fastforce simp: select_below_def)

lemma subtree_absent: "i \<notin> ids t \<Longrightarrow> subtree i t = None"
  using subtree_ids(1) by (cases "subtree i t") auto

lemma keeps_node:
  assumes "keeps d c q"
  shows "\<exists>cl. node_of c q = Some cl \<and> ids cl \<inter> ids d = {}"
proof -
  obtain cl others where h: "document q = d" "c \<notin> ids d" "detached q = cl # others"
    "ident cl = c" "ids cl \<inter> ids d = {}"
    using assms by (auto simp: keeps_def)
  have "node_of c q = Some cl"
    using h subtree_absent[of c d] subtree_root[of cl] by (simp add: node_of_def)
  then show ?thesis using h(5) by blast
qed

lemma keeps_remove:
  assumes "keeps d c q" and "i \<notin> ids d"
  shows "keeps d c (remove_node i q)"
proof -
  obtain cl others where h: "document q = d" "c \<notin> ids d" "detached q = cl # others"
    "ident cl = c" "ids cl \<inter> ids d = {}"
    using assms(1) by (auto simp: keeps_def)
  have "ids (prune i cl) \<inter> ids d = {}"
    using prune_ids[of i cl] h(5) by blast
  then show ?thesis
    using h prune_absent[OF assms(2)] prune_ident[of i cl]
    by (auto simp: keeps_def remove_node_def)
qed

lemma keeps_remove_list:
  assumes "keeps d c q" and "\<forall>n \<in> set ns. ident n \<notin> ids d"
  shows "keeps d c (foldl (\<lambda>q n. remove_node (ident n) q) q ns)"
  using assms by (induction ns arbitrary: q) (auto simp: keeps_remove)

lemma keeps_removeAll:
  assumes "keeps d c q"
  shows "keeps d c (removeAll sel c q)"
proof -
  obtain cl where cl: "node_of c q = Some cl" "ids cl \<inter> ids d = {}"
    using keeps_node[OF assms] by blast
  have "\<forall>n \<in> set (select_below sel cl). ident n \<notin> ids d"
    using select_below_ids[of _ sel cl] cl(2) by blast
  then show ?thesis
    using keeps_remove_list[OF assms] cl(1) by (simp add: removeAll_def)
qed

lemma keeps_strip: "keeps d c q \<Longrightarrow> keeps d c (stripTags tags c q)"
  unfolding stripTags_def
  by (induction tags arbitrary: q) (auto simp: keeps_removeAll)

lemma clone_keeps:
  assumes "wf_page p" and "cloneNode el p = (c, p1)"
  shows "keeps (document p) c p1"
proof -
  obtain cl m where r: "relabel (next_id p) el = (cl, m)"
    by (cases "relabel (next_id p) el")
  have c: "c = next_id p" and p1: "p1 = p\<lparr>detached := cl # detached p, next_id := m\<rparr>"
    using assms(2) r by (auto simp: cloneNode_def)
  have f: "ident cl = next_id p" "\<forall>i \<in> ids cl. next_id p \<le> i"
    using relabel_ids(1)[OF r] by auto
  have d: "\<forall>i \<in> ids (document p). i < next_id p"
    using assms(1) by (simp add: wf_page_def)
  have "ids cl \<inter> ids (document p) = {}"
    using f(2) d by fastforce
  moreover have "c \<notin> ids (document p)"
    using c d by auto
  ultimately show ?thesis
    using f(1) c by (auto simp: keeps_def p1)
qed

lemma strip_clone_document:
  assumes "wf_page p" and "cloneNode el p = (c, p1)"
  shows "document (stripTags tags c p1) = document p"
  using keeps_strip[OF clone_keeps[OF assms]] by (simp add: keeps_def)

lemma extractGeneric_document:
  assumes "wf_page p"
  shows "document (snd (extractGeneric innerText p)) = document p"
proof -
  let ?descEl = "orNode (orNode (querySelector (has_class ''description'') p)
                                (querySelector (tag ''main'') p)) (document_body p)"
  show ?thesis
  proof (cases ?descEl)
    case None
    then show ?thesis by (simp add: extractGeneric_def Let_def)
  next
    case (Some el)
    obtain c p1 where cl: "cloneNode el p = (c, p1)"
      by (cases "cloneNode el p")
    show ?thesis
      using Some cl strip_clone_document[OF assms cl]
      by (simp add: extractGeneric_def Let_def)
  qed
qed

lemma extractMainContent_document:
  assumes "wf_page p"
  shows "document (snd (extractMainContent innerText el p)) = document p"
proof (cases el)
  case None
  then show ?thesis by (simp add: extractMainContent_def)
next
  case (Some e)
  obtain c p1 where cl: "cloneNode e p = (c, p1)"
    by (cases "cloneNode e p")
  show ?thesis
    using Some cl strip_clone_document[OF assms cl]
    by (simp add: extractMainContent_def Let_def)
qed

lemma extractLinkedIn_document:
  "wf_page p \<Longrightarrow> document (snd (extractLinkedIn innerText throws p)) = document p"
  by (simp add: extractLinkedIn_def Let_def extractGeneric_document)

lemma extractInternshala_document:
  "wf_page p \<Longrightarrow> document (snd (extractInternshala innerText throws p)) = document p"
  by (simp add: extractInternshala_def Let_def extractGeneric_document)

lemma extractJobData_document:
  assumes "wf_page p"
  shows "document (snd (extractJobData innerText throws href nowIso p)) = document p"
proof -
  let ?r = "(if detectSite innerText href p = LINKEDIN then extractLinkedIn innerText throws p
            else if detectSite innerText href p = INTERNSHALA then extractInternshala innerText throws p
            else if detectSite innerText href p = GENERIC then extractGeneric innerText p
            else (None, p))"
  have d: "document (snd ?r) = document p"
    using assms by (simp add: extractLinkedIn_document extractInternshala_document extractGeneric_document)
  obtain x p' where r: "?r = (x, p')" by (cases ?r)
  then have "document p' = document p" using d by simp
  then show ?thesis
    using r by (cases x) (simp_all add: extractJobData_def Let_def)
qed

lemmas sel_defs = querySelector_def select_all_def select_below_def matches_def matches_complex_def
  matches_compound_def is_element_def attr_def classes_def has_class_def tag_def cls_def
  document_body_def orNode_def toLowerCase_def toLowerChar_def char_of_def bit_Suc_0_iff isSpace_def

lemma page_sample_wf: "wf_page page_sample"
  by (simp add: wf_page_def page_sample_def)

lemma sample_desc: "querySelector (has_class ''description'') page_sample = Some sample_box"
  by (simp add: page_sample_def sample_box_def sel_defs)

lemma sample_clone:
  "cloneNode sample_box page_sample
     = (10, page_sample\<lparr>detached := [sample_copy], next_id := 16\<rparr>)"
  by (simp add: cloneNode_def sample_box_def sample_copy_def page_sample_def)

lemma sample_strip:
  "stripTags [''nav'', ''header'', ''footer'', ''script'', ''style''] 10
     (page_sample\<lparr>detached := [sample_copy], next_id := 16\<rparr>)
   = page_sample\<lparr>detached := [sample_stripped], next_id := 16\<rparr>"
  by (simp add: stripTags_def removeAll_def node_of_def remove_node_def page_sample_def
      sample_copy_def sample_stripped_def sel_defs)

lemma sample_generic_page:
  "snd (extractGeneric textContent page_sample)
     = page_sample\<lparr>detached := [sample_stripped], next_id := 16\<rparr>"
  by (simp add: extractGeneric_def Let_def sample_desc sample_clone sample_strip orNode_def)

text \<open>
  Claim C10.  On a page whose nodes all carry identities already given out (so that a
  deep copy gets new ones), the generic extractor, the helper \<open>extractMainContent\<close> and
  \<open>extractJobData\<close> on every site and on both branches of their \<open>try\<close> blocks leave the
  document's tree as it was: the nodes they remove are nodes of the copy.
\<close>

theorem extraction_keeps_page:
  assumes "wf_page p"
  shows "document (snd (extractGeneric innerText p)) = document p
     \<and> document (snd (extractMainContent innerText el p)) = document p
     \<and> document (snd (extractJobData innerText throws href nowIso p)) = document p"
  using extractGeneric_document[OF assms] extractMainContent_document[OF assms]
    extractJobData_document[OF assms]
  by blast

theorem extraction_keeps_page_witness:
  "wf_page page_sample
   \<and> document (snd (extractGeneric textContent page_sample)) = document page_sample
   \<and> detached (snd (extractGeneric textContent page_sample)) = [sample_stripped]
   \<and> subtree 5 (document (snd (extractGeneric textContent page_sample)))
       = Some (Elem 5 ''nav'' [] [Txt 6 ''Home''])
   \<and> document (snd (extractJobData textContent False ''https://example.com/careers/1''
                       ''2024-01-01T00:00:00.000Z'' page_sample)) = document page_sample"
proof -
  have n: "subtree 5 (document page_sample) = Some (Elem 5 ''nav'' [] [Txt 6 ''Home''])"
    by (simp add: page_sample_def)
  show ?thesis
    using extraction_keeps_page[OF page_sample_wf, of textContent None False
        "''https://example.com/careers/1''" "''2024-01-01T00:00:00.000Z''"]
      page_sample_wf n
    by (simp add: sample_generic_page)
qed

end
